theory Spec2Isabelle
  imports Main "HOL-Library.Sublist" "HOL-Library.Char_ord" "HOL-Library.List_Lexorder"
begin

section \<open>Errors, tenant contexts and results\<close>

text \<open>
  The SDK's error classes (\<^verbatim>\<open>utils/errors.ts\<close>). Every error carries a message, a
  code of \<^verbatim>\<open>ErrorCodes\<close> and an HTTP status. \<^verbatim>\<open>DataError\<close> extends \<^verbatim>\<open>SDKError\<close>;
  \<^verbatim>\<open>JsError\<close> stands for any other thrown JavaScript error (a driver error, a
  \<^verbatim>\<open>TypeError\<close>), of which the code only ever reads \<^verbatim>\<open>message\<close>.
\<close>

datatype exn =
    SDKError string string nat
  | DataError string string nat
  | JsError string

fun message :: "exn \<Rightarrow> string" where
  "message (SDKError m c s) = m"
| "message (DataError m c s) = m"
| "message (JsError m) = m"

text \<open>\<^verbatim>\<open>error instanceof DataError\<close>: true of the subclass only.\<close>

fun instanceof_DataError :: "exn \<Rightarrow> bool" where
  "instanceof_DataError (DataError m c s) = True"
| "instanceof_DataError e = False"

definition RESOURCE_NOT_FOUND :: string where "RESOURCE_NOT_FOUND = ''RESOURCE_NOT_FOUND''"
definition DATABASE_ERROR :: string where "DATABASE_ERROR = ''DATABASE_ERROR''"
definition INVALID_QUERY :: string where "INVALID_QUERY = ''INVALID_QUERY''"
definition CONFIGURATION_ERROR :: string where "CONFIGURATION_ERROR = ''CONFIGURATION_ERROR''"

text \<open>\<^verbatim>\<open>TenantContext\<close> of \<^verbatim>\<open>types/data\<close>; at run time \<^verbatim>\<open>tenant_id\<close> is a string.\<close>

record TenantContext =
  tenant_id :: string
  user_id :: string
  role :: string
  permissions :: "string list"

section \<open>The Redis cache adapter\<close>

text \<open>
  The Redis server as the adapter uses it: a table from physical keys to a serialized
  value and its time to live in seconds, in insertion order, and a connection that is up
  or down (every command of a connection that is down throws). Expiry of entries by the
  passing of time is outside the model.
\<close>

type_synonym redis_db = "(string \<times> (string \<times> nat)) list"

record redis =
  entries :: redis_db
  connected :: bool

record CacheStats =
  hits :: nat
  misses :: nat
  totalKeys :: nat

record CacheConfig =
  keyPrefix :: "string option"
  defaultTTL :: "nat option"

record cache_state =
  redis :: redis
  stats :: CacheStats

text \<open>
  \<^verbatim>\<open>getTenantKey\<close>: \<^verbatim>\<open>`${prefix}:tenant:${tenantId}:${key}`\<close> with
  \<^verbatim>\<open>prefix = this.config.keyPrefix || 'mt_sdk'\<close> (an empty prefix is falsy).
\<close>

definition key_prefix :: "CacheConfig \<Rightarrow> string" where
  "key_prefix cfg =
     (case keyPrefix cfg of None \<Rightarrow> ''mt_sdk''
      | Some p \<Rightarrow> if p = [] then ''mt_sdk'' else p)"

definition getTenantKey :: "CacheConfig \<Rightarrow> string \<Rightarrow> string \<Rightarrow> string" where
  "getTenantKey cfg key tenantId = key_prefix cfg @ '':tenant:'' @ tenantId @ '':'' @ key"

text \<open>\<^verbatim>\<open>ttlSeconds || this.config.defaultTTL || 3600\<close>: zero is falsy.\<close>

definition effective_ttl :: "CacheConfig \<Rightarrow> nat option \<Rightarrow> nat" where
  "effective_ttl cfg ttlSeconds =
     (case ttlSeconds of
        Some t \<Rightarrow> if t \<noteq> 0 then t
                  else (case defaultTTL cfg of Some d \<Rightarrow> if d \<noteq> 0 then d else 3600 | None \<Rightarrow> 3600)
      | None \<Rightarrow> (case defaultTTL cfg of Some d \<Rightarrow> if d \<noteq> 0 then d else 3600 | None \<Rightarrow> 3600))"

subsection \<open>Redis commands\<close>

definition redis_get :: "redis_db \<Rightarrow> string \<Rightarrow> string option" where
  "redis_get db k = map_option fst (map_of db k)"

definition redis_setex :: "redis_db \<Rightarrow> string \<Rightarrow> nat \<Rightarrow> string \<Rightarrow> redis_db" where
  "redis_setex db k ttl v = filter (\<lambda>e. fst e \<noteq> k) db @ [(k, (v, ttl))]"

text \<open>\<^verbatim>\<open>DEL k1 ... kn\<close> removes the keys and answers how many existed.\<close>

definition redis_del :: "redis_db \<Rightarrow> string list \<Rightarrow> nat \<times> redis_db" where
  "redis_del db ks =
     (length (filter (\<lambda>e. fst e \<in> set ks) db), filter (\<lambda>e. fst e \<notin> set ks) db)"

definition redis_exists :: "redis_db \<Rightarrow> string \<Rightarrow> nat" where
  "redis_exists db k = (if map_of db k = None then 0 else 1)"

text \<open>
  \<^verbatim>\<open>KEYS pattern\<close> matches glob-style, as the server's \<^verbatim>\<open>stringmatchlen\<close> does:
  \<^verbatim>\<open>*\<close> any run of characters, \<^verbatim>\<open>?\<close> one character, \<^verbatim>\<open>[...]\<close> a class (negated
  by \<^verbatim>\<open>^\<close>, with ranges and escapes), a backslash escapes the next character.
\<close>

definition backslash :: char where "backslash = CHR 0x5C"

definition in_range :: "char \<Rightarrow> char \<Rightarrow> char \<Rightarrow> bool" where
  "in_range a b d =
     (let lo = min (of_char a :: nat) (of_char b); hi = max (of_char a :: nat) (of_char b)
      in lo \<le> of_char d \<and> of_char d \<le> hi)"

text \<open>
  The body of a class, after \<^verbatim>\<open>[\<close> and \<^verbatim>\<open>^\<close>: whether the character \<open>d\<close> is in it
  (accumulated in \<open>m\<close>) and the pattern after the closing bracket.
\<close>

fun class_scan :: "string \<Rightarrow> char \<Rightarrow> bool \<Rightarrow> bool \<times> string" where
  "class_scan [] d m = (m, [])"
| "class_scan [c] d m =
     (if c = CHR '']'' then (m, []) else class_scan [] d (m \<or> c = d))"
| "class_scan [c, e] d m =
     (if c = backslash then class_scan [] d (m \<or> e = d)
      else if c = CHR '']'' then (m, [e])
      else class_scan [e] d (m \<or> c = d))"
| "class_scan (c # e # f # p) d m =
     (if c = backslash then class_scan (f # p) d (m \<or> e = d)
      else if c = CHR '']'' then (m, e # f # p)
      else if e = CHR ''-'' then class_scan p d (m \<or> in_range c f d)
      else class_scan (e # f # p) d (m \<or> c = d))"

lemma class_scan_length: "length (snd (class_scan p d m)) \<le> length p"
  by (induction p d m rule: class_scan.induct) auto

function glob_match :: "string \<Rightarrow> string \<Rightarrow> bool" where
  "glob_match [] s = (s = [])"
| "glob_match (c # p) [] = (c = CHR ''*'' \<and> glob_match p [])"
| "glob_match (c # p) (d # s) =
     (if c = CHR ''*'' then glob_match p (d # s) \<or> glob_match (c # p) s
      else if c = CHR ''?'' then glob_match p s
      else if c = CHR ''[''
        then (let neg = (p \<noteq> [] \<and> hd p = CHR ''^'');
                  r = class_scan (if neg then tl p else p) d False
              in (fst r \<noteq> neg) \<and> glob_match (snd r) s)
      else if c = backslash \<and> p \<noteq> [] then hd p = d \<and> glob_match (tl p) s
      else c = d \<and> glob_match p s)"
  by pat_completeness auto
termination
proof (relation "measure (\<lambda>(p, s). length p + length s)", goal_cases)
  case (6 c p d s x xa)
  have "length (snd (class_scan (if x then tl p else p) d False)) \<le> length p"
    using class_scan_length [of "if x then tl p else p" d False]
    by (cases x) (auto intro: le_trans)
  with 6 show ?case by simp
qed auto

text \<open>
  The loop of \<^verbatim>\<open>stringmatchlen\<close> does not run on an empty string, which therefore
  matches the empty pattern only; \<^verbatim>\<open>KEYS\<close> answers every key to the pattern \<^verbatim>\<open>*\<close>.
\<close>

definition stringmatchlen :: "string \<Rightarrow> string \<Rightarrow> bool" where
  "stringmatchlen pat s = (if s = [] then pat = [] else glob_match pat s)"

definition redis_keys :: "redis_db \<Rightarrow> string \<Rightarrow> string list" where
  "redis_keys db pat = filter (\<lambda>k. pat = ''*'' \<or> stringmatchlen pat k) (map fst db)"

subsection \<open>The adapter's operations\<close>

text \<open>
  Cached values are serialized with \<^verbatim>\<open>JSON.stringify\<close> and read back with
  \<^verbatim>\<open>JSON.parse\<close>, which throws on text that is not JSON: the two are the fields of a
  codec. Every operation takes the adapter's state and answers a thrown error (\<open>Inl\<close>)
  or a value (\<open>Inr\<close>) and the state it leaves. The derived \<^verbatim>\<open>hitRate\<close>, a floating
  point quotient of the two counters, is not kept.
\<close>

record 'v codec =
  serialize :: "'v \<Rightarrow> string"
  deserialize :: "string \<Rightarrow> 'v option"

definition count_hit :: "cache_state \<Rightarrow> cache_state" where
  "count_hit cs = cs\<lparr>stats := (stats cs)\<lparr>hits := hits (stats cs) + 1\<rparr>\<rparr>"

definition count_miss :: "cache_state \<Rightarrow> cache_state" where
  "count_miss cs = cs\<lparr>stats := (stats cs)\<lparr>misses := misses (stats cs) + 1\<rparr>\<rparr>"

definition get_cache ::
  "CacheConfig \<Rightarrow> 'v codec \<Rightarrow> string \<Rightarrow> TenantContext \<Rightarrow> cache_state
     \<Rightarrow> (exn + 'v option) \<times> cache_state" where
  "get_cache cfg cd key ctx cs =
     (let tenantKey = getTenantKey cfg key (tenant_id ctx) in
      if \<not> connected (redis cs)
      then (Inl (SDKError ''Failed to get cache value'' DATABASE_ERROR 500), cs)
      else case redis_get (entries (redis cs)) tenantKey of
             None \<Rightarrow> (Inr None, count_miss cs)
           | Some v \<Rightarrow>
               (case deserialize cd v of
                  None \<Rightarrow> (Inl (SDKError ''Failed to get cache value'' DATABASE_ERROR 500),
                            count_hit cs)
                | Some x \<Rightarrow> (Inr (Some x), count_hit cs)))"

definition set_cache ::
  "CacheConfig \<Rightarrow> 'v codec \<Rightarrow> string \<Rightarrow> 'v \<Rightarrow> TenantContext \<Rightarrow> nat option \<Rightarrow> cache_state
     \<Rightarrow> (exn + unit) \<times> cache_state" where
  "set_cache cfg cd key v ctx ttlSeconds cs =
     (let tenantKey = getTenantKey cfg key (tenant_id ctx);
          serializedValue = serialize cd v;
          ttl = effective_ttl cfg ttlSeconds in
      if \<not> connected (redis cs)
      then (Inl (SDKError ''Failed to set cache value'' DATABASE_ERROR 500), cs)
      else (Inr (),
            cs\<lparr>redis := (redis cs)\<lparr>entries :=
                    redis_setex (entries (redis cs)) tenantKey ttl serializedValue\<rparr>,
               stats := (stats cs)\<lparr>totalKeys := totalKeys (stats cs) + 1\<rparr>\<rparr>))"

definition delete_cache ::
  "CacheConfig \<Rightarrow> string \<Rightarrow> TenantContext \<Rightarrow> cache_state \<Rightarrow> (exn + unit) \<times> cache_state" where
  "delete_cache cfg key ctx cs =
     (let tenantKey = getTenantKey cfg key (tenant_id ctx) in
      if \<not> connected (redis cs)
      then (Inl (SDKError ''Failed to delete cache value'' DATABASE_ERROR 500), cs)
      else (let r = redis_del (entries (redis cs)) [tenantKey] in
            (Inr (),
             cs\<lparr>redis := (redis cs)\<lparr>entries := snd r\<rparr>,
                stats := (if fst r > 0
                          then (stats cs)\<lparr>totalKeys := totalKeys (stats cs) - 1\<rparr>
                          else stats cs)\<rparr>)))"

definition exists_cache ::
  "CacheConfig \<Rightarrow> string \<Rightarrow> TenantContext \<Rightarrow> cache_state \<Rightarrow> (exn + bool) \<times> cache_state" where
  "exists_cache cfg key ctx cs =
     (let tenantKey = getTenantKey cfg key (tenant_id ctx) in
      if \<not> connected (redis cs)
      then (Inl (SDKError ''Failed to check cache key existence'' DATABASE_ERROR 500), cs)
      else (Inr (redis_exists (entries (redis cs)) tenantKey = 1), cs))"

text \<open>
  \<^verbatim>\<open>mget\<close> has no \<^verbatim>\<open>catch\<close>: the error of the connection, of Redis or of
  \<^verbatim>\<open>JSON.parse\<close> leaves it as it is. With no key, \<^verbatim>\<open>redis.mget(...tenantKeys)\<close> sends
  \<^verbatim>\<open>MGET\<close> without arguments, which Redis refuses. The values are mapped in order,
  counting a miss or a hit each, and the first text that does not parse stops the
  mapping.
\<close>

fun mget_values ::
  "'v codec \<Rightarrow> string option list \<Rightarrow> cache_state \<Rightarrow> (exn + 'v option list) \<times> cache_state" where
  "mget_values cd [] cs = (Inr [], cs)"
| "mget_values cd (None # vs) cs =
     (case mget_values cd vs (count_miss cs) of
        (Inl e, cs') \<Rightarrow> (Inl e, cs')
      | (Inr xs, cs') \<Rightarrow> (Inr (None # xs), cs'))"
| "mget_values cd (Some v # vs) cs =
     (case deserialize cd v of
        None \<Rightarrow> (Inl (JsError ''Unexpected token in JSON''), count_hit cs)
      | Some x \<Rightarrow>
          (case mget_values cd vs (count_hit cs) of
             (Inl e, cs') \<Rightarrow> (Inl e, cs')
           | (Inr xs, cs') \<Rightarrow> (Inr (Some x # xs), cs')))"

definition mget ::
  "CacheConfig \<Rightarrow> 'v codec \<Rightarrow> string list \<Rightarrow> TenantContext \<Rightarrow> cache_state
     \<Rightarrow> (exn + 'v option list) \<times> cache_state" where
  "mget cfg cd keys ctx cs =
     (let tenantKeys = map (\<lambda>key. getTenantKey cfg key (tenant_id ctx)) keys in
      if \<not> connected (redis cs) then (Inl (JsError ''Connection is closed.''), cs)
      else if tenantKeys = []
      then (Inl (JsError (''ERR wrong number of arguments for '' @ [CHR 0x27] @ ''mget''
                           @ [CHR 0x27] @ '' command'')), cs)
      else mget_values cd (map (redis_get (entries (redis cs))) tenantKeys) cs)"

definition mset ::
  "CacheConfig \<Rightarrow> 'v codec \<Rightarrow> (string \<times> 'v) list \<Rightarrow> TenantContext \<Rightarrow> nat option \<Rightarrow> cache_state
     \<Rightarrow> (exn + unit) \<times> cache_state" where
  "mset cfg cd keyValues ctx ttlSeconds cs =
     (let ttl = effective_ttl cfg ttlSeconds in
      if \<not> connected (redis cs)
      then (Inl (SDKError ''Failed to set multiple cache values'' DATABASE_ERROR 500), cs)
      else (Inr (),
            cs\<lparr>redis := (redis cs)\<lparr>entries :=
                    fold (\<lambda>(key, v) db.
                            redis_setex db (getTenantKey cfg key (tenant_id ctx)) ttl
                              (serialize cd v))
                         keyValues (entries (redis cs))\<rparr>,
               stats := (stats cs)\<lparr>totalKeys := totalKeys (stats cs) + length keyValues\<rparr>\<rparr>))"

definition clearTenant ::
  "CacheConfig \<Rightarrow> string \<Rightarrow> cache_state \<Rightarrow> (exn + unit) \<times> cache_state" where
  "clearTenant cfg tenantId cs =
     (let pattern = getTenantKey cfg ''*'' tenantId in
      if \<not> connected (redis cs)
      then (Inl (SDKError ''Failed to clear tenant cache'' DATABASE_ERROR 500), cs)
      else (let keys = redis_keys (entries (redis cs)) pattern in
            if length keys > 0
            then (Inr (),
                  cs\<lparr>redis := (redis cs)\<lparr>entries := snd (redis_del (entries (redis cs)) keys)\<rparr>,
                     stats := (stats cs)\<lparr>totalKeys := totalKeys (stats cs) - length keys\<rparr>\<rparr>)
            else (Inr (), cs)))"

text \<open>What a tenant's context can read of the cache: the entry (value and TTL) of a key.\<close>

definition tenant_entry ::
  "CacheConfig \<Rightarrow> cache_state \<Rightarrow> string \<Rightarrow> string \<Rightarrow> (string \<times> nat) option" where
  "tenant_entry cfg cs tenantId key = map_of (entries (redis cs)) (getTenantKey cfg key tenantId)"

definition glob_free :: "string \<Rightarrow> bool" where
  "glob_free q \<longleftrightarrow>
     (\<forall>c \<in> set q. c \<noteq> CHR ''*'' \<and> c \<noteq> CHR ''?'' \<and> c \<noteq> CHR ''['' \<and> c \<noteq> backslash)"

definition colon_free :: "string \<Rightarrow> bool" where
  "colon_free q \<longleftrightarrow> CHR '':'' \<notin> set q"

definition default_config :: CacheConfig where
  "default_config = \<lparr>keyPrefix = None, defaultTTL = None\<rparr>"

definition text_codec :: "string codec" where
  "text_codec = \<lparr>serialize = (\<lambda>v. v), deserialize = Some\<rparr>"

definition empty_cache :: cache_state where
  "empty_cache = \<lparr>redis = \<lparr>entries = [], connected = True\<rparr>,
                  stats = \<lparr>hits = 0, misses = 0, totalKeys = 0\<rparr>\<rparr>"

definition ctx_of :: "string \<Rightarrow> TenantContext" where
  "ctx_of t = \<lparr>tenant_id = t, user_id = ''u'', role = ''member'', permissions = []\<rparr>"

definition sample_cache :: "string \<Rightarrow> string \<Rightarrow> cache_state" where
  "sample_cache a b =
     snd (set_cache default_config text_codec ''k'' ''vb'' (ctx_of b) None
       (snd (set_cache default_config text_codec ''k'' ''va'' (ctx_of a) None empty_cache)))"

section \<open>Results of data operations\<close>

text \<open>
  \<^verbatim>\<open>DataResult<T>\<close> of \<^verbatim>\<open>types/data\<close>: \<^verbatim>\<open>{ data: T | null; count?; error? }\<close>. A
  successful \<^verbatim>\<open>delete\<close> answers \<^verbatim>\<open>{ data: undefined }\<close> and the facade tells the two
  apart, so \<^verbatim>\<open>data\<close> has three shapes.
\<close>

datatype 'a jsopt = Undefined | Null | Val 'a

record 'a DataResult =
  dr_data :: "'a jsopt"
  dr_count :: "nat option"
  dr_error :: "string option"

definition ok_result :: "'a \<Rightarrow> 'a DataResult" where
  "ok_result x = \<lparr>dr_data = Val x, dr_count = None, dr_error = None\<rparr>"

definition error_result :: "string \<Rightarrow> 'a DataResult" where
  "error_result msg = \<lparr>dr_data = Null, dr_count = None, dr_error = Some msg\<rparr>"

section \<open>The migration manager\<close>

datatype MigrationStatus = PENDING | RUNNING | COMPLETED | FAILED | ROLLED_BACK

text \<open>\<^verbatim>\<open>Migration\<close> of \<^verbatim>\<open>IDatabaseAdapter.ts\<close> and \<^verbatim>\<open>MigrationResult\<close>.\<close>

record Migration =
  m_id :: string
  m_name :: string
  m_version :: string
  m_up :: string
  m_down :: string
  m_tenant_id :: "string option"

record MigrationResult =
  r_id :: string
  r_name :: string
  r_status :: MigrationStatus
  r_executedAt :: "int option"
  r_duration :: "int option"
  r_error :: "string option"

subsection \<open>The server behind \<^verbatim>\<open>adapter.query\<close>\<close>

text \<open>
  A row of the table \<^verbatim>\<open>migrations\<close> that \<^verbatim>\<open>createMigrationsTable\<close> declares, with
  \<^verbatim>\<open>id\<close> as primary key. \<^verbatim>\<open>executed_at\<close> and \<^verbatim>\<open>updated_at\<close> hold what the manager
  writes; \<^verbatim>\<open>created_at\<close> and the defaults the server stamps with its own clock are not
  tracked.
\<close>

record mrow =
  row_id :: string
  row_name :: string
  row_version :: string
  row_tenant_id :: "string option"
  row_status :: MigrationStatus
  row_executed_at :: "int option"
  row_rollback_sql :: string
  row_error_message :: "string option"
  row_duration_ms :: "int option"
  row_updated_at :: "int option"

text \<open>
  The statements the manager sends, each standing for its SQL text and parameters: the
  \<^verbatim>\<open>CREATE TABLE IF NOT EXISTS\<close> of \<^verbatim>\<open>createMigrationsTable\<close>, the two \<^verbatim>\<open>SELECT\<close>s of
  \<^verbatim>\<open>getPendingMigrations\<close> and \<^verbatim>\<open>getMigrationsToRollback\<close>, the \<^verbatim>\<open>INSERT\<close> of
  \<^verbatim>\<open>recordMigrationStart\<close>, the \<^verbatim>\<open>UPDATE\<close>s of \<^verbatim>\<open>recordMigrationCompletion\<close> (status,
  executed_at, duration_ms, updated_at) and \<^verbatim>\<open>recordMigrationFailure\<close> (status,
  error_message, duration_ms, updated_at), the \<^verbatim>\<open>DELETE\<close> of a rollback, and a
  migration's own script.
\<close>

datatype stmt =
    CreateMigrationsTable
  | SelectCompletedIds
  | SelectToRollback string
  | InsertRunning Migration
  | UpdateCompleted string int int int
  | UpdateFailed string string int int
  | DeleteById string
  | Script string

text \<open>
  The manager writes its parameters as \<^verbatim>\<open>?\<close> (\<^verbatim>\<open>WHERE status = ?\<close>,
  \<^verbatim>\<open>VALUES (?, ?, ?, ?, ?, ?)\<close>, \<^verbatim>\<open>WHERE id = ?\<close>); the \<^verbatim>\<open>CREATE TABLE\<close> and the
  scripts are sent without parameters. Every statement but those two reads or writes the
  table \<^verbatim>\<open>migrations\<close>.
\<close>

fun has_placeholders :: "stmt \<Rightarrow> bool" where
  "has_placeholders CreateMigrationsTable = False"
| "has_placeholders (Script sql) = False"
| "has_placeholders st = True"

fun uses_table :: "stmt \<Rightarrow> bool" where
  "uses_table CreateMigrationsTable = False"
| "uses_table (Script sql) = False"
| "uses_table st = True"

text \<open>
  The server holds: whether the table \<^verbatim>\<open>migrations\<close> exists (only
  \<^verbatim>\<open>initialize\<close> creates it, \<^verbatim>\<open>runMigrations\<close> does not); whether it reads \<^verbatim>\<open>?\<close> as a
  parameter (MySQL does; PostgreSQL, whose parameters are \<^verbatim>\<open>$1\<close>, \<^verbatim>\<open>$2\<close>, refuses the
  text); the rows of the table; the schema the scripts act on; and a journal of every
  statement it was sent. A script either fails with a message or changes the schema;
  scripts do not touch the table \<^verbatim>\<open>migrations\<close> themselves.
\<close>

record 'a backend =
  table_exists :: bool
  qmark_params :: bool
  migrations :: "mrow list"
  schema :: 'a
  journal :: "stmt list"

definition refusal :: "stmt \<Rightarrow> 'a backend \<Rightarrow> string option" where
  "refusal st b =
     (if has_placeholders st \<and> \<not> qmark_params b then Some ''syntax error at or near ?''
      else if uses_table st \<and> \<not> table_exists b then Some ''relation migrations does not exist''
      else None)"

definition keeps_books :: "'a backend \<Rightarrow> bool" where
  "keeps_books b \<longleftrightarrow> table_exists b \<and> qmark_params b"

definition running_row :: "Migration \<Rightarrow> mrow" where
  "running_row m =
     \<lparr>row_id = m_id m, row_name = m_name m, row_version = m_version m,
      row_tenant_id = m_tenant_id m, row_status = RUNNING, row_executed_at = None,
      row_rollback_sql = m_down m, row_error_message = None, row_duration_ms = None,
      row_updated_at = None\<rparr>"

text \<open>What a statement the server accepts does.\<close>

fun sql_apply ::
  "(string \<Rightarrow> 'a \<Rightarrow> string + 'a) \<Rightarrow> stmt \<Rightarrow> 'a backend \<Rightarrow> (string + mrow list) \<times> 'a backend" where
  "sql_apply run CreateMigrationsTable b =
     (Inr [], b\<lparr>table_exists := True, migrations := (if table_exists b then migrations b else [])\<rparr>)"
| "sql_apply run SelectCompletedIds b =
     (Inr (filter (\<lambda>r. row_status r = COMPLETED) (migrations b)), b)"
| "sql_apply run (SelectToRollback v) b =
     (Inr (rev (sort_key row_version
              (filter (\<lambda>r. row_version r > v \<and> row_status r = COMPLETED) (migrations b)))), b)"
| "sql_apply run (InsertRunning m) b =
     (if m_id m \<in> set (map row_id (migrations b))
      then (Inl ''duplicate key value violates unique constraint'', b)
      else (Inr [], b\<lparr>migrations := migrations b @ [running_row m]\<rparr>))"
| "sql_apply run (UpdateCompleted i at d upd) b =
     (Inr [], b\<lparr>migrations :=
        map (\<lambda>r. if row_id r = i
                 then r\<lparr>row_status := COMPLETED, row_executed_at := Some at,
                        row_duration_ms := Some d, row_updated_at := Some upd\<rparr>
                 else r) (migrations b)\<rparr>)"
| "sql_apply run (UpdateFailed i msg d upd) b =
     (Inr [], b\<lparr>migrations :=
        map (\<lambda>r. if row_id r = i
                 then r\<lparr>row_status := FAILED, row_error_message := Some msg,
                        row_duration_ms := Some d, row_updated_at := Some upd\<rparr>
                 else r) (migrations b)\<rparr>)"
| "sql_apply run (DeleteById i) b =
     (Inr [], b\<lparr>migrations := filter (\<lambda>r. row_id r \<noteq> i) (migrations b)\<rparr>)"
| "sql_apply run (Script sql) b =
     (case run sql (schema b) of
        Inl msg \<Rightarrow> (Inl msg, b)
      | Inr a \<Rightarrow> (Inr [], b\<lparr>schema := a\<rparr>))"

definition sql_exec ::
  "(string \<Rightarrow> 'a \<Rightarrow> string + 'a) \<Rightarrow> stmt \<Rightarrow> 'a backend \<Rightarrow> (string + mrow list) \<times> 'a backend" where
  "sql_exec run st b = (case refusal st b of Some msg \<Rightarrow> (Inl msg, b) | None \<Rightarrow> sql_apply run st b)"

text \<open>
  How an adapter's \<^verbatim>\<open>query\<close> hands a server error to its caller.
  \<^verbatim>\<open>SupabaseAdapter.query\<close> throws a \<^verbatim>\<open>DataError\<close> (\<open>Throwing\<close>);
  \<^verbatim>\<open>PostgreSQLAdapter.query\<close> and \<^verbatim>\<open>MySQLAdapter.query\<close> catch it and answer
  \<^verbatim>\<open>{ data: null, error: error.message }\<close> (\<open>Returning\<close>).
\<close>

datatype surfacing = Throwing | Returning

definition adapter_query ::
  "surfacing \<Rightarrow> (string \<Rightarrow> 'a \<Rightarrow> string + 'a) \<Rightarrow> stmt \<Rightarrow> 'a backend
     \<Rightarrow> (exn + mrow list DataResult) \<times> 'a backend" where
  "adapter_query mode run st b =
     (case sql_exec run st (b\<lparr>journal := journal b @ [st]\<rparr>) of
        (Inr rows, b') \<Rightarrow> (Inr (ok_result rows), b')
      | (Inl msg, b') \<Rightarrow>
          (case mode of
             Throwing \<Rightarrow> (Inl (DataError ''Query execution failed'' INVALID_QUERY 400), b')
           | Returning \<Rightarrow> (Inr (error_result msg), b')))"

subsection \<open>The manager\<close>

text \<open>
  The manager's state: its flag \<^verbatim>\<open>isLocked\<close>, the readings \<^verbatim>\<open>Date.now()\<close> and
  \<^verbatim>\<open>new Date()\<close> will give from now on (one is consumed by each read), and the state
  behind the adapter. The timer that \<^verbatim>\<open>acquireLock\<close> starts, which clears the flag
  after \<^verbatim>\<open>lockTimeout\<close> milliseconds, is outside the model.
\<close>

record 'b manager =
  isLocked :: bool
  clock :: "int list"
  adapter_db :: 'b

definition Date_now :: "'b manager \<Rightarrow> int \<times> 'b manager" where
  "Date_now w = (case clock w of [] \<Rightarrow> (0, w) | t # ts \<Rightarrow> (t, w\<lparr>clock := ts\<rparr>))"

text \<open>
  \<^verbatim>\<open>await this.adapter.query(...)\<close> is a step on the manager's whole state: while the
  answer is pending, other callers of the same manager may run. \<open>awaited\<close> is the await
  during which nobody else runs; \<open>interleaved\<close> lets another call on the manager run
  before the answer arrives.
\<close>

definition awaited ::
  "(stmt \<Rightarrow> 'b \<Rightarrow> (exn + 'r) \<times> 'b) \<Rightarrow> stmt \<Rightarrow> 'b manager \<Rightarrow> (exn + 'r) \<times> 'b manager" where
  "awaited query st w = (case query st (adapter_db w) of (r, b) \<Rightarrow> (r, w\<lparr>adapter_db := b\<rparr>))"


definition lock_error :: exn where
  "lock_error = SDKError ''Migration is already in progress'' DATABASE_ERROR 409"

definition acquireLock :: "'b manager \<Rightarrow> (exn + unit) \<times> 'b manager" where
  "acquireLock w =
     (if isLocked w then (Inl (SDKError ''Migration lock already acquired'' DATABASE_ERROR 409), w)
      else (Inr (), w\<lparr>isLocked := True\<rparr>))"

definition releaseLock :: "'b manager \<Rightarrow> 'b manager" where
  "releaseLock w = w\<lparr>isLocked := False\<rparr>"

text \<open>
  \<^verbatim>\<open>initialize\<close>: with \<^verbatim>\<open>createMigrationsTable\<close> configured (the default) the table is
  created; the answer of the adapter is not looked at, and what it throws is wrapped.
\<close>

definition initialize ::
  "(stmt \<Rightarrow> 'b manager \<Rightarrow> (exn + mrow list DataResult) \<times> 'b manager) \<Rightarrow> bool \<Rightarrow> 'b manager
     \<Rightarrow> (exn + unit) \<times> 'b manager" where
  "initialize q createTable w =
     (if createTable
      then (case q CreateMigrationsTable w of
              (Inl e, w') \<Rightarrow> (Inl (SDKError ''Failed to initialize migration manager'' DATABASE_ERROR 500), w')
            | (Inr _, w') \<Rightarrow> (Inr (), w'))
      else (Inr (), w))"

definition validateMigration :: "Migration \<Rightarrow> exn option" where
  "validateMigration m =
     (if m_id m = [] then Some (SDKError ''Migration ID is required'' CONFIGURATION_ERROR 400)
      else if m_name m = [] then Some (SDKError ''Migration name is required'' CONFIGURATION_ERROR 400)
      else if m_up m = [] then Some (SDKError ''Migration up SQL is required'' CONFIGURATION_ERROR 400)
      else if m_down m = [] then Some (SDKError ''Migration down SQL is required'' CONFIGURATION_ERROR 400)
      else None)"

text \<open>
  The callback of \<^verbatim>\<open>migrations.filter\<close> validates each migration before it looks the
  id up, so the first invalid migration of the list throws.
\<close>

fun filter_pending :: "string list \<Rightarrow> Migration list \<Rightarrow> exn + Migration list" where
  "filter_pending executedIds [] = Inr []"
| "filter_pending executedIds (m # ms) =
     (case validateMigration m of
        Some e \<Rightarrow> Inl e
      | None \<Rightarrow>
          (case filter_pending executedIds ms of
             Inl e \<Rightarrow> Inl e
           | Inr ps \<Rightarrow> Inr (if m_id m \<in> set executedIds then ps else m # ps)))"

definition rows_or_empty :: "'r list DataResult \<Rightarrow> 'r list" where
  "rows_or_empty res = (case dr_data res of Val rows \<Rightarrow> rows | _ \<Rightarrow> [])"

text \<open>
  Of the adapter's answer the manager reads \<^verbatim>\<open>data\<close> and never \<^verbatim>\<open>error\<close>:
  \<^verbatim>\<open>executedMigrations?.map(m => m.id) || []\<close> and \<^verbatim>\<open>migrationsToRollback || []\<close>.
\<close>

definition getPendingMigrations ::
  "(stmt \<Rightarrow> 'b manager \<Rightarrow> (exn + mrow list DataResult) \<times> 'b manager) \<Rightarrow> Migration list \<Rightarrow> 'b manager
     \<Rightarrow> (exn + Migration list) \<times> 'b manager" where
  "getPendingMigrations q ms w =
     (case q SelectCompletedIds w of
        (Inl e, w') \<Rightarrow> (Inl e, w')
      | (Inr res, w') \<Rightarrow> (filter_pending (map row_id (rows_or_empty res)) ms, w'))"


text \<open>
  The \<^verbatim>\<open>catch\<close> of \<^verbatim>\<open>runSingleMigration\<close>: the duration, \<^verbatim>\<open>recordMigrationFailure\<close>
  (whose own error is not caught) and the failed result.
\<close>

definition migration_failed ::
  "(stmt \<Rightarrow> 'b manager \<Rightarrow> (exn + mrow list DataResult) \<times> 'b manager) \<Rightarrow> Migration \<Rightarrow> int \<Rightarrow> exn
     \<Rightarrow> 'b manager \<Rightarrow> (exn + MigrationResult) \<times> 'b manager" where
  "migration_failed q m startTime e w =
     (let (t1, w1) = Date_now w;
          duration = t1 - startTime;
          (upd, w2) = Date_now w1
      in case q (UpdateFailed (m_id m) (message e) duration upd) w2 of
           (Inl e', w3) \<Rightarrow> (Inl e', w3)
         | (Inr _, w3) \<Rightarrow>
             (Inr \<lparr>r_id = m_id m, r_name = m_name m, r_status = FAILED, r_executedAt = None,
                   r_duration = Some duration, r_error = Some (message e)\<rparr>, w3))"

text \<open>
  \<^verbatim>\<open>runSingleMigration\<close>: the three awaits of the \<^verbatim>\<open>try\<close> block stand alone as
  statements, so an answer \<^verbatim>\<open>{ data: null, error }\<close> is dropped like any other; only a
  thrown error reaches the \<^verbatim>\<open>catch\<close>.
\<close>

definition runSingleMigration ::
  "(stmt \<Rightarrow> 'b manager \<Rightarrow> (exn + mrow list DataResult) \<times> 'b manager) \<Rightarrow> Migration \<Rightarrow> 'b manager
     \<Rightarrow> (exn + MigrationResult) \<times> 'b manager" where
  "runSingleMigration q m w =
     (let (startTime, w0) = Date_now w in
      case q (InsertRunning m) w0 of
        (Inl e, w1) \<Rightarrow> migration_failed q m startTime e w1
      | (Inr _, w1) \<Rightarrow>
          (case q (Script (m_up m)) w1 of
             (Inl e, w2) \<Rightarrow> migration_failed q m startTime e w2
           | (Inr _, w2) \<Rightarrow>
               (let (t1, w3) = Date_now w2;
                    duration = t1 - startTime;
                    (at, w4) = Date_now w3;
                    (upd, w5) = Date_now w4
                in case q (UpdateCompleted (m_id m) at duration upd) w5 of
                     (Inl e, w6) \<Rightarrow> migration_failed q m startTime e w6
                   | (Inr _, w6) \<Rightarrow>
                       (let (executedAt, w7) = Date_now w6
                        in (Inr \<lparr>r_id = m_id m, r_name = m_name m, r_status = COMPLETED,
                                  r_executedAt = Some executedAt, r_duration = Some duration,
                                  r_error = None\<rparr>, w7)))))"


text \<open>The two \<^verbatim>\<open>for\<close> loops: push each result, stop at the first failure.\<close>

fun run_loop ::
  "(stmt \<Rightarrow> 'b manager \<Rightarrow> (exn + mrow list DataResult) \<times> 'b manager) \<Rightarrow> Migration list
     \<Rightarrow> MigrationResult list \<Rightarrow> 'b manager \<Rightarrow> (exn + MigrationResult list) \<times> 'b manager" where
  "run_loop q [] results w = (Inr results, w)"
| "run_loop q (m # ms) results w =
     (case runSingleMigration q m w of
        (Inl e, w') \<Rightarrow> (Inl e, w')
      | (Inr result, w') \<Rightarrow>
          (if r_status result = FAILED then (Inr (results @ [result]), w')
           else run_loop q ms (results @ [result]) w'))"


text \<open>
  \<^verbatim>\<open>runMigrations\<close> and \<^verbatim>\<open>rollbackTo\<close>: the guard on \<^verbatim>\<open>isLocked\<close> stands before the
  \<^verbatim>\<open>try\<close>; the \<^verbatim>\<open>finally\<close> releases the lock whatever the \<^verbatim>\<open>try\<close> block did.
\<close>

definition runMigrations ::
  "(stmt \<Rightarrow> 'b manager \<Rightarrow> (exn + mrow list DataResult) \<times> 'b manager) \<Rightarrow> Migration list \<Rightarrow> 'b manager
     \<Rightarrow> (exn + MigrationResult list) \<times> 'b manager" where
  "runMigrations q ms w =
     (if isLocked w then (Inl lock_error, w)
      else (let (r, w') =
                  (case acquireLock w of
                     (Inl e, w1) \<Rightarrow> (Inl e, w1)
                   | (Inr _, w1) \<Rightarrow>
                       (case getPendingMigrations q ms w1 of
                          (Inl e, w2) \<Rightarrow> (Inl e, w2)
                        | (Inr pendingMigrations, w2) \<Rightarrow> run_loop q pendingMigrations [] w2))
            in (r, releaseLock w')))"


subsection \<open>What the table records, and sample runs\<close>

definition complete_row :: "string \<Rightarrow> int \<Rightarrow> int \<Rightarrow> int \<Rightarrow> mrow \<Rightarrow> mrow" where
  "complete_row i at d upd r =
     (if row_id r = i
      then r\<lparr>row_status := COMPLETED, row_executed_at := Some at,
             row_duration_ms := Some d, row_updated_at := Some upd\<rparr>
      else r)"

definition base_rows :: "Migration \<Rightarrow> mrow list \<Rightarrow> mrow list" where
  "base_rows m rows = (if m_id m \<in> set (map row_id rows) then rows else rows @ [running_row m])"

definition completed_ids :: "mrow list \<Rightarrow> string list" where
  "completed_ids rows = map row_id (filter (\<lambda>r. row_status r = COMPLETED) rows)"

text \<open>
  A server whose scripts fail on the text \<^verbatim>\<open>boom\<close> and otherwise append their text to
  the schema; a manager over an initialized server that reads \<^verbatim>\<open>?\<close> (MySQL, or the
  function behind \<^verbatim>\<open>SupabaseAdapter.query\<close>), one over PostgreSQL, and one whose table
  was never created.
\<close>

definition demo_run :: "string \<Rightarrow> string list \<Rightarrow> string + string list" where
  "demo_run sql applied =
     (if sql = ''boom'' then Inl ''syntax error at or near boom'' else Inr (applied @ [sql]))"

definition demo_migration :: "string \<Rightarrow> string \<Rightarrow> Migration" where
  "demo_migration i script =
     \<lparr>m_id = i, m_name = i, m_version = i, m_up = script, m_down = ''undo'', m_tenant_id = None\<rparr>"

definition fresh_manager :: "string list backend manager" where
  "fresh_manager =
     \<lparr>isLocked = False,
      clock = [100, 103, 104, 105, 106, 110, 112, 113, 120, 121, 122, 123, 130, 131, 132, 133,
               140, 141, 142, 143, 150, 151, 152, 153, 160, 161, 162, 163, 170, 171, 172, 173],
      adapter_db = \<lparr>table_exists = True, qmark_params = True, migrations = [], schema = [],
                    journal = []\<rparr>\<rparr>"

definition postgres_manager :: "string list backend manager" where
  "postgres_manager = fresh_manager\<lparr>adapter_db := (adapter_db fresh_manager)\<lparr>qmark_params := False\<rparr>\<rparr>"


definition M1 :: Migration where "M1 = demo_migration ''001'' ''create table a''"
definition M2 :: Migration where "M2 = demo_migration ''002'' ''boom''"
definition M3 :: Migration where "M3 = demo_migration ''003'' ''create table c''"

text \<open>The manager over an adapter that throws, and over one that answers the error.\<close>

definition throwing_adapter ::
  "stmt \<Rightarrow> string list backend manager \<Rightarrow> (exn + mrow list DataResult) \<times> string list backend manager" where
  "throwing_adapter = awaited (adapter_query Throwing demo_run)"

definition returning_adapter ::
  "stmt \<Rightarrow> string list backend manager \<Rightarrow> (exn + mrow list DataResult) \<times> string list backend manager" where
  "returning_adapter = awaited (adapter_query Returning demo_run)"

definition first_run :: "(exn + MigrationResult list) \<times> string list backend manager" where
  "first_run = runMigrations throwing_adapter [M1, M3] fresh_manager"

definition failed_run :: "(exn + MigrationResult list) \<times> string list backend manager" where
  "failed_run = runMigrations throwing_adapter [M2] fresh_manager"

definition unrecorded_run :: "(exn + MigrationResult list) \<times> string list backend manager" where
  "unrecorded_run = runMigrations returning_adapter [M1, M3] postgres_manager"

section \<open>Records, query options and the stores behind the adapters\<close>

text \<open>
  A record (\<^verbatim>\<open>Partial<T>\<close>, \<^verbatim>\<open>Record<string, any>\<close>) is a list of fields in
  insertion order; a field holds a string, a number or a nested object. Assigning to a
  field (\<^verbatim>\<open>obj[k] = v\<close>, or a later key of an object literal with spread) replaces the
  value where the key stands, or appends the key.
\<close>

datatype jv = Str string | Num int | Obj "(string \<times> jv) list"

type_synonym row = "(string \<times> jv) list"

fun assign :: "'k \<Rightarrow> 'v \<Rightarrow> ('k \<times> 'v) list \<Rightarrow> ('k \<times> 'v) list" where
  "assign k v [] = [(k, v)]"
| "assign k v (p # ps) = (if fst p = k then (k, v) # ps else p # assign k v ps)"

definition assign_all :: "('k \<times> 'v) list \<Rightarrow> ('k \<times> 'v) list \<Rightarrow> ('k \<times> 'v) list" where
  "assign_all kvs obj = fold (\<lambda>(k, v). assign k v) kvs obj"

definition remove_key :: "'k \<Rightarrow> ('k \<times> 'v) list \<Rightarrow> ('k \<times> 'v) list" where
  "remove_key k obj = filter (\<lambda>p. fst p \<noteq> k) obj"

text \<open>\<^verbatim>\<open>QueryOptions\<close> of \<^verbatim>\<open>types/data\<close>.\<close>

record QueryOptions =
  q_select :: "string option"
  q_filter :: "row option"
  q_order :: "(string \<times> bool) option"
  q_limit :: "nat option"
  q_offset :: "nat option"

definition no_options :: QueryOptions where
  "no_options = \<lparr>q_select = None, q_filter = None, q_order = None, q_limit = None, q_offset = None\<rparr>"

text \<open>Truthiness of an optional number (\<^verbatim>\<open>if (options.limit)\<close>) and of an optional string.\<close>

definition truthy_num :: "nat option \<Rightarrow> bool" where
  "truthy_num n = (case n of None \<Rightarrow> False | Some k \<Rightarrow> k \<noteq> 0)"

definition filter_entries :: "QueryOptions \<Rightarrow> row" where
  "filter_entries options = (case q_filter options of None \<Rightarrow> [] | Some f \<Rightarrow> f)"

text \<open>
  What stands behind an adapter: the tables (or collections) by name, and the values
  the next calls of \<^verbatim>\<open>uuidv4()\<close> and \<^verbatim>\<open>new Date()\<close> will give. The last field
  is the SQL server's reading of a \<^verbatim>\<open>select\<close> text, by text, table and tenant: the
  PostgreSQL adapter writes \<^verbatim>\<open>options.select\<close> into its statement as it stands, so the
  text may be any SQL, and what the server then answers is not for the adapter to say.
\<close>

record store =
  tables :: "(string \<times> row list) list"
  uuids :: "string list"
  dates :: "string list"
  raw_selects :: "((string \<times> string \<times> string) \<times> row list) list"

definition uuidv4 :: "store \<Rightarrow> string \<times> store" where
  "uuidv4 s = (case uuids s of [] \<Rightarrow> ([], s) | u # us \<Rightarrow> (u, s\<lparr>uuids := us\<rparr>))"

definition new_Date :: "store \<Rightarrow> string \<times> store" where
  "new_Date s = (case dates s of [] \<Rightarrow> ([], s) | d # ds \<Rightarrow> (d, s\<lparr>dates := ds\<rparr>))"

text \<open>
  The backends' query operators, on rows as objects: equality of a column with a value,
  ordering by a column (values compared as strings, absent ones first), pagination and,
  for MongoDB, projection on a comma-separated list of fields. Operator objects as
  filter values are outside the model, and values are not checked against column types.
\<close>

definition col_eq :: "string \<Rightarrow> jv \<Rightarrow> row \<Rightarrow> bool" where
  "col_eq k v r = (map_of r k = Some v)"

definition order_key :: "string \<Rightarrow> row \<Rightarrow> string" where
  "order_key c r = (case map_of r c of Some (Str s) \<Rightarrow> s | _ \<Rightarrow> [])"

definition order_rows :: "(string \<times> bool) option \<Rightarrow> row list \<Rightarrow> row list" where
  "order_rows ord rows =
     (case ord of
        None \<Rightarrow> rows
      | Some (c, ascending) \<Rightarrow>
          if ascending then sort_key (order_key c) rows else rev (sort_key (order_key c) rows))"

definition paginate :: "nat option \<Rightarrow> nat option \<Rightarrow> row list \<Rightarrow> row list" where
  "paginate lim off rows =
     (let skipped = (if truthy_num off then drop (the off) rows else rows)
      in if truthy_num lim then take (the lim) skipped else skipped)"

fun split_commas :: "string \<Rightarrow> string list" where
  "split_commas [] = [[]]"
| "split_commas (c # cs) =
     (if c = CHR '','' then [] # split_commas cs
      else (case split_commas cs of [] \<Rightarrow> [[c]] | w # ws \<Rightarrow> (c # w) # ws))"

definition trim :: "string \<Rightarrow> string" where
  "trim s = rev (dropWhile (\<lambda>c. c = CHR '' '') (rev (dropWhile (\<lambda>c. c = CHR '' '') s)))"

definition select_columns :: "string option \<Rightarrow> string list option" where
  "select_columns sel =
     (case sel of
        None \<Rightarrow> None
      | Some s \<Rightarrow> if s = [] \<or> s = ''*'' then None else Some (map trim (split_commas s)))"

section \<open>The PostgreSQL adapter\<close>

text \<open>
  \<^verbatim>\<open>create\<close>: the generated id, the context's tenant and the two timestamps are
  assigned after the caller's fields. The insert is refused when the table does not
  exist or the primary key is taken; the \<^verbatim>\<open>catch\<close> answers the driver's message.
\<close>

definition pg_insert :: "string \<Rightarrow> row list \<Rightarrow> store \<Rightarrow> (string + row list) \<times> store" where
  "pg_insert table new s =
     (case map_of (tables s) table of
        None \<Rightarrow> (Inl ''relation does not exist'', s)
      | Some rows \<Rightarrow>
          if \<not> distinct (map (\<lambda>r. map_of r ''id'') (rows @ new))
          then (Inl ''duplicate key value violates unique constraint'', s)
          else (Inr new, s\<lparr>tables := assign table (rows @ new) (tables s)\<rparr>))"

definition stamp :: "string \<Rightarrow> row \<Rightarrow> store \<Rightarrow> row \<times> store" where
  "stamp tenant rec s =
     (let (u, s1) = uuidv4 s; (c, s2) = new_Date s1; (d, s3) = new_Date s2
      in (assign_all [(''id'', Str u), (''tenant_id'', Str tenant), (''created_at'', Str c),
                      (''updated_at'', Str d)] rec, s3))"

definition pg_create ::
  "string \<Rightarrow> row \<Rightarrow> TenantContext \<Rightarrow> store \<Rightarrow> (exn + row DataResult) \<times> store" where
  "pg_create table rec ctx s =
     (let (recordData, s1) = stamp (tenant_id ctx) rec s in
      case pg_insert table [recordData] s1 of
        (Inl msg, s2) \<Rightarrow> (Inr (error_result msg), s2)
      | (Inr rows, s2) \<Rightarrow>
          (case rows of
             [] \<Rightarrow> (Inl (DataError ''Failed to create record'' DATABASE_ERROR 500), s2)
           | r # _ \<Rightarrow> (Inr (ok_result r), s2)))"

text \<open>
  \<^verbatim>\<open>read\<close>: \<^verbatim>\<open>SELECT ${options.select || '*'} FROM table WHERE tenant_id = $1\<close> and
  one \<^verbatim>\<open>AND key = $n\<close> for each entry of the caller's filter. With \<^verbatim>\<open>*\<close> the rows
  are those of the table that pass the conditions. Any other \<^verbatim>\<open>select\<close> text stands
  in the statement unescaped, before the \<^verbatim>\<open>WHERE\<close> clause: the answer is the server's
  reading of that text, or its refusal where it has none. With a limit or an offset a
  second query counts the rows; where the filter has an entry, that query's text is
  extended by \<^verbatim>\<open>countSql += ...\<close> although \<^verbatim>\<open>countSql\<close> is declared \<^verbatim>\<open>const\<close>, which
  throws a \<^verbatim>\<open>TypeError\<close> that the \<^verbatim>\<open>catch\<close> turns into an error result.
\<close>

definition select_star :: "string option \<Rightarrow> bool" where
  "select_star sel = (case sel of None \<Rightarrow> True | Some text \<Rightarrow> text = [] \<or> text = ''*'')"

definition pg_select ::
  "string \<Rightarrow> QueryOptions \<Rightarrow> TenantContext \<Rightarrow> store \<Rightarrow> row list option" where
  "pg_select table options ctx s =
     (case q_select options of
        None \<Rightarrow> None
      | Some text \<Rightarrow> map_of (raw_selects s) (text, table, tenant_id ctx))"


definition pg_where :: "TenantContext \<Rightarrow> QueryOptions \<Rightarrow> row \<Rightarrow> bool" where
  "pg_where ctx options r =
     (col_eq ''tenant_id'' (Str (tenant_id ctx)) r
      \<and> list_all (\<lambda>(k, v). col_eq k v r) (filter_entries options))"

definition pg_read ::
  "string \<Rightarrow> QueryOptions \<Rightarrow> TenantContext \<Rightarrow> store \<Rightarrow> (exn + row list DataResult) \<times> store" where
  "pg_read table options ctx s =
     (case map_of (tables s) table of
        None \<Rightarrow> (Inr (error_result ''relation does not exist''), s)
      | Some rows \<Rightarrow>
          (case (if select_star (q_select options)
                 then Some (paginate (q_limit options) (q_offset options)
                              (order_rows (q_order options) (filter (pg_where ctx options) rows)))
                 else pg_select table options ctx s) of
             None \<Rightarrow> (Inr (error_result ''syntax error''), s)
           | Some result \<Rightarrow>
               if truthy_num (q_limit options) \<or> truthy_num (q_offset options)
               then (if filter_entries options \<noteq> []
                     then (Inr (error_result ''Assignment to constant variable.''), s)
                     else (Inr \<lparr>dr_data = Val result,
                                dr_count = Some (length (filter (pg_where ctx options) rows)),
                                dr_error = None\<rparr>, s))
               else (Inr (ok_result result), s)))"

text \<open>
  \<^verbatim>\<open>update\<close> and \<^verbatim>\<open>delete\<close>: \<^verbatim>\<open>WHERE id = $1 AND tenant_id = $2\<close>; no row
  matched throws the \<^verbatim>\<open>DataError\<close> with \<^verbatim>\<open>RESOURCE_NOT_FOUND\<close>, which the \<^verbatim>\<open>catch\<close>
  rethrows.
\<close>

definition id_and_tenant :: "string \<Rightarrow> string \<Rightarrow> TenantContext \<Rightarrow> row \<Rightarrow> bool" where
  "id_and_tenant idcol i ctx r =
     (col_eq idcol (Str i) r \<and> col_eq ''tenant_id'' (Str (tenant_id ctx)) r)"

definition pg_update ::
  "string \<Rightarrow> string \<Rightarrow> row \<Rightarrow> TenantContext \<Rightarrow> store \<Rightarrow> (exn + row DataResult) \<times> store" where
  "pg_update table i updates ctx s =
     (let (d, s1) = new_Date s;
          updateData = assign ''updated_at'' (Str d) updates
      in case map_of (tables s1) table of
           None \<Rightarrow> (Inr (error_result ''relation does not exist''), s1)
         | Some rows \<Rightarrow>
             (let changed = map (\<lambda>r. if id_and_tenant ''id'' i ctx r then assign_all updateData r else r) rows;
                  returned = map (assign_all updateData) (filter (id_and_tenant ''id'' i ctx) rows)
              in case returned of
                   [] \<Rightarrow> (Inl (DataError ''Record not found or update failed'' RESOURCE_NOT_FOUND 404), s1)
                 | r # _ \<Rightarrow> (Inr (ok_result r), s1\<lparr>tables := assign table changed (tables s1)\<rparr>)))"

definition deleted :: "unit DataResult" where
  "deleted = \<lparr>dr_data = Undefined, dr_count = None, dr_error = None\<rparr>"

definition pg_delete ::
  "string \<Rightarrow> string \<Rightarrow> TenantContext \<Rightarrow> store \<Rightarrow> (exn + unit DataResult) \<times> store" where
  "pg_delete table i ctx s =
     (case map_of (tables s) table of
        None \<Rightarrow> (Inr (error_result ''relation does not exist''), s)
      | Some rows \<Rightarrow>
          if filter (id_and_tenant ''id'' i ctx) rows = []
          then (Inl (DataError ''Record not found'' RESOURCE_NOT_FOUND 404), s)
          else (Inr deleted,
                s\<lparr>tables := assign table (filter (\<lambda>r. \<not> id_and_tenant ''id'' i ctx r) rows) (tables s)\<rparr>))"

section \<open>The MongoDB adapter\<close>

text \<open>
  A collection that does not exist yet is empty. \<^verbatim>\<open>create\<close> puts the generated
  \<^verbatim>\<open>_id\<close> first, then the caller's fields, then the tenant and the timestamps, and
  answers the document with \<^verbatim>\<open>_id\<close> renamed to \<^verbatim>\<open>id\<close>.
\<close>

definition collection :: "store \<Rightarrow> string \<Rightarrow> row list" where
  "collection s table = (case map_of (tables s) table of None \<Rightarrow> [] | Some docs \<Rightarrow> docs)"

definition convert_id :: "row \<Rightarrow> row" where
  "convert_id doc =
     remove_key ''_id'' (case map_of doc ''_id'' of None \<Rightarrow> doc | Some v \<Rightarrow> assign ''id'' v doc)"

definition mongo_create ::
  "string \<Rightarrow> row \<Rightarrow> TenantContext \<Rightarrow> store \<Rightarrow> (exn + row DataResult) \<times> store" where
  "mongo_create table rec ctx s =
     (let (u, s1) = uuidv4 s; (c, s2) = new_Date s1; (d, s3) = new_Date s2;
          document = assign_all (rec @ [(''tenant_id'', Str (tenant_id ctx)), (''created_at'', Str c),
                                        (''updated_at'', Str d)]) [(''_id'', Str u)]
      in if map_of document ''_id'' \<in> set (map (\<lambda>r. map_of r ''_id'') (collection s3 table))
         then (Inr (error_result ''E11000 duplicate key error''), s3)
         else (Inr (ok_result (convert_id document)),
               s3\<lparr>tables := assign table (collection s3 table @ [document]) (tables s3)\<rparr>))"

text \<open>
  \<^verbatim>\<open>read\<close>: the query object starts as \<^verbatim>\<open>{ tenant_id: context.tenant_id }\<close> and each
  entry of the caller's filter is then assigned into it (\<^verbatim>\<open>query[key] = value\<close>);
  \<^verbatim>\<open>$match\<close> keeps the documents that agree with every entry of the query. The
  pipeline sorts, skips, limits and projects (a projection keeps \<^verbatim>\<open>_id\<close>).
\<close>

definition mongo_query :: "TenantContext \<Rightarrow> QueryOptions \<Rightarrow> row" where
  "mongo_query ctx options = assign_all (filter_entries options) [(''tenant_id'', Str (tenant_id ctx))]"

definition matches :: "row \<Rightarrow> row \<Rightarrow> bool" where
  "matches query doc = list_all (\<lambda>(k, v). col_eq k v doc) query"

definition mongo_project :: "string option \<Rightarrow> row \<Rightarrow> row" where
  "mongo_project sel doc =
     (case select_columns sel of
        None \<Rightarrow> doc
      | Some cs \<Rightarrow> filter (\<lambda>p. fst p = ''_id'' \<or> fst p \<in> set cs) doc)"

definition mongo_read ::
  "string \<Rightarrow> QueryOptions \<Rightarrow> TenantContext \<Rightarrow> store \<Rightarrow> (exn + row list DataResult) \<times> store" where
  "mongo_read table options ctx s =
     (let query = mongo_query ctx options;
          documents = map (mongo_project (q_select options))
                        (paginate (q_limit options) (q_offset options)
                           (order_rows (q_order options) (filter (matches query) (collection s table))));
          data = map convert_id documents
      in if truthy_num (q_limit options) \<or> truthy_num (q_offset options)
         then (Inr \<lparr>dr_data = Val data,
                    dr_count = Some (length (filter (matches query) (collection s table))),
                    dr_error = None\<rparr>, s)
         else (Inr (ok_result data), s))"

text \<open>
  \<^verbatim>\<open>update\<close> (\<^verbatim>\<open>findOneAndUpdate\<close> on \<^verbatim>\<open>{ _id, tenant_id }\<close>, the first match) and
  \<^verbatim>\<open>delete\<close> (\<^verbatim>\<open>deleteOne\<close>); no match throws \<^verbatim>\<open>RESOURCE_NOT_FOUND\<close>.
\<close>

fun update_first :: "('r \<Rightarrow> bool) \<Rightarrow> ('r \<Rightarrow> 'r) \<Rightarrow> 'r list \<Rightarrow> 'r list" where
  "update_first P f [] = []"
| "update_first P f (r # rs) = (if P r then f r # rs else r # update_first P f rs)"

fun delete_first :: "('r \<Rightarrow> bool) \<Rightarrow> 'r list \<Rightarrow> 'r list" where
  "delete_first P [] = []"
| "delete_first P (r # rs) = (if P r then rs else r # delete_first P rs)"

definition mongo_update ::
  "string \<Rightarrow> string \<Rightarrow> row \<Rightarrow> TenantContext \<Rightarrow> store \<Rightarrow> (exn + row DataResult) \<times> store" where
  "mongo_update table i updates ctx s =
     (let (d, s1) = new_Date s;
          setDoc = assign ''updated_at'' (Str d) updates
      in case filter (id_and_tenant ''_id'' i ctx) (collection s1 table) of
           [] \<Rightarrow> (Inl (DataError ''Document not found or update failed'' RESOURCE_NOT_FOUND 404), s1)
         | doc # _ \<Rightarrow>
             (Inr (ok_result (convert_id (assign_all setDoc doc))),
              s1\<lparr>tables := assign table
                     (update_first (id_and_tenant ''_id'' i ctx) (assign_all setDoc) (collection s1 table))
                     (tables s1)\<rparr>))"

definition mongo_delete ::
  "string \<Rightarrow> string \<Rightarrow> TenantContext \<Rightarrow> store \<Rightarrow> (exn + unit DataResult) \<times> store" where
  "mongo_delete table i ctx s =
     (if filter (id_and_tenant ''_id'' i ctx) (collection s table) = []
      then (Inl (DataError ''Document not found'' RESOURCE_NOT_FOUND 404), s)
      else (Inr deleted,
            s\<lparr>tables := assign table (delete_first (id_and_tenant ''_id'' i ctx) (collection s table))
                          (tables s)\<rparr>))"

section \<open>The Supabase adapter\<close>

text \<open>
  The adapter builds PostgREST requests. \<^verbatim>\<open>update(...).eq('id', id).eq('tenant_id',
  ...).select().single()\<close> updates the matching rows and answers them; \<^verbatim>\<open>single()\<close>
  answers an error unless exactly one row came back, and any error throws the
  \<^verbatim>\<open>DataError\<close> with \<^verbatim>\<open>DATABASE_ERROR\<close>. \<^verbatim>\<open>delete().eq(...).eq(...)\<close> answers no error
  when no row matches.
\<close>

definition supabase_update ::
  "string \<Rightarrow> string \<Rightarrow> row \<Rightarrow> TenantContext \<Rightarrow> store \<Rightarrow> (exn + row DataResult) \<times> store" where
  "supabase_update table i updates ctx s =
     (let (d, s1) = new_Date s;
          updateData = assign ''updated_at'' (Str d) updates
      in case map_of (tables s1) table of
           None \<Rightarrow> (Inl (DataError ''Failed to update record'' DATABASE_ERROR 500), s1)
         | Some rows \<Rightarrow>
             (let changed = map (\<lambda>r. if id_and_tenant ''id'' i ctx r then assign_all updateData r else r) rows;
                  returned = map (assign_all updateData) (filter (id_and_tenant ''id'' i ctx) rows);
                  s2 = s1\<lparr>tables := assign table changed (tables s1)\<rparr>
              in case returned of
                   [r] \<Rightarrow> (Inr (ok_result r), s2)
                 | _ \<Rightarrow> (Inl (DataError ''Failed to update record'' DATABASE_ERROR 500), s2)))"

definition supabase_delete ::
  "string \<Rightarrow> string \<Rightarrow> TenantContext \<Rightarrow> store \<Rightarrow> (exn + unit DataResult) \<times> store" where
  "supabase_delete table i ctx s =
     (case map_of (tables s) table of
        None \<Rightarrow> (Inl (DataError ''Failed to delete record'' DATABASE_ERROR 500), s)
      | Some rows \<Rightarrow>
          (Inr deleted,
           s\<lparr>tables := assign table (filter (\<lambda>r. \<not> id_and_tenant ''id'' i ctx r) rows) (tables s)\<rparr>))"

definition empty_store :: store where
  "empty_store = \<lparr>tables = [(''projects'', [])], uuids = [''id-1'', ''id-2'', ''id-3'', ''id-4''],
                    dates = [''t1'', ''t2'', ''t3'', ''t4'', ''t5'', ''t6'', ''t7'', ''t8''],
                    raw_selects = []\<rparr>"

definition acme :: row where "acme = [(''name'', Str ''Acme'')]"

definition mongo_store :: store where
  "mongo_store = snd (mongo_create ''projects'' acme (ctx_of ''B'') empty_store)"

definition sql_store :: store where
  "sql_store = snd (pg_create ''projects'' acme (ctx_of ''B'') empty_store)"

definition tenant_filter :: "string \<Rightarrow> QueryOptions" where
  "tenant_filter t = no_options\<lparr>q_filter := Some [(''tenant_id'', Str t)]\<rparr>"

definition acme_as_read :: row where
  "acme_as_read = [(''name'', Str ''Acme''), (''tenant_id'', Str ''B''), (''created_at'', Str ''t1''),
                   (''updated_at'', Str ''t2''), (''id'', Str ''id-1'')]"

text \<open>
  \<^verbatim>\<open>bulkCreate\<close> of the PostgreSQL adapter: one \<^verbatim>\<open>INSERT\<close> of all stamped records,
  refused or accepted as a whole. The column list is that of the first record, the
  statement has as many placeholders as records times columns, and the parameters are
  the values of all records in a row (\<^verbatim>\<open>flatMap\<close>): the server refuses the statement
  when the two numbers differ, and otherwise reads the values by position, whatever key
  they had. That of the MongoDB adapter: \<^verbatim>\<open>insertMany\<close>, which inserts in order up to
  the first refused document and keeps what it inserted; a caller's \<^verbatim>\<open>_id\<close> replaces
  the generated one. Both answer an error result, never a thrown error, when the
  backend refuses.
\<close>

fun value_rows :: "nat \<Rightarrow> string list \<Rightarrow> jv list \<Rightarrow> row list" where
  "value_rows 0 columns params = []"
| "value_rows (Suc n) columns params =
     zip columns (take (length columns) params) # value_rows n columns (drop (length columns) params)"


fun stamp_all :: "string \<Rightarrow> row list \<Rightarrow> store \<Rightarrow> row list \<times> store" where
  "stamp_all tenant [] s = ([], s)"
| "stamp_all tenant (r # rs) s =
     (let (r', s1) = stamp tenant r s; (rs', s2) = stamp_all tenant rs s1 in (r' # rs', s2))"

definition pg_bulkCreate ::
  "string \<Rightarrow> row list \<Rightarrow> TenantContext \<Rightarrow> store \<Rightarrow> (exn + row list DataResult) \<times> store" where
  "pg_bulkCreate table records ctx s =
     (if records = [] then (Inr (ok_result []), s)
      else (let (recordsWithTenant, s1) = stamp_all (tenant_id ctx) records s;
                columns = map fst (hd recordsWithTenant);
                params = concat (map (map snd) recordsWithTenant)
            in if length params \<noteq> length records * length columns
               then (Inr (error_result ''bind message supplies the wrong number of parameters''), s1)
               else (case pg_insert table (value_rows (length records) columns params) s1 of
                       (Inl msg, s2) \<Rightarrow> (Inr (error_result msg), s2)
                     | (Inr rows, s2) \<Rightarrow> (Inr (ok_result rows), s2))))"

definition mongo_document :: "string \<Rightarrow> row \<Rightarrow> store \<Rightarrow> row \<times> store" where
  "mongo_document tenant rec s =
     (let (u, s1) = uuidv4 s; (c, s2) = new_Date s1; (d, s3) = new_Date s2
      in (assign_all (rec @ [(''tenant_id'', Str tenant), (''created_at'', Str c),
                             (''updated_at'', Str d)]) [(''_id'', Str u)], s3))"

fun mongo_documents :: "string \<Rightarrow> row list \<Rightarrow> store \<Rightarrow> row list \<times> store" where
  "mongo_documents tenant [] s = ([], s)"
| "mongo_documents tenant (r # rs) s =
     (let (r', s1) = mongo_document tenant r s; (rs', s2) = mongo_documents tenant rs s1
      in (r' # rs', s2))"

fun insertMany :: "row list \<Rightarrow> row list \<Rightarrow> string option \<times> row list" where
  "insertMany [] docs = (None, docs)"
| "insertMany (d # ds) docs =
     (if map_of d ''_id'' \<in> set (map (\<lambda>r. map_of r ''_id'') docs)
      then (Some ''E11000 duplicate key error'', docs)
      else insertMany ds (docs @ [d]))"

definition mongo_bulkCreate ::
  "string \<Rightarrow> row list \<Rightarrow> TenantContext \<Rightarrow> store \<Rightarrow> (exn + row list DataResult) \<times> store" where
  "mongo_bulkCreate table records ctx s =
     (if records = [] then (Inr (ok_result []), s)
      else (let (documents, s1) = mongo_documents (tenant_id ctx) records s;
                (err, docs) = insertMany documents (collection s1 table);
                s2 = s1\<lparr>tables := assign table docs (tables s1)\<rparr>
            in case err of
                 Some msg \<Rightarrow> (Inr (error_result msg), s2)
               | None \<Rightarrow> (Inr (ok_result (map convert_id documents)), s2)))"

section \<open>The data access facade\<close>

subsection \<open>The collaborators' interfaces\<close>

text \<open>
  \<^verbatim>\<open>IDatabaseAdapter\<close>, \<^verbatim>\<open>ICacheProvider\<close>, the analytics engine and
  \<^verbatim>\<open>IEventProvider\<close>, each over a state of its own. The cache is read and written at
  two types, \<^verbatim>\<open>get<T[]>\<close> for query results and \<^verbatim>\<open>get<T>\<close> for single records. Of
  the properties of an analytics event the response time is not kept, nor the id and the
  timestamp of an emitted event.
\<close>

record 'd DatabaseAdapter =
  db_create :: "string \<Rightarrow> row \<Rightarrow> TenantContext \<Rightarrow> 'd \<Rightarrow> (exn + row DataResult) \<times> 'd"
  db_read :: "string \<Rightarrow> QueryOptions \<Rightarrow> TenantContext \<Rightarrow> 'd \<Rightarrow> (exn + row list DataResult) \<times> 'd"
  db_update :: "string \<Rightarrow> string \<Rightarrow> row \<Rightarrow> TenantContext \<Rightarrow> 'd \<Rightarrow> (exn + row DataResult) \<times> 'd"
  db_delete :: "string \<Rightarrow> string \<Rightarrow> TenantContext \<Rightarrow> 'd \<Rightarrow> (exn + unit DataResult) \<times> 'd"
  db_bulkCreate :: "string \<Rightarrow> row list \<Rightarrow> TenantContext \<Rightarrow> 'd \<Rightarrow> (exn + row list DataResult) \<times> 'd"

record 'c CacheProvider =
  cache_get_list :: "string \<Rightarrow> TenantContext \<Rightarrow> 'c \<Rightarrow> (exn + row list option) \<times> 'c"
  cache_set_list :: "string \<Rightarrow> row list \<Rightarrow> TenantContext \<Rightarrow> nat \<Rightarrow> 'c \<Rightarrow> (exn + unit) \<times> 'c"
  cache_get_one :: "string \<Rightarrow> TenantContext \<Rightarrow> 'c \<Rightarrow> (exn + row option) \<times> 'c"
  cache_set_one :: "string \<Rightarrow> row \<Rightarrow> TenantContext \<Rightarrow> nat \<Rightarrow> 'c \<Rightarrow> (exn + unit) \<times> 'c"
  cache_delete :: "string \<Rightarrow> TenantContext \<Rightarrow> 'c \<Rightarrow> (exn + unit) \<times> 'c"
  cache_clearTenant :: "string \<Rightarrow> 'c \<Rightarrow> (exn + unit) \<times> 'c"

record 'a AnalyticsEngine =
  trackEvent :: "string \<Rightarrow> row \<Rightarrow> TenantContext \<Rightarrow> 'a \<Rightarrow> (exn + unit) \<times> 'a"
  incrementCounter :: "string \<Rightarrow> TenantContext \<Rightarrow> nat \<Rightarrow> row \<Rightarrow> 'a \<Rightarrow> (exn + unit) \<times> 'a"

record 'e EventProvider =
  emit :: "string \<Rightarrow> TenantContext \<Rightarrow> row \<Rightarrow> 'e \<Rightarrow> (exn + unit) \<times> 'e"

record ('d, 'c, 'a, 'e) DataManagerV3 =
  databaseAdapter :: "'d DatabaseAdapter"
  eventProvider :: "'e EventProvider option"
  cacheProvider :: "'c CacheProvider option"
  analyticsEngine :: "'a AnalyticsEngine option"

text \<open>
  The state a facade call runs in: the collaborators' states and the values the next
  \<^verbatim>\<open>uuidv4()\<close> and \<^verbatim>\<open>new Date().toISOString()\<close> of the facade will give.
\<close>

record ('d, 'c, 'a, 'e) world =
  w_db :: 'd
  w_cache :: 'c
  w_analytics :: 'a
  w_events :: 'e
  w_uuids :: "string list"
  w_clock :: "string list"

text \<open>
  The options of the facade's methods, each of which reads its own: \<^verbatim>\<open>useCache\<close> is
  false only when the caller passed \<^verbatim>\<open>false\<close>.
\<close>

record Options =
  o_skipCache :: bool
  o_skipAnalytics :: bool
  o_invalidateCache :: bool
  o_useCache :: bool
  o_cacheTTL :: "nat option"
  o_cacheKey :: "string option"
  o_batchSize :: "nat option"

definition default_options :: Options where
  "default_options =
     \<lparr>o_skipCache = False, o_skipAnalytics = False, o_invalidateCache = False, o_useCache = True,
      o_cacheTTL = None, o_cacheKey = None, o_batchSize = None\<rparr>"

subsection \<open>Asynchronous code as state passing with errors\<close>

definition ret :: "'x \<Rightarrow> 'w \<Rightarrow> (exn + 'x) \<times> 'w" where
  "ret x w = (Inr x, w)"

definition throw :: "exn \<Rightarrow> 'w \<Rightarrow> (exn + 'x) \<times> 'w" where
  "throw e w = (Inl e, w)"

definition do_then ::
  "('w \<Rightarrow> (exn + 'x) \<times> 'w) \<Rightarrow> ('x \<Rightarrow> 'w \<Rightarrow> (exn + 'y) \<times> 'w) \<Rightarrow> 'w \<Rightarrow> (exn + 'y) \<times> 'w" where
  "do_then p f w = (case p w of (Inl e, w') \<Rightarrow> (Inl e, w') | (Inr x, w') \<Rightarrow> f x w')"

definition try_catch ::
  "('w \<Rightarrow> (exn + 'x) \<times> 'w) \<Rightarrow> (exn \<Rightarrow> 'w \<Rightarrow> (exn + 'x) \<times> 'w) \<Rightarrow> 'w \<Rightarrow> (exn + 'x) \<times> 'w" where
  "try_catch p h w = (case p w of (Inl e, w') \<Rightarrow> h e w' | (Inr x, w') \<Rightarrow> (Inr x, w'))"

definition on_db ::
  "('d \<Rightarrow> (exn + 'x) \<times> 'd) \<Rightarrow> ('d, 'c, 'a, 'e) world \<Rightarrow> (exn + 'x) \<times> ('d, 'c, 'a, 'e) world" where
  "on_db f w = (case f (w_db w) of (r, d) \<Rightarrow> (r, w\<lparr>w_db := d\<rparr>))"

definition on_cache ::
  "('c \<Rightarrow> (exn + 'x) \<times> 'c) \<Rightarrow> ('d, 'c, 'a, 'e) world \<Rightarrow> (exn + 'x) \<times> ('d, 'c, 'a, 'e) world" where
  "on_cache f w = (case f (w_cache w) of (r, c) \<Rightarrow> (r, w\<lparr>w_cache := c\<rparr>))"

definition on_analytics ::
  "('a \<Rightarrow> (exn + 'x) \<times> 'a) \<Rightarrow> ('d, 'c, 'a, 'e) world \<Rightarrow> (exn + 'x) \<times> ('d, 'c, 'a, 'e) world" where
  "on_analytics f w = (case f (w_analytics w) of (r, a) \<Rightarrow> (r, w\<lparr>w_analytics := a\<rparr>))"

definition on_events ::
  "('e \<Rightarrow> (exn + 'x) \<times> 'e) \<Rightarrow> ('d, 'c, 'a, 'e) world \<Rightarrow> (exn + 'x) \<times> ('d, 'c, 'a, 'e) world" where
  "on_events f w = (case f (w_events w) of (r, e) \<Rightarrow> (r, w\<lparr>w_events := e\<rparr>))"

definition next_uuid :: "('d, 'c, 'a, 'e) world \<Rightarrow> (exn + string) \<times> ('d, 'c, 'a, 'e) world" where
  "next_uuid w = (case w_uuids w of [] \<Rightarrow> (Inr [], w) | u # us \<Rightarrow> (Inr u, w\<lparr>w_uuids := us\<rparr>))"

definition next_date :: "('d, 'c, 'a, 'e) world \<Rightarrow> (exn + string) \<times> ('d, 'c, 'a, 'e) world" where
  "next_date w = (case w_clock w of [] \<Rightarrow> (Inr [], w) | t # ts \<Rightarrow> (Inr t, w\<lparr>w_clock := ts\<rparr>))"

text \<open>The text of a value inside a template string.\<close>

function digits :: "nat \<Rightarrow> string" where
  "digits n = (if n < 10 then [char_of (48 + n)] else digits (n div 10) @ [char_of (48 + n mod 10)])"
  by pat_completeness auto
termination
  by (relation "measure (\<lambda>n. n)") auto

definition template_text :: "jv option \<Rightarrow> string" where
  "template_text v =
     (case v of
        None \<Rightarrow> ''undefined''
      | Some (Str s) \<Rightarrow> s
      | Some (Num n) \<Rightarrow> (if n < 0 then CHR ''-'' # digits (nat (- n)) else digits (nat n))
      | Some (Obj _) \<Rightarrow> ''[object Object]'')"

definition record_key :: "string \<Rightarrow> string \<Rightarrow> string" where
  "record_key table i = table @ '':'' @ i"

definition query_key :: "(QueryOptions \<Rightarrow> string) \<Rightarrow> string \<Rightarrow> QueryOptions \<Rightarrow> TenantContext \<Rightarrow> string" where
  "query_key stringify table options ctx =
     table @ '':query:'' @ stringify options @ '':'' @ tenant_id ctx"

definition or_default :: "nat option \<Rightarrow> nat \<Rightarrow> nat" where
  "or_default n d = (case n of None \<Rightarrow> d | Some k \<Rightarrow> if k = 0 then d else k)"

subsection \<open>Audit log\<close>

text \<open>
  \<^verbatim>\<open>createAuditLog\<close>, the same text in \<^verbatim>\<open>DataManagerV3\<close> and \<^verbatim>\<open>DataManagerV2\<close>:
  the entry is created through the adapter in the table \<^verbatim>\<open>audit_logs\<close> under a system
  context; whatever the \<^verbatim>\<open>try\<close> block throws is logged to the console and dropped.
\<close>

record AuditData =
  al_tenant_id :: string
  al_user_id :: string
  al_action :: string
  al_resource_type :: string
  al_resource_id :: "jv option"
  al_old_values :: "row option"
  al_new_values :: "row option"

definition optional_field :: "string \<Rightarrow> jv option \<Rightarrow> row" where
  "optional_field k v = (case v of None \<Rightarrow> [] | Some x \<Rightarrow> [(k, x)])"

definition audit_entry :: "AuditData \<Rightarrow> string \<Rightarrow> string \<Rightarrow> row" where
  "audit_entry logData i created =
     [(''id'', Str i)]
     @ assign_all
         ([(''tenant_id'', Str (al_tenant_id logData)), (''user_id'', Str (al_user_id logData)),
           (''action'', Str (al_action logData)), (''resource_type'', Str (al_resource_type logData))]
          @ optional_field ''resource_id'' (al_resource_id logData)
          @ optional_field ''old_values'' (map_option Obj (al_old_values logData))
          @ optional_field ''new_values'' (map_option Obj (al_new_values logData))
          @ [(''created_at'', Str created)]) []"

definition system_context :: "AuditData \<Rightarrow> TenantContext" where
  "system_context logData =
     \<lparr>tenant_id = al_tenant_id logData, user_id = al_user_id logData, role = ''system'',
      permissions = []\<rparr>"

definition createAuditLog ::
  "'d DatabaseAdapter \<Rightarrow> AuditData \<Rightarrow> ('d, 'c, 'a, 'e) world \<Rightarrow> (exn + unit) \<times> ('d, 'c, 'a, 'e) world" where
  "createAuditLog adapter logData =
     try_catch
       (do_then next_date (\<lambda>created.
        do_then next_uuid (\<lambda>i.
        do_then (on_db (db_create adapter ''audit_logs'' (audit_entry logData i created)
                          (system_context logData))) (\<lambda>_.
        ret ()))))
       (\<lambda>error. ret ())"

definition audit_data ::
  "TenantContext \<Rightarrow> string \<Rightarrow> string \<Rightarrow> jv option \<Rightarrow> row option \<Rightarrow> row option \<Rightarrow> AuditData" where
  "audit_data ctx action table i old new =
     \<lparr>al_tenant_id = tenant_id ctx, al_user_id = user_id ctx, al_action = action,
      al_resource_type = table, al_resource_id = i, al_old_values = old, al_new_values = new\<rparr>"

subsection \<open>Steps shared by the methods\<close>

text \<open>A step on an optional collaborator does nothing when it is absent.\<close>

definition with_cache ::
  "('d, 'c, 'a, 'e) DataManagerV3 \<Rightarrow> bool \<Rightarrow> ('c CacheProvider \<Rightarrow> 'c \<Rightarrow> (exn + unit) \<times> 'c)
     \<Rightarrow> ('d, 'c, 'a, 'e) world \<Rightarrow> (exn + unit) \<times> ('d, 'c, 'a, 'e) world" where
  "with_cache m enabled f =
     (case cacheProvider m of
        Some cp \<Rightarrow> if enabled then on_cache (f cp) else ret ()
      | None \<Rightarrow> ret ())"

definition with_analytics ::
  "('d, 'c, 'a, 'e) DataManagerV3 \<Rightarrow> bool \<Rightarrow> ('a AnalyticsEngine \<Rightarrow> 'a \<Rightarrow> (exn + unit) \<times> 'a)
     \<Rightarrow> ('d, 'c, 'a, 'e) world \<Rightarrow> (exn + unit) \<times> ('d, 'c, 'a, 'e) world" where
  "with_analytics m enabled f =
     (case analyticsEngine m of
        Some an \<Rightarrow> if enabled then on_analytics (f an) else ret ()
      | None \<Rightarrow> ret ())"

definition emit_event ::
  "'e EventProvider option \<Rightarrow> string \<Rightarrow> TenantContext \<Rightarrow> row
     \<Rightarrow> ('d, 'c, 'a, 'e) world \<Rightarrow> (exn + unit) \<times> ('d, 'c, 'a, 'e) world" where
  "emit_event ep type ctx payload =
     (case ep of Some p \<Rightarrow> on_events (emit p type ctx payload) | None \<Rightarrow> ret ())"

text \<open>
  The \<^verbatim>\<open>catch\<close> of every method: track the error, rethrow a \<^verbatim>\<open>DataError\<close>, answer
  any other error as an error result.
\<close>

definition on_error ::
  "('d, 'c, 'a, 'e) DataManagerV3 \<Rightarrow> bool \<Rightarrow> string \<Rightarrow> string \<Rightarrow> TenantContext \<Rightarrow> exn
     \<Rightarrow> ('d, 'c, 'a, 'e) world \<Rightarrow> (exn + 'x DataResult) \<times> ('d, 'c, 'a, 'e) world" where
  "on_error m track event table ctx error =
     do_then (with_analytics m track
                (\<lambda>an. trackEvent an event [(''table'', Str table), (''error'', Str (message error))] ctx))
       (\<lambda>_. if instanceof_DataError error then throw error else ret (error_result (message error)))"

definition invalidateRelatedCache ::
  "('d, 'c, 'a, 'e) DataManagerV3 \<Rightarrow> string \<Rightarrow> TenantContext
     \<Rightarrow> ('d, 'c, 'a, 'e) world \<Rightarrow> (exn + unit) \<times> ('d, 'c, 'a, 'e) world" where
  "invalidateRelatedCache m table ctx =
     (case cacheProvider m of
        None \<Rightarrow> ret ()
      | Some cp \<Rightarrow> try_catch (on_cache (cache_clearTenant cp (tenant_id ctx))) (\<lambda>error. ret ()))"

definition first_row :: "row list DataResult \<Rightarrow> row option" where
  "first_row res = (case dr_data res of Val (r # _) \<Rightarrow> Some r | _ \<Rightarrow> None)"

subsection \<open>\<^verbatim>\<open>DataManagerV3\<close>\<close>

definition v3_create ::
  "('d, 'c, 'a, 'e) DataManagerV3 \<Rightarrow> string \<Rightarrow> row \<Rightarrow> TenantContext \<Rightarrow> Options
     \<Rightarrow> ('d, 'c, 'a, 'e) world \<Rightarrow> (exn + row DataResult) \<times> ('d, 'c, 'a, 'e) world" where
  "v3_create m table rec ctx options =
     try_catch
       (do_then (on_db (db_create (databaseAdapter m) table rec ctx)) (\<lambda>result.
          case dr_data result of
            Val created \<Rightarrow>
              do_then (with_cache m (\<not> o_skipCache options)
                         (\<lambda>cp. cache_set_one cp
                                 (record_key table (template_text (map_of created ''id'')))
                                 created ctx (or_default (o_cacheTTL options) 3600))) (\<lambda>_.
              do_then (with_analytics m (\<not> o_skipAnalytics options)
                         (\<lambda>an. trackEvent an ''record_created''
                                 ([(''table'', Str table)] @ optional_field ''record_id'' (map_of created ''id''))
                                 ctx)) (\<lambda>_.
              do_then (with_analytics m (\<not> o_skipAnalytics options)
                         (\<lambda>an. incrementCounter an ''records_created'' ctx 1 [(''table'', Str table)])) (\<lambda>_.
              do_then (createAuditLog (databaseAdapter m)
                         (audit_data ctx ''CREATE'' table (map_of created ''id'') None (Some rec))) (\<lambda>_.
              do_then (emit_event (eventProvider m) ''data.created'' ctx
                         [(''table'', Str table), (''record'', Obj created)]) (\<lambda>_.
              ret result)))))
          | _ \<Rightarrow> ret result))
       (on_error m (\<not> o_skipAnalytics options) ''record_create_error'' table ctx)"

text \<open>
  \<^verbatim>\<open>read\<close>: with a cache provider and \<^verbatim>\<open>useCache !== false\<close> the cache is asked
  first, and a cached value is answered as \<^verbatim>\<open>{ data: cachedResult }\<close>; otherwise the
  adapter reads, its \<^verbatim>\<open>data\<close> is cached, and its result is answered as it is.
\<close>

definition read_cache_key ::
  "(QueryOptions \<Rightarrow> string) \<Rightarrow> string \<Rightarrow> QueryOptions \<Rightarrow> TenantContext \<Rightarrow> Options \<Rightarrow> string" where
  "read_cache_key stringify table options ctx cacheOptions =
     (case o_cacheKey cacheOptions of
        Some k \<Rightarrow> if k \<noteq> [] then k else query_key stringify table options ctx
      | None \<Rightarrow> query_key stringify table options ctx)"

definition read_from_database ::
  "('d, 'c, 'a, 'e) DataManagerV3 \<Rightarrow> string \<Rightarrow> string \<Rightarrow> QueryOptions \<Rightarrow> TenantContext \<Rightarrow> Options
     \<Rightarrow> ('d, 'c, 'a, 'e) world \<Rightarrow> (exn + row list DataResult) \<times> ('d, 'c, 'a, 'e) world" where
  "read_from_database m cacheKey table options ctx cacheOptions =
     do_then (on_db (db_read (databaseAdapter m) table options ctx)) (\<lambda>result.
     do_then (case dr_data result of
                Val rows \<Rightarrow>
                  with_cache m (o_useCache cacheOptions)
                    (\<lambda>cp. cache_set_list cp cacheKey rows ctx (or_default (o_cacheTTL cacheOptions) 300))
              | _ \<Rightarrow> ret ()) (\<lambda>_.
     do_then (with_analytics m True
                (\<lambda>an. trackEvent an ''records_read''
                        [(''table'', Str table),
                         (''count'', Num (int (length (rows_or_empty result))))] ctx)) (\<lambda>_.
     do_then (with_analytics m True
                (\<lambda>an. incrementCounter an ''records_read'' ctx 1 [(''table'', Str table)])) (\<lambda>_.
     ret result))))"

definition v3_read ::
  "('d, 'c, 'a, 'e) DataManagerV3 \<Rightarrow> (QueryOptions \<Rightarrow> string) \<Rightarrow> string \<Rightarrow> QueryOptions
     \<Rightarrow> TenantContext \<Rightarrow> Options
     \<Rightarrow> ('d, 'c, 'a, 'e) world \<Rightarrow> (exn + row list DataResult) \<times> ('d, 'c, 'a, 'e) world" where
  "v3_read m stringify table options ctx cacheOptions =
     try_catch
       (let cacheKey = read_cache_key stringify table options ctx cacheOptions in
        case cacheProvider m of
          Some cp \<Rightarrow>
            if o_useCache cacheOptions
            then do_then (on_cache (cache_get_list cp cacheKey ctx)) (\<lambda>cachedResult.
                   case cachedResult of
                     Some rows \<Rightarrow>
                       do_then (with_analytics m True
                                  (\<lambda>an. trackEvent an ''cache_hit''
                                          [(''table'', Str table), (''cache_key'', Str cacheKey)] ctx)) (\<lambda>_.
                       ret (ok_result rows))
                   | None \<Rightarrow> read_from_database m cacheKey table options ctx cacheOptions)
            else read_from_database m cacheKey table options ctx cacheOptions
        | None \<Rightarrow> read_from_database m cacheKey table options ctx cacheOptions)
       (on_error m True ''record_read_error'' table ctx)"

definition by_id :: "string \<Rightarrow> QueryOptions" where
  "by_id i = no_options\<lparr>q_filter := Some [(''id'', Str i)]\<rparr>"

definition track_two ::
  "('d, 'c, 'a, 'e) DataManagerV3 \<Rightarrow> bool \<Rightarrow> string \<Rightarrow> string \<Rightarrow> string \<Rightarrow> string \<Rightarrow> TenantContext
     \<Rightarrow> ('d, 'c, 'a, 'e) world \<Rightarrow> (exn + unit) \<times> ('d, 'c, 'a, 'e) world" where
  "track_two m enabled event counter table i ctx =
     do_then (with_analytics m enabled
                (\<lambda>an. trackEvent an event [(''table'', Str table), (''record_id'', Str i)] ctx)) (\<lambda>_.
     with_analytics m enabled
       (\<lambda>an. incrementCounter an counter ctx 1 [(''table'', Str table)]))"

definition v3_update ::
  "('d, 'c, 'a, 'e) DataManagerV3 \<Rightarrow> string \<Rightarrow> string \<Rightarrow> row \<Rightarrow> TenantContext \<Rightarrow> Options
     \<Rightarrow> ('d, 'c, 'a, 'e) world \<Rightarrow> (exn + row DataResult) \<times> ('d, 'c, 'a, 'e) world" where
  "v3_update m table i updates ctx options =
     try_catch
       (do_then (on_db (db_read (databaseAdapter m) table (by_id i) ctx)) (\<lambda>existingResult.
        do_then (on_db (db_update (databaseAdapter m) table i updates ctx)) (\<lambda>result.
          case dr_data result of
            Val updated \<Rightarrow>
              do_then (with_cache m (\<not> o_skipCache options)
                         (\<lambda>cp. cache_set_one cp (record_key table i) updated ctx 3600)) (\<lambda>_.
              do_then (if \<not> o_skipCache options \<and> o_invalidateCache options
                       then invalidateRelatedCache m table ctx else ret ()) (\<lambda>_.
              do_then (track_two m (\<not> o_skipAnalytics options) ''record_updated'' ''records_updated''
                         table i ctx) (\<lambda>_.
              do_then (createAuditLog (databaseAdapter m)
                         (audit_data ctx ''UPDATE'' table (Some (Str i)) (first_row existingResult)
                            (Some updates))) (\<lambda>_.
              do_then (emit_event (eventProvider m) ''data.updated'' ctx
                         [(''table'', Str table), (''record'', Obj updated), (''changes'', Obj updates)]) (\<lambda>_.
              ret result)))))
          | _ \<Rightarrow> ret result)))
       (on_error m (\<not> o_skipAnalytics options) ''record_update_error'' table ctx)"

definition v3_delete ::
  "('d, 'c, 'a, 'e) DataManagerV3 \<Rightarrow> string \<Rightarrow> string \<Rightarrow> TenantContext \<Rightarrow> Options
     \<Rightarrow> ('d, 'c, 'a, 'e) world \<Rightarrow> (exn + unit DataResult) \<times> ('d, 'c, 'a, 'e) world" where
  "v3_delete m table i ctx options =
     try_catch
       (do_then (on_db (db_read (databaseAdapter m) table (by_id i) ctx)) (\<lambda>existingResult.
        do_then (on_db (db_delete (databaseAdapter m) table i ctx)) (\<lambda>result.
          if dr_data result = Undefined
          then do_then (with_cache m True (\<lambda>cp. cache_delete cp (record_key table i) ctx)) (\<lambda>_.
               do_then (if o_invalidateCache options
                        then invalidateRelatedCache m table ctx else ret ()) (\<lambda>_.
               do_then (track_two m (\<not> o_skipAnalytics options) ''record_deleted'' ''records_deleted''
                          table i ctx) (\<lambda>_.
               do_then (createAuditLog (databaseAdapter m)
                          (audit_data ctx ''DELETE'' table (Some (Str i)) (first_row existingResult) None)) (\<lambda>_.
               do_then (emit_event (eventProvider m) ''data.deleted'' ctx
                          [(''table'', Str table), (''record_id'', Str i)]) (\<lambda>_.
               ret result)))))
          else ret result)))
       (on_error m (\<not> o_skipAnalytics options) ''record_delete_error'' table ctx)"

text \<open>
  \<^verbatim>\<open>getById\<close>: a cached record is answered as it is; otherwise the adapter reads
  with the filter on the id and the limit 1, and the first row, or \<^verbatim>\<open>null\<close>, is
  answered without the adapter's count or error. Its \<^verbatim>\<open>catch\<close> does not track.
\<close>

definition found :: "row option \<Rightarrow> row DataResult" where
  "found r = \<lparr>dr_data = (case r of None \<Rightarrow> Null | Some x \<Rightarrow> Val x), dr_count = None, dr_error = None\<rparr>"

definition get_from_database ::
  "('d, 'c, 'a, 'e) DataManagerV3 \<Rightarrow> string \<Rightarrow> string \<Rightarrow> TenantContext \<Rightarrow> Options
     \<Rightarrow> ('d, 'c, 'a, 'e) world \<Rightarrow> (exn + row DataResult) \<times> ('d, 'c, 'a, 'e) world" where
  "get_from_database m table i ctx options =
     do_then (on_db (db_read (databaseAdapter m) table ((by_id i)\<lparr>q_limit := Some 1\<rparr>) ctx)) (\<lambda>result.
     do_then (case first_row result of
                Some r \<Rightarrow>
                  with_cache m (o_useCache options)
                    (\<lambda>cp. cache_set_one cp (record_key table i) r ctx (or_default (o_cacheTTL options) 3600))
              | None \<Rightarrow> ret ()) (\<lambda>_.
     do_then (with_analytics m True
                (\<lambda>an. trackEvent an ''record_get_by_id''
                        [(''table'', Str table), (''record_id'', Str i)] ctx)) (\<lambda>_.
     ret (found (first_row result)))))"

definition v3_getById ::
  "('d, 'c, 'a, 'e) DataManagerV3 \<Rightarrow> string \<Rightarrow> string \<Rightarrow> TenantContext \<Rightarrow> Options
     \<Rightarrow> ('d, 'c, 'a, 'e) world \<Rightarrow> (exn + row DataResult) \<times> ('d, 'c, 'a, 'e) world" where
  "v3_getById m table i ctx options =
     try_catch
       (case cacheProvider m of
          Some cp \<Rightarrow>
            if o_useCache options
            then do_then (on_cache (cache_get_one cp (record_key table i) ctx)) (\<lambda>cachedRecord.
                   case cachedRecord of
                     Some r \<Rightarrow>
                       do_then (with_analytics m True
                                  (\<lambda>an. trackEvent an ''cache_hit''
                                          [(''table'', Str table), (''record_id'', Str i)] ctx)) (\<lambda>_.
                       ret (ok_result r))
                   | None \<Rightarrow> get_from_database m table i ctx options)
            else get_from_database m table i ctx options
        | None \<Rightarrow> get_from_database m table i ctx options)
       (\<lambda>error. if instanceof_DataError error then throw error else ret (error_result (message error)))"

text \<open>
  \<^verbatim>\<open>bulkCreate\<close>: the records go to the adapter in slices of \<^verbatim>\<open>batchSize\<close>
  (\<^verbatim>\<open>options?.batchSize || 100\<close>, so never zero). The rows of a slice whose result has
  \<^verbatim>\<open>data\<close> are pushed to \<^verbatim>\<open>results\<close> and cached; a slice whose result has no
  \<^verbatim>\<open>data\<close> is passed over. The cache writes of a slice are all started
  (\<^verbatim>\<open>Promise.all\<close>); the first that fails throws.
\<close>

fun set_all :: "(row \<Rightarrow> 'c \<Rightarrow> (exn + unit) \<times> 'c) \<Rightarrow> row list \<Rightarrow> 'c \<Rightarrow> (exn + unit) \<times> 'c" where
  "set_all f [] c = (Inr (), c)"
| "set_all f (r # rs) c =
     (case f r c of
        (res, c1) \<Rightarrow>
          (case set_all f rs c1 of
             (res', c2) \<Rightarrow> (case res of Inl e \<Rightarrow> (Inl e, c2) | Inr _ \<Rightarrow> (res', c2))))"

function bulk_batches ::
  "('d, 'c, 'a, 'e) DataManagerV3 \<Rightarrow> string \<Rightarrow> row list \<Rightarrow> TenantContext \<Rightarrow> Options \<Rightarrow> nat \<Rightarrow> nat
     \<Rightarrow> row list \<Rightarrow> ('d, 'c, 'a, 'e) world \<Rightarrow> (exn + row list) \<times> ('d, 'c, 'a, 'e) world" where
  "bulk_batches m table records ctx options batchSize i results w =
     (if i < length records \<and> 0 < batchSize
      then (case on_db (db_bulkCreate (databaseAdapter m) table (take batchSize (drop i records)) ctx) w of
              (Inl e, w1) \<Rightarrow> (Inl e, w1)
            | (Inr batchResult, w1) \<Rightarrow>
                (case dr_data batchResult of
                   Val rows \<Rightarrow>
                     (case with_cache m (\<not> o_skipCache options)
                             (\<lambda>cp. set_all (\<lambda>r. cache_set_one cp
                                                  (record_key table (template_text (map_of r ''id'')))
                                                  r ctx 3600) rows) w1 of
                        (Inl e, w2) \<Rightarrow> (Inl e, w2)
                      | (Inr _, w2) \<Rightarrow>
                          bulk_batches m table records ctx options batchSize (i + batchSize)
                            (results @ rows) w2)
                 | _ \<Rightarrow>
                     bulk_batches m table records ctx options batchSize (i + batchSize) results w1))
      else (Inr results, w))"
  by pat_completeness auto
termination
  by (relation "measure (\<lambda>(m, table, records, ctx, options, batchSize, i, results, w). length records - i)")
     auto

fun audit_all ::
  "'d DatabaseAdapter \<Rightarrow> TenantContext \<Rightarrow> string \<Rightarrow> string \<Rightarrow> row list
     \<Rightarrow> ('d, 'c, 'a, 'e) world \<Rightarrow> (exn + unit) \<times> ('d, 'c, 'a, 'e) world" where
  "audit_all adapter ctx action table [] w = ret () w"
| "audit_all adapter ctx action table (r # rs) w =
     do_then (createAuditLog adapter (audit_data ctx action table (map_of r ''id'') None (Some r)))
       (\<lambda>_. audit_all adapter ctx action table rs) w"

definition v3_bulkCreate ::
  "('d, 'c, 'a, 'e) DataManagerV3 \<Rightarrow> string \<Rightarrow> row list \<Rightarrow> TenantContext \<Rightarrow> Options
     \<Rightarrow> ('d, 'c, 'a, 'e) world \<Rightarrow> (exn + row list DataResult) \<times> ('d, 'c, 'a, 'e) world" where
  "v3_bulkCreate m table records ctx options =
     try_catch
       (do_then (bulk_batches m table records ctx options (or_default (o_batchSize options) 100) 0 [])
          (\<lambda>results.
        do_then (with_analytics m (\<not> o_skipAnalytics options)
                   (\<lambda>an. trackEvent an ''bulk_create''
                           [(''table'', Str table), (''count'', Num (int (length results)))] ctx)) (\<lambda>_.
        do_then (with_analytics m (\<not> o_skipAnalytics options)
                   (\<lambda>an. incrementCounter an ''records_bulk_created'' ctx (length results)
                           [(''table'', Str table)])) (\<lambda>_.
        do_then (audit_all (databaseAdapter m) ctx ''BULK_CREATE'' table results) (\<lambda>_.
        do_then (emit_event (eventProvider m) ''data.created'' ctx
                   [(''table'', Str table), (''count'', Num (int (length results)))]) (\<lambda>_.
        ret (ok_result results)))))))
       (on_error m (\<not> o_skipAnalytics options) ''bulk_create_error'' table ctx)"

subsection \<open>\<^verbatim>\<open>DataManagerV2\<close>\<close>

text \<open>
  The facade without cache and analytics: its methods are those of \<^verbatim>\<open>DataManagerV3\<close>
  less the cache and analytics steps, and its \<^verbatim>\<open>bulkCreate\<close> hands all records to the
  adapter in one call and answers the adapter's result.
\<close>

record ('d, 'e) DataManagerV2 =
  databaseAdapter2 :: "'d DatabaseAdapter"
  eventProvider2 :: "'e EventProvider option"

definition rethrow_or_result ::
  "exn \<Rightarrow> 'w \<Rightarrow> (exn + 'x DataResult) \<times> 'w" where
  "rethrow_or_result error =
     (if instanceof_DataError error then throw error else ret (error_result (message error)))"

definition v2_create ::
  "('d, 'e) DataManagerV2 \<Rightarrow> string \<Rightarrow> row \<Rightarrow> TenantContext
     \<Rightarrow> ('d, 'c, 'a, 'e) world \<Rightarrow> (exn + row DataResult) \<times> ('d, 'c, 'a, 'e) world" where
  "v2_create m table rec ctx =
     try_catch
       (do_then (on_db (db_create (databaseAdapter2 m) table rec ctx)) (\<lambda>result.
          case dr_data result of
            Val created \<Rightarrow>
              do_then (createAuditLog (databaseAdapter2 m)
                         (audit_data ctx ''CREATE'' table (map_of created ''id'') None (Some rec))) (\<lambda>_.
              do_then (emit_event (eventProvider2 m) ''data.created'' ctx
                         [(''table'', Str table), (''record'', Obj created)]) (\<lambda>_.
              ret result))
          | _ \<Rightarrow> ret result))
       rethrow_or_result"

definition v2_read ::
  "('d, 'e) DataManagerV2 \<Rightarrow> string \<Rightarrow> QueryOptions \<Rightarrow> TenantContext
     \<Rightarrow> ('d, 'c, 'a, 'e) world \<Rightarrow> (exn + row list DataResult) \<times> ('d, 'c, 'a, 'e) world" where
  "v2_read m table options ctx =
     try_catch (on_db (db_read (databaseAdapter2 m) table options ctx)) rethrow_or_result"

definition v2_update ::
  "('d, 'e) DataManagerV2 \<Rightarrow> string \<Rightarrow> string \<Rightarrow> row \<Rightarrow> TenantContext
     \<Rightarrow> ('d, 'c, 'a, 'e) world \<Rightarrow> (exn + row DataResult) \<times> ('d, 'c, 'a, 'e) world" where
  "v2_update m table i updates ctx =
     try_catch
       (do_then (on_db (db_read (databaseAdapter2 m) table (by_id i) ctx)) (\<lambda>existingResult.
        do_then (on_db (db_update (databaseAdapter2 m) table i updates ctx)) (\<lambda>result.
          case dr_data result of
            Val updated \<Rightarrow>
              do_then (createAuditLog (databaseAdapter2 m)
                         (audit_data ctx ''UPDATE'' table (Some (Str i)) (first_row existingResult)
                            (Some updates))) (\<lambda>_.
              do_then (emit_event (eventProvider2 m) ''data.updated'' ctx
                         [(''table'', Str table), (''record'', Obj updated), (''changes'', Obj updates)]) (\<lambda>_.
              ret result))
          | _ \<Rightarrow> ret result)))
       rethrow_or_result"

definition v2_delete ::
  "('d, 'e) DataManagerV2 \<Rightarrow> string \<Rightarrow> string \<Rightarrow> TenantContext
     \<Rightarrow> ('d, 'c, 'a, 'e) world \<Rightarrow> (exn + unit DataResult) \<times> ('d, 'c, 'a, 'e) world" where
  "v2_delete m table i ctx =
     try_catch
       (do_then (on_db (db_read (databaseAdapter2 m) table (by_id i) ctx)) (\<lambda>existingResult.
        do_then (on_db (db_delete (databaseAdapter2 m) table i ctx)) (\<lambda>result.
          if dr_data result = Undefined
          then do_then (createAuditLog (databaseAdapter2 m)
                          (audit_data ctx ''DELETE'' table (Some (Str i)) (first_row existingResult) None)) (\<lambda>_.
               do_then (emit_event (eventProvider2 m) ''data.deleted'' ctx
                          [(''table'', Str table), (''record_id'', Str i)]) (\<lambda>_.
               ret result))
          else ret result)))
       rethrow_or_result"

definition v2_bulkCreate ::
  "('d, 'e) DataManagerV2 \<Rightarrow> string \<Rightarrow> row list \<Rightarrow> TenantContext
     \<Rightarrow> ('d, 'c, 'a, 'e) world \<Rightarrow> (exn + row list DataResult) \<times> ('d, 'c, 'a, 'e) world" where
  "v2_bulkCreate m table records ctx =
     try_catch
       (do_then (on_db (db_bulkCreate (databaseAdapter2 m) table records ctx)) (\<lambda>result.
          case dr_data result of
            Val rows \<Rightarrow>
              do_then (audit_all (databaseAdapter2 m) ctx ''BULK_CREATE'' table rows) (\<lambda>_.
              do_then (emit_event (eventProvider2 m) ''data.created'' ctx
                         [(''table'', Str table), (''count'', Num (int (length rows)))]) (\<lambda>_.
              ret result))
          | _ \<Rightarrow> ret result))
       rethrow_or_result"

subsection \<open>The facade over the modelled adapters\<close>

text \<open>
  The adapters of the storage section as values of the interface, a facade with no
  optional collaborator, and the sample data of the evaluations below.
\<close>

definition mongo_adapter :: "store DatabaseAdapter" where
  "mongo_adapter =
     \<lparr>db_create = mongo_create, db_read = mongo_read, db_update = mongo_update,
      db_delete = mongo_delete, db_bulkCreate = mongo_bulkCreate\<rparr>"

definition pg_adapter :: "store DatabaseAdapter" where
  "pg_adapter =
     \<lparr>db_create = pg_create, db_read = pg_read, db_update = pg_update,
      db_delete = pg_delete, db_bulkCreate = pg_bulkCreate\<rparr>"

definition bare_facade :: "'d DatabaseAdapter \<Rightarrow> ('d, unit, unit, unit) DataManagerV3" where
  "bare_facade adapter =
     \<lparr>databaseAdapter = adapter, eventProvider = None, cacheProvider = None, analyticsEngine = None\<rparr>"

definition bare_world :: "store \<Rightarrow> (store, unit, unit, unit) world" where
  "bare_world s =
     \<lparr>w_db = s, w_cache = (), w_analytics = (), w_events = (),
      w_uuids = [''a-1'', ''a-2'', ''a-3'', ''a-4''], w_clock = [''c1'', ''c2'', ''c3'', ''c4'']\<rparr>"

definition two_records :: "row list" where
  "two_records = [[(''_id'', Str ''x''), (''name'', Str ''first'')],
                  [(''_id'', Str ''x''), (''name'', Str ''second'')]]"

definition one_at_a_time :: Options where
  "one_at_a_time = default_options\<lparr>o_batchSize := Some 1\<rparr>"

definition first_stored :: row where
  "first_stored = [(''name'', Str ''first''), (''tenant_id'', Str ''A''), (''created_at'', Str ''t1''),
                   (''updated_at'', Str ''t2''), (''id'', Str ''x'')]"

text \<open>
  A cache provider that keeps its entries in a list keyed by tenant and key; it never
  fails and never expires an entry.
\<close>

type_synonym memory = "((string \<times> string) \<times> (row + row list)) list"

definition memory_cache :: "memory CacheProvider" where
  "memory_cache =
     \<lparr>cache_get_list = (\<lambda>k ctx c. (Inr (case map_of c (tenant_id ctx, k) of
                                             Some (Inr rows) \<Rightarrow> Some rows | _ \<Rightarrow> None), c)),
      cache_set_list = (\<lambda>k rows ctx ttl c. (Inr (), assign (tenant_id ctx, k) (Inr rows) c)),
      cache_get_one = (\<lambda>k ctx c. (Inr (case map_of c (tenant_id ctx, k) of
                                            Some (Inl r) \<Rightarrow> Some r | _ \<Rightarrow> None), c)),
      cache_set_one = (\<lambda>k r ctx ttl c. (Inr (), assign (tenant_id ctx, k) (Inl r) c)),
      cache_delete = (\<lambda>k ctx c. (Inr (), remove_key (tenant_id ctx, k) c)),
      cache_clearTenant = (\<lambda>t c. (Inr (), filter (\<lambda>p. fst (fst p) \<noteq> t) c))\<rparr>"

text \<open>
  Two providers that fail as \<^verbatim>\<open>RedisCacheAdapter\<close> does when Redis is out of reach or
  refuses a write: one throws on every call, the other reads as the one above and throws
  on every write.
\<close>

definition cache_down :: "memory CacheProvider" where
  "cache_down =
     \<lparr>cache_get_list = (\<lambda>k ctx c. (Inl (SDKError ''Failed to get cache value'' DATABASE_ERROR 500), c)),
      cache_set_list = (\<lambda>k rows ctx ttl c. (Inl (SDKError ''Failed to set cache value'' DATABASE_ERROR 500), c)),
      cache_get_one = (\<lambda>k ctx c. (Inl (SDKError ''Failed to get cache value'' DATABASE_ERROR 500), c)),
      cache_set_one = (\<lambda>k r ctx ttl c. (Inl (SDKError ''Failed to set cache value'' DATABASE_ERROR 500), c)),
      cache_delete = (\<lambda>k ctx c. (Inl (SDKError ''Failed to delete cache value'' DATABASE_ERROR 500), c)),
      cache_clearTenant = (\<lambda>t c. (Inl (SDKError ''Failed to clear tenant cache'' DATABASE_ERROR 500), c))\<rparr>"

definition cache_read_only :: "memory CacheProvider" where
  "cache_read_only =
     memory_cache
       \<lparr>cache_set_list := (\<lambda>k rows ctx ttl c. (Inl (SDKError ''Failed to set cache value'' DATABASE_ERROR 500), c)),
        cache_set_one := (\<lambda>k r ctx ttl c. (Inl (SDKError ''Failed to set cache value'' DATABASE_ERROR 500), c))\<rparr>"

definition cached_facade :: "(store, memory, unit, unit) DataManagerV3" where
  "cached_facade =
     \<lparr>databaseAdapter = pg_adapter, eventProvider = None, cacheProvider = Some memory_cache,
      analyticsEngine = None\<rparr>"

definition two_projects :: store where
  "two_projects =
     snd (pg_create ''projects'' [(''name'', Str ''two'')] (ctx_of ''A'')
       (snd (pg_create ''projects'' [(''name'', Str ''one'')] (ctx_of ''A'')
          (empty_store\<lparr>tables := [(''projects'', []), (''audit_logs'', [])]\<rparr>))))"

definition cold_world :: "(store, memory, unit, unit) world" where
  "cold_world =
     \<lparr>w_db = two_projects, w_cache = [], w_analytics = (), w_events = (),
      w_uuids = [''a-1'', ''a-2'', ''a-3'', ''a-4''], w_clock = [''c1'', ''c2'', ''c3'', ''c4'']\<rparr>"

text \<open>
  \<^verbatim>\<open>JSON.stringify\<close> is a parameter of \<^verbatim>\<open>read\<close>; the sample reads pass an explicit
  \<^verbatim>\<open>cacheKey\<close>, so the text of the options is never used.
\<close>

definition empty_json :: "QueryOptions \<Rightarrow> string" where
  "empty_json options = ''{}''"

definition first_page :: QueryOptions where
  "first_page = no_options\<lparr>q_limit := Some 1\<rparr>"

definition cache_on :: Options where
  "cache_on = default_options\<lparr>o_cacheKey := Some ''projects:first-page''\<rparr>"

definition cache_off :: Options where
  "cache_off = cache_on\<lparr>o_useCache := False\<rparr>"

definition warm_world :: "(store, memory, unit, unit) world" where
  "warm_world = snd (v3_read cached_facade empty_json ''projects'' first_page (ctx_of ''A'') cache_on cold_world)"

definition project_one :: row where
  "project_one = [(''name'', Str ''one''), (''id'', Str ''id-1''), (''tenant_id'', Str ''A''),
                  (''created_at'', Str ''t1''), (''updated_at'', Str ''t2'')]"

subsection \<open>Relating two runs\<close>

text \<open>
  Two programs are related under \<open>R\<close> when, started in related states, they answer the
  same result or error and end in related states; \<open>sim0\<close> is the same for two programs
  started in the same state.
\<close>

definition sim ::
  "('w \<Rightarrow> 'w \<Rightarrow> bool) \<Rightarrow> ('w \<Rightarrow> (exn + 'x) \<times> 'w) \<Rightarrow> ('w \<Rightarrow> (exn + 'x) \<times> 'w) \<Rightarrow> bool" where
  "sim R p q \<longleftrightarrow> (\<forall>w1 w2. R w1 w2 \<longrightarrow> fst (p w1) = fst (q w2) \<and> R (snd (p w1)) (snd (q w2)))"

definition same_analytics :: "('d, 'c, 'a, 'e) world \<Rightarrow> ('d, 'c, 'a, 'e) world \<Rightarrow> bool" where
  "same_analytics w1 w2 \<longleftrightarrow> w_analytics w1 = w_analytics w2"

definition same_but_db :: "('d, 'c, 'a, 'e) world \<Rightarrow> ('d, 'c, 'a, 'e) world \<Rightarrow> bool" where
  "same_but_db w1 w2 \<longleftrightarrow>
     w_cache w1 = w_cache w2 \<and> w_analytics w1 = w_analytics w2 \<and> w_events w1 = w_events w2
     \<and> w_uuids w1 = w_uuids w2 \<and> w_clock w1 = w_clock w2"

text \<open>The analytics steps that end \<^verbatim>\<open>readFromDatabase\<close>.\<close>

definition read_tail ::
  "('d, 'c, 'a, 'e) DataManagerV3 \<Rightarrow> string \<Rightarrow> TenantContext \<Rightarrow> row list DataResult
     \<Rightarrow> ('d, 'c, 'a, 'e) world \<Rightarrow> (exn + row list DataResult) \<times> ('d, 'c, 'a, 'e) world" where
  "read_tail m table ctx result =
     do_then (with_analytics m True
                (\<lambda>an. trackEvent an ''records_read''
                        [(''table'', Str table),
                         (''count'', Num (int (length (rows_or_empty result))))] ctx)) (\<lambda>_.
     do_then (with_analytics m True
                (\<lambda>an. incrementCounter an ''records_read'' ctx 1 [(''table'', Str table)])) (\<lambda>_.
     ret result))"

definition sim0 ::
  "('w \<Rightarrow> 'w \<Rightarrow> bool) \<Rightarrow> ('w \<Rightarrow> (exn + 'x) \<times> 'w) \<Rightarrow> ('w \<Rightarrow> (exn + 'x) \<times> 'w) \<Rightarrow> bool" where
  "sim0 R p q \<longleftrightarrow> (\<forall>w. fst (p w) = fst (q w) \<and> R (snd (p w)) (snd (q w)))"

definition audit_only_differs :: "'d DatabaseAdapter \<Rightarrow> 'd DatabaseAdapter \<Rightarrow> bool" where
  "audit_only_differs ad ad' \<longleftrightarrow>
     db_read ad' = db_read ad \<and> db_update ad' = db_update ad \<and> db_delete ad' = db_delete ad
     \<and> db_bulkCreate ad' = db_bulkCreate ad
     \<and> (\<forall>t. t \<noteq> ''audit_logs'' \<longrightarrow> db_create ad' t = db_create ad t)"

text \<open>An adapter whose \<^verbatim>\<open>create\<close> on the table \<^verbatim>\<open>audit_logs\<close> throws.\<close>

definition failing_audit :: "'d DatabaseAdapter \<Rightarrow> exn \<Rightarrow> 'd DatabaseAdapter" where
  "failing_audit adapter e =
     adapter\<lparr>db_create := (\<lambda>table. if table = ''audit_logs''
                                    then (\<lambda>rec ctx d. (Inl e, d))
                                    else db_create adapter table)\<rparr>"

definition audit_down :: exn where
  "audit_down = JsError ''audit store unavailable''"

definition empty_tables :: store where
  "empty_tables = empty_store\<lparr>tables := [(''projects'', []), (''audit_logs'', [])]\<rparr>"

section \<open>Verified properties of the cache adapter\<close>

lemma colon_key_inject:
  assumes "colon_free a" "colon_free b" "a @ CHR '':'' # k1 = b @ CHR '':'' # k2"
  shows "a = b"
  using assms
proof (induction a arbitrary: b)
  case Nil
  then show ?case by (cases b) (auto simp: colon_free_def)
next
  case (Cons x a)
  then show ?case by (cases b) (auto simp: colon_free_def)
qed

lemma colon_prefix_inject:
  assumes "colon_free a" "colon_free b" "prefix (a @ [CHR '':'']) (b @ CHR '':'' # k)"
  shows "a = b"
proof -
  from assms(3) obtain r where "b @ CHR '':'' # k = (a @ [CHR '':'']) @ r"
    by (auto simp: prefix_def)
  then have "a @ CHR '':'' # r = b @ CHR '':'' # k" by simp
  then show ?thesis using colon_key_inject assms(1,2) by blast
qed

lemma getTenantKey_neq:
  assumes "colon_free a" "colon_free b" "a \<noteq> b"
  shows "getTenantKey cfg k1 a \<noteq> getTenantKey cfg k2 b"
  using assms colon_key_inject [of a b k1 k2] by (auto simp: getTenantKey_def)

lemma glob_free_prefix:
  "glob_free q \<Longrightarrow> glob_match (q @ r) s \<Longrightarrow> prefix q s"
proof (induction q arbitrary: s)
  case Nil
  then show ?case by simp
next
  case (Cons c q)
  then show ?case
    by (cases s) (auto simp: glob_free_def split: if_splits)
qed

lemma map_of_filter_keep:
  "P k \<Longrightarrow> map_of (filter (\<lambda>e. P (fst e)) db) k = map_of db k"
  by (induction db) auto

lemma map_of_redis_setex:
  "map_of (redis_setex db k' ttl v) k = (if k = k' then Some (v, ttl) else map_of db k)"
  unfolding redis_setex_def by (induction db) auto

lemma redis_get_setex_other:
  "k \<noteq> k' \<Longrightarrow> redis_get (redis_setex db k' ttl v) k = redis_get db k"
  by (simp add: redis_get_def map_of_redis_setex)

lemma redis_exists_setex_other:
  "k \<noteq> k' \<Longrightarrow> redis_exists (redis_setex db k' ttl v) k = redis_exists db k"
  by (simp add: redis_exists_def map_of_redis_setex)

lemma mget_values_stats_irrelevant:
  "fst (mget_values cd vs cs) = fst (mget_values cd vs cs')"
proof (induction vs arbitrary: cs cs')
  case Nil
  then show ?case by simp
next
  case (Cons a vs)
  show ?case
  proof (cases a)
    case None
    with Cons [of "count_miss cs" "count_miss cs'"] show ?thesis
      by (auto split: prod.splits sum.splits)
  next
    case (Some v)
    with Cons [of "count_hit cs" "count_hit cs'"] show ?thesis
      by (auto split: prod.splits sum.splits option.splits)
  qed
qed

text \<open>
  Claim C3, amended. For two distinct tenant ids that contain no colon (every UUID, which
  \<^verbatim>\<open>TenantContextSchema\<close> asks \<^verbatim>\<open>tenant_id\<close> to be, is one), the physical keys of
  any two logical keys differ, and what \<^verbatim>\<open>get\<close>, \<^verbatim>\<open>exists\<close> and \<^verbatim>\<open>mget\<close> answer
  under the second tenant's context is the same before and after a \<^verbatim>\<open>set\<close> under the
  first tenant's context.
\<close>

theorem tenant_keys_do_not_collide:
  assumes "colon_free (tenant_id ctxA)" and "colon_free (tenant_id ctxB)"
    and "tenant_id ctxA \<noteq> tenant_id ctxB"
  shows "getTenantKey cfg k1 (tenant_id ctxA) \<noteq> getTenantKey cfg k2 (tenant_id ctxB)
    \<and> fst (get_cache cfg cd k2 ctxB (snd (set_cache cfg cd k1 v ctxA ttl cs)))
        = fst (get_cache cfg cd k2 ctxB cs)
    \<and> fst (exists_cache cfg k2 ctxB (snd (set_cache cfg cd k1 v ctxA ttl cs)))
        = fst (exists_cache cfg k2 ctxB cs)
    \<and> fst (mget cfg cd ks ctxB (snd (set_cache cfg cd k1 v ctxA ttl cs)))
        = fst (mget cfg cd ks ctxB cs)"
proof -
  have neq: "getTenantKey cfg k (tenant_id ctxB) \<noteq> getTenantKey cfg k1 (tenant_id ctxA)" for k
    using getTenantKey_neq [OF assms(2) assms(1)] assms(3) by metis
  have g: "fst (get_cache cfg cd k2 ctxB (snd (set_cache cfg cd k1 v ctxA ttl cs)))
        = fst (get_cache cfg cd k2 ctxB cs)"
    using neq [of k2]
    by (auto simp: get_cache_def set_cache_def Let_def redis_get_setex_other
             split: option.splits)
  have e: "fst (exists_cache cfg k2 ctxB (snd (set_cache cfg cd k1 v ctxA ttl cs)))
        = fst (exists_cache cfg k2 ctxB cs)"
    using neq [of k2]
    by (auto simp: exists_cache_def set_cache_def Let_def redis_exists_setex_other)
  have m: "fst (mget cfg cd ks ctxB (snd (set_cache cfg cd k1 v ctxA ttl cs)))
        = fst (mget cfg cd ks ctxB cs)"
  proof (cases "connected (redis cs) \<and> ks \<noteq> []")
    case False
    then show ?thesis by (auto simp: mget_def set_cache_def Let_def)
  next
    case True
    let ?tks = "map (\<lambda>key. getTenantKey cfg key (tenant_id ctxB)) ks"
    let ?db' = "redis_setex (entries (redis cs)) (getTenantKey cfg k1 (tenant_id ctxA))
                  (effective_ttl cfg ttl) (serialize cd v)"
    have eq: "map (redis_get ?db') ?tks = map (redis_get (entries (redis cs))) ?tks"
      using neq by (simp add: redis_get_setex_other)
    have "fst (mget cfg cd ks ctxB (snd (set_cache cfg cd k1 v ctxA ttl cs)))
          = fst (mget_values cd (map (redis_get ?db') ?tks)
                   (snd (set_cache cfg cd k1 v ctxA ttl cs)))"
      using True by (simp add: mget_def set_cache_def Let_def)
    also have "\<dots> = fst (mget_values cd (map (redis_get (entries (redis cs))) ?tks) cs)"
      unfolding eq by (rule mget_values_stats_irrelevant)
    also have "\<dots> = fst (mget cfg cd ks ctxB cs)"
      using True by (simp add: mget_def Let_def)
    finally show ?thesis .
  qed
  from neq [of k2] g e m show ?thesis by metis
qed

theorem tenant_keys_do_not_collide_witness:
  "colon_free (tenant_id (ctx_of ''t1'')) \<and> colon_free (tenant_id (ctx_of ''t2''))
   \<and> tenant_id (ctx_of ''t1'') \<noteq> tenant_id (ctx_of ''t2'')
   \<and> getTenantKey default_config ''k'' (tenant_id (ctx_of ''t1''))
        \<noteq> getTenantKey default_config ''k'' (tenant_id (ctx_of ''t2''))
   \<and> fst (get_cache default_config text_codec ''k'' (ctx_of ''t2'')
            (snd (set_cache default_config text_codec ''k'' ''v'' (ctx_of ''t1'') None empty_cache)))
        = fst (get_cache default_config text_codec ''k'' (ctx_of ''t2'') empty_cache)"
proof -
  have h: "colon_free (tenant_id (ctx_of ''t1''))" "colon_free (tenant_id (ctx_of ''t2''))"
    "tenant_id (ctx_of ''t1'') \<noteq> tenant_id (ctx_of ''t2'')"
    by (simp_all add: colon_free_def ctx_of_def)
  from tenant_keys_do_not_collide [OF h, of default_config "''k''" "''k''" text_codec "''v''" None
      empty_cache "[]"] h
  show ?thesis by blast
qed

text \<open>
  The derivation only concatenates, so a tenant id with a colon collides: the key
  \<^verbatim>\<open>b:c\<close> of tenant \<^verbatim>\<open>a\<close> and the key \<^verbatim>\<open>c\<close> of tenant \<^verbatim>\<open>a:b\<close> are both
  \<^verbatim>\<open>mt_sdk:tenant:a:b:c\<close>, and the second tenant reads what the first stored.
\<close>

theorem tenant_key_collision_counterexample:
  "tenant_id (ctx_of ''a'') \<noteq> tenant_id (ctx_of ''a:b'')
   \<and> getTenantKey default_config ''b:c'' (tenant_id (ctx_of ''a''))
       = getTenantKey default_config ''c'' (tenant_id (ctx_of ''a:b''))
   \<and> fst (get_cache default_config text_codec ''c'' (ctx_of ''a:b'') empty_cache) = Inr None
   \<and> fst (get_cache default_config text_codec ''c'' (ctx_of ''a:b'')
            (snd (set_cache default_config text_codec ''b:c'' ''secret'' (ctx_of ''a'') None
                    empty_cache)))
       = Inr (Some ''secret'')"
  by (simp add: ctx_of_def getTenantKey_def key_prefix_def default_config_def get_cache_def
        set_cache_def empty_cache_def text_codec_def redis_get_def redis_setex_def
        effective_ttl_def count_hit_def count_miss_def)

lemma clearTenant_pattern_prefix:
  assumes "glob_free (key_prefix cfg)" "glob_free t"
    and "k \<in> set (redis_keys db (getTenantKey cfg ''*'' t))"
  shows "prefix (key_prefix cfg @ '':tenant:'' @ t @ '':'') k"
proof -
  let ?q = "key_prefix cfg @ '':tenant:'' @ t @ '':''"
  have q: "glob_free ?q"
    using assms(1,2) by (auto simp: glob_free_def backslash_def)
  have pat: "getTenantKey cfg ''*'' t = ?q @ ''*''"
    by (simp add: getTenantKey_def)
  have "?q @ ''*'' \<noteq> ''*''" by simp
  with assms(3) have "stringmatchlen (?q @ ''*'') k"
    unfolding pat redis_keys_def by auto
  then have "glob_match (?q @ ''*'') k"
    by (auto simp: stringmatchlen_def split: if_splits)
  with q show ?thesis by (rule glob_free_prefix)
qed

text \<open>
  Claim C10, amended. When the key prefix and the tenant id given to \<^verbatim>\<open>clearTenant\<close>
  hold none of the pattern characters of \<^verbatim>\<open>KEYS\<close> and neither tenant id holds a colon
  (again true of UUIDs under the default prefix), \<^verbatim>\<open>clearTenant\<close> leaves every entry of
  every other tenant as it was, value and TTL.
\<close>

theorem clearTenant_keeps_other_tenants:
  assumes "glob_free (key_prefix cfg)" and "glob_free tenantId" and "colon_free tenantId"
    and "colon_free b" and "b \<noteq> tenantId"
  shows "tenant_entry cfg (snd (clearTenant cfg tenantId cs)) b key = tenant_entry cfg cs b key"
proof -
  let ?db = "entries (redis cs)"
  let ?keys = "redis_keys ?db (getTenantKey cfg ''*'' tenantId)"
  have notin: "getTenantKey cfg key b \<notin> set ?keys"
  proof
    assume "getTenantKey cfg key b \<in> set ?keys"
    from clearTenant_pattern_prefix [OF assms(1,2) this]
    have "prefix (tenantId @ [CHR '':'']) (b @ CHR '':'' # key)"
      by (simp add: getTenantKey_def)
    from colon_prefix_inject [OF assms(3,4) this] assms(5) show False by simp
  qed
  have "map_of (snd (redis_del ?db ?keys)) (getTenantKey cfg key b)
        = map_of ?db (getTenantKey cfg key b)"
    unfolding redis_del_def snd_conv
    using map_of_filter_keep [of "\<lambda>k. k \<notin> set ?keys" "getTenantKey cfg key b" ?db] notin
    by simp
  then show ?thesis
    by (simp add: tenant_entry_def clearTenant_def Let_def)
qed

lemmas cache_eval =
  ctx_of_def getTenantKey_def key_prefix_def default_config_def get_cache_def
  set_cache_def empty_cache_def text_codec_def redis_get_def redis_setex_def
  effective_ttl_def count_hit_def count_miss_def sample_cache_def tenant_entry_def
  clearTenant_def redis_keys_def redis_del_def stringmatchlen_def Let_def

theorem clearTenant_keeps_other_tenants_witness:
  "glob_free (key_prefix default_config) \<and> glob_free ''t1'' \<and> colon_free ''t1''
   \<and> colon_free ''t2'' \<and> ''t2'' \<noteq> ''t1''
   \<and> tenant_entry default_config (snd (clearTenant default_config ''t1'' (sample_cache ''t1'' ''t2'')))
        ''t2'' ''k'' = Some (''vb'', 3600)
   \<and> tenant_entry default_config (snd (clearTenant default_config ''t1'' (sample_cache ''t1'' ''t2'')))
        ''t1'' ''k'' = None"
proof -
  have h: "glob_free (key_prefix default_config)" "glob_free ''t1''" "colon_free ''t1''"
    "colon_free ''t2''" "''t2'' \<noteq> ''t1''"
    by (simp_all add: glob_free_def colon_free_def key_prefix_def default_config_def backslash_def)
  have b: "tenant_entry default_config (sample_cache ''t1'' ''t2'') ''t2'' ''k'' = Some (''vb'', 3600)"
    by (simp add: cache_eval)
  have c: "tenant_entry default_config
             (snd (clearTenant default_config ''t1'' (sample_cache ''t1'' ''t2''))) ''t1'' ''k'' = None"
    by (simp add: cache_eval backslash_def)
  from clearTenant_keeps_other_tenants [OF h, of "sample_cache ''t1'' ''t2''" "''k''"] h b c
  show ?thesis by simp
qed

text \<open>
  The tenant id is pasted into the pattern as it is: clearing tenant \<^verbatim>\<open>a\<close> deletes by
  the pattern \<^verbatim>\<open>mt_sdk:tenant:a:*\<close>, which also matches the keys of tenant \<^verbatim>\<open>a:b\<close>.
\<close>

theorem clearTenant_counterexample:
  "''a:b'' \<noteq> ''a''
   \<and> tenant_entry default_config (sample_cache ''a'' ''a:b'') ''a:b'' ''k'' = Some (''vb'', 3600)
   \<and> tenant_entry default_config (snd (clearTenant default_config ''a'' (sample_cache ''a'' ''a:b'')))
        ''a:b'' ''k'' = None"
  by (simp add: cache_eval backslash_def)

section \<open>Verified properties of the migration manager\<close>

subsection \<open>Steps that keep a relation between states\<close>

lemma Date_now_frame:
  "Date_now w = (t, w') \<Longrightarrow> adapter_db w' = adapter_db w \<and> isLocked w' = isLocked w"
  by (auto simp: Date_now_def split: list.splits)

lemma awaited_frame:
  "awaited query st w = (r, w') \<Longrightarrow>
     query st (adapter_db w) = (r, adapter_db w') \<and> isLocked w' = isLocked w \<and> clock w' = clock w"
  by (auto simp: awaited_def split: prod.splits)

text \<open>
  A relation between states that is reflexive and transitive and holds across every
  reading of the clock and every query holds across each method of the manager.
\<close>

lemma migration_failed_keeps:
  assumes trans: "\<And>a b c. R a b \<Longrightarrow> R b c \<Longrightarrow> R a c"
    and dn: "\<And>w. R w (snd (Date_now w))"
    and qs: "\<And>st w. R w (snd (q st w))"
  shows "R w (snd (migration_failed q m s e w))"
proof -
  obtain t1 w1 where 1: "Date_now w = (t1, w1)" by (cases "Date_now w")
  obtain u w2 where 2: "Date_now w1 = (u, w2)" by (cases "Date_now w1")
  obtain r w3 where 3: "q (UpdateFailed (m_id m) (message e) (t1 - s) u) w2 = (r, w3)"
    by (cases "q (UpdateFailed (m_id m) (message e) (t1 - s) u) w2")
  from dn [of w] 1 have a: "R w w1" by simp
  from dn [of w1] 2 have b: "R w1 w2" by simp
  from qs [of w2 "UpdateFailed (m_id m) (message e) (t1 - s) u"] 3 have c: "R w2 w3" by simp
  have "snd (migration_failed q m s e w) = w3"
    by (cases r) (simp_all add: migration_failed_def 1 2 3)
  with trans [OF a trans [OF b c]] show ?thesis by simp
qed

lemma runSingleMigration_keeps:
  assumes refl: "\<And>w. R w w"
    and trans: "\<And>a b c. R a b \<Longrightarrow> R b c \<Longrightarrow> R a c"
    and dn: "\<And>w. R w (snd (Date_now w))"
    and qs: "\<And>st w. R w (snd (q st w))"
  shows "R w (snd (runSingleMigration q m w))"
proof -
  note mf = migration_failed_keeps [where R = R and q = q, OF trans dn qs]
  obtain s w0 where 0: "Date_now w = (s, w0)" by (cases "Date_now w")
  from dn [of w] 0 have k0: "R w w0" by simp
  obtain r1 w1 where 1: "q (InsertRunning m) w0 = (r1, w1)" by (cases "q (InsertRunning m) w0")
  from qs [of w0 "InsertRunning m"] 1 have "R w0 w1" by simp
  with k0 have k1: "R w w1" by (rule trans)
  show ?thesis
  proof (cases r1)
    case (Inl e)
    then have "runSingleMigration q m w = migration_failed q m s e w1"
      by (simp add: runSingleMigration_def 0 1)
    with trans [OF k1 mf [where w = w1 and m = m and s = s and e = e]] show ?thesis by simp
  next
    case i1: (Inr x1)
    obtain r2 w2 where 2: "q (Script (m_up m)) w1 = (r2, w2)" by (cases "q (Script (m_up m)) w1")
    from qs [of w1 "Script (m_up m)"] 2 have "R w1 w2" by simp
    with k1 have k2: "R w w2" by (rule trans)
    show ?thesis
    proof (cases r2)
      case (Inl e)
      with i1 have "runSingleMigration q m w = migration_failed q m s e w2"
        by (simp add: runSingleMigration_def 0 1 2)
      with trans [OF k2 mf [where w = w2 and m = m and s = s and e = e]] show ?thesis by simp
    next
      case i2: (Inr x2)
      obtain t1 w3 where 3: "Date_now w2 = (t1, w3)" by (cases "Date_now w2")
      obtain at w4 where 4: "Date_now w3 = (at, w4)" by (cases "Date_now w3")
      obtain u w5 where 5: "Date_now w4 = (u, w5)" by (cases "Date_now w4")
      from dn [of w2] 3 have "R w2 w3" by simp
      moreover from dn [of w3] 4 have "R w3 w4" by simp
      moreover from dn [of w4] 5 have "R w4 w5" by simp
      ultimately have "R w2 w5" by (blast intro: trans)
      with k2 have k5: "R w w5" by (rule trans)
      obtain r6 w6 where 6: "q (UpdateCompleted (m_id m) at (t1 - s) u) w5 = (r6, w6)"
        by (cases "q (UpdateCompleted (m_id m) at (t1 - s) u) w5")
      from qs [of w5 "UpdateCompleted (m_id m) at (t1 - s) u"] 6 have "R w5 w6" by simp
      with k5 have k6: "R w w6" by (rule trans)
      show ?thesis
      proof (cases r6)
        case (Inl e)
        with i1 i2 have "runSingleMigration q m w = migration_failed q m s e w6"
          by (simp add: runSingleMigration_def 0 1 2 3 4 5 6)
        with trans [OF k6 mf [where w = w6 and m = m and s = s and e = e]] show ?thesis by simp
      next
        case i6: (Inr x6)
        obtain ex w7 where 7: "Date_now w6 = (ex, w7)" by (cases "Date_now w6")
        from dn [of w6] 7 have "R w6 w7" by simp
        with k6 have "R w w7" by (rule trans)
        moreover from i1 i2 i6 have "snd (runSingleMigration q m w) = w7"
          by (simp add: runSingleMigration_def 0 1 2 3 4 5 6 7)
        ultimately show ?thesis by simp
      qed
    qed
  qed
qed


lemma run_loop_keeps:
  assumes refl: "\<And>w. R w w"
    and trans: "\<And>a b c. R a b \<Longrightarrow> R b c \<Longrightarrow> R a c"
    and dn: "\<And>w. R w (snd (Date_now w))"
    and qs: "\<And>st w. R w (snd (q st w))"
  shows "R w (snd (run_loop q ms acc w))"
proof (induction ms arbitrary: acc w)
  case Nil
  show ?case by (simp add: refl)
next
  case (Cons m ms)
  note one = runSingleMigration_keeps [where R = R and q = q and w = w and m = m, OF refl trans dn qs]
  obtain res w' where s: "runSingleMigration q m w = (res, w')" by (cases "runSingleMigration q m w")
  with one have r: "R w w'" by simp
  show ?case
  proof (cases res)
    case (Inl e)
    with s r show ?thesis by simp
  next
    case (Inr x)
    show ?thesis
    proof (cases "r_status x = FAILED")
      case True
      with s Inr r show ?thesis by simp
    next
      case False
      with s Inr have "run_loop q (m # ms) acc w = run_loop q ms (acc @ [x]) w'" by simp
      with trans [OF r Cons.IH [where w = w' and acc = "acc @ [x]"]] show ?thesis by simp
    qed
  qed
qed


subsection \<open>The lock\<close>












lemma sql_exec_frame:
  "sql_exec run st b = (r, b') \<Longrightarrow>
     journal b' = journal b \<and> qmark_params b' = qmark_params b
     \<and> (table_exists b \<longrightarrow> table_exists b')"
  by (cases st) (auto simp: sql_exec_def split: option.splits sum.splits if_splits)

lemma adapter_query_frame:
  assumes "adapter_query mode run st b = (r, b')"
  shows "journal b' = journal b @ [st]" and "keeps_books b \<Longrightarrow> keeps_books b'"
proof -
  obtain x b1 where 1: "sql_exec run st (b\<lparr>journal := journal b @ [st]\<rparr>) = (x, b1)"
    by (cases "sql_exec run st (b\<lparr>journal := journal b @ [st]\<rparr>)")
  from assms 1 have "b' = b1"
    by (cases x; cases mode) (simp_all add: adapter_query_def)
  with sql_exec_frame [OF 1] show "journal b' = journal b @ [st]"
    and "keeps_books b \<Longrightarrow> keeps_books b'"
    by (simp_all add: keeps_books_def)
qed






subsection \<open>What a run records\<close>

lemma adapter_query_insert:
  "keeps_books b \<Longrightarrow> adapter_query mode run (InsertRunning m) b = (r, b') \<Longrightarrow>
     migrations b' = base_rows m (migrations b)"
  by (cases mode)
     (auto simp: adapter_query_def sql_exec_def refusal_def keeps_books_def base_rows_def
       split: if_splits)

lemma adapter_query_script:
  "adapter_query mode run (Script sql) b = (r, b') \<Longrightarrow> migrations b' = migrations b"
  by (cases mode) (auto simp: adapter_query_def sql_exec_def refusal_def split: sum.splits)

lemma adapter_query_complete:
  "keeps_books b \<Longrightarrow> adapter_query mode run (UpdateCompleted i at d u) b = (r, b') \<Longrightarrow>
     migrations b' = map (complete_row i at d u) (migrations b)"
  by (auto simp: adapter_query_def sql_exec_def refusal_def keeps_books_def complete_row_def [abs_def])

lemma migration_failed_status:
  "migration_failed q m s e w = (Inr r, w') \<Longrightarrow> r_status r = FAILED"
  by (auto simp: migration_failed_def Let_def split: prod.splits sum.splits)

lemma books_stay:
  "keeps_books (adapter_db w)
     \<Longrightarrow> keeps_books (adapter_db (snd (runSingleMigration (awaited (adapter_query mode run)) m w)))"
proof -
  let ?R = "\<lambda>a b :: 'a backend manager. keeps_books (adapter_db a) \<longrightarrow> keeps_books (adapter_db b)"
  have dn: "\<And>w. ?R w (snd (Date_now w))"
    by (auto simp: Date_now_def split: list.splits)
  have qs: "\<And>st w. ?R w (snd (awaited (adapter_query mode run) st w))"
  proof -
    fix st and w :: "'a backend manager"
    obtain r w' where 1: "awaited (adapter_query mode run) st w = (r, w')"
      by (cases "awaited (adapter_query mode run) st w")
    from adapter_query_frame(2) [OF awaited_frame [OF 1, THEN conjunct1]] 1
    show "?R w (snd (awaited (adapter_query mode run) st w))" by simp
  qed
  from runSingleMigration_keeps [where R = ?R and q = "awaited (adapter_query mode run)"
      and w = w and m = m, OF _ _ dn qs]
  show "keeps_books (adapter_db w)
     \<Longrightarrow> keeps_books (adapter_db (snd (runSingleMigration (awaited (adapter_query mode run)) m w)))"
    by blast
qed

lemma runSingleMigration_completed_rows:
  assumes run: "runSingleMigration (awaited (adapter_query mode run)) m w = (Inr r, w')"
    and nf: "r_status r \<noteq> FAILED"
    and kb: "keeps_books (adapter_db w)"
  shows "\<exists>at d u. migrations (adapter_db w')
           = map (complete_row (m_id m) at d u) (base_rows m (migrations (adapter_db w)))"
proof -
  let ?q = "awaited (adapter_query mode run)"
  obtain s w0 where 0: "Date_now w = (s, w0)" by (cases "Date_now w")
  note f0 = Date_now_frame [OF 0]
  from kb f0 have kb0: "keeps_books (adapter_db w0)" by simp
  obtain r1 w1 where 1: "?q (InsertRunning m) w0 = (r1, w1)" by (cases "?q (InsertRunning m) w0")
  note c1 = awaited_frame [OF 1, THEN conjunct1]
  from adapter_query_insert [OF kb0 c1] f0
  have rows1: "migrations (adapter_db w1) = base_rows m (migrations (adapter_db w))" by simp
  from adapter_query_frame(2) [OF c1 kb0] have kb1: "keeps_books (adapter_db w1)" .
  show ?thesis
  proof (cases r1)
    case (Inl e)
    with run 0 1 have "migration_failed ?q m s e w1 = (Inr r, w')"
      by (simp add: runSingleMigration_def)
    from migration_failed_status [OF this] nf show ?thesis by simp
  next
    case i1: (Inr x1)
    obtain r2 w2 where 2: "?q (Script (m_up m)) w1 = (r2, w2)" by (cases "?q (Script (m_up m)) w1")
    note c2 = awaited_frame [OF 2, THEN conjunct1]
    from adapter_query_script [OF c2] rows1
    have rows2: "migrations (adapter_db w2) = base_rows m (migrations (adapter_db w))" by simp
    from adapter_query_frame(2) [OF c2 kb1] have kb2: "keeps_books (adapter_db w2)" .
    show ?thesis
    proof (cases r2)
      case (Inl e)
      with run 0 1 2 i1 have "migration_failed ?q m s e w2 = (Inr r, w')"
        by (simp add: runSingleMigration_def)
      from migration_failed_status [OF this] nf show ?thesis by simp
    next
      case i2: (Inr x2)
      obtain t1 w3 where 3: "Date_now w2 = (t1, w3)" by (cases "Date_now w2")
      obtain at w4 where 4: "Date_now w3 = (at, w4)" by (cases "Date_now w3")
      obtain u w5 where 5: "Date_now w4 = (u, w5)" by (cases "Date_now w4")
      from Date_now_frame [OF 3] Date_now_frame [OF 4] Date_now_frame [OF 5]
      have f5: "adapter_db w5 = adapter_db w2" by simp
      obtain r6 w6 where 6: "?q (UpdateCompleted (m_id m) at (t1 - s) u) w5 = (r6, w6)"
        by (cases "?q (UpdateCompleted (m_id m) at (t1 - s) u) w5")
      note c6 = awaited_frame [OF 6, THEN conjunct1]
      from kb2 f5 have kb5: "keeps_books (adapter_db w5)" by simp
      from adapter_query_complete [OF kb5 c6] f5 rows2
      have rows6: "migrations (adapter_db w6)
          = map (complete_row (m_id m) at (t1 - s) u) (base_rows m (migrations (adapter_db w)))"
        by simp
      show ?thesis
      proof (cases r6)
        case (Inl e)
        with run 0 1 2 3 4 5 6 i1 i2 have "migration_failed ?q m s e w6 = (Inr r, w')"
          by (simp add: runSingleMigration_def)
        from migration_failed_status [OF this] nf show ?thesis by simp
      next
        case i6: (Inr x6)
        obtain ex w7 where 7: "Date_now w6 = (ex, w7)" by (cases "Date_now w6")
        from run 0 1 2 3 4 5 6 7 i1 i2 i6 have "w' = w7"
          by (simp add: runSingleMigration_def)
        with Date_now_frame [OF 7] rows6 show ?thesis by auto
      qed
    qed
  qed
qed

lemma in_completed_ids:
  "i \<in> set (completed_ids rows) \<longleftrightarrow> (\<exists>r \<in> set rows. row_id r = i \<and> row_status r = COMPLETED)"
  by (auto simp: completed_ids_def)

lemma complete_row_keeps:
  assumes "i \<in> set (completed_ids rows)"
  shows "i \<in> set (completed_ids (map (complete_row j at d u) (base_rows m rows)))"
proof -
  from assms obtain r where r: "r \<in> set rows" "row_id r = i" "row_status r = COMPLETED"
    unfolding in_completed_ids by blast
  then have "complete_row j at d u r \<in> set (map (complete_row j at d u) (base_rows m rows))"
    by (auto simp: base_rows_def)
  moreover have "row_id (complete_row j at d u r) = i \<and> row_status (complete_row j at d u r) = COMPLETED"
    using r by (simp add: complete_row_def)
  ultimately show ?thesis unfolding in_completed_ids by blast
qed

lemma complete_row_sets:
  "m_id m \<in> set (completed_ids (map (complete_row (m_id m) at d u) (base_rows m rows)))"
proof -
  have "\<exists>r. r \<in> set (base_rows m rows) \<and> row_id r = m_id m"
  proof (cases "m_id m \<in> set (map row_id rows)")
    case True
    then obtain r where "r \<in> set rows" "row_id r = m_id m" by auto
    with True show ?thesis unfolding base_rows_def by auto
  next
    case False
    have "row_id (running_row m) = m_id m" by (simp add: running_row_def)
    moreover have "running_row m \<in> set (base_rows m rows)"
      using False unfolding base_rows_def by simp
    ultimately show ?thesis by blast
  qed
  then obtain r where r: "r \<in> set (base_rows m rows)" "row_id r = m_id m" by blast
  let ?r = "complete_row (m_id m) at d u r"
  have "?r \<in> set (map (complete_row (m_id m) at d u) (base_rows m rows))" using r by simp
  moreover have "row_id ?r = m_id m" "row_status ?r = COMPLETED"
    using r by (simp_all add: complete_row_def)
  ultimately show ?thesis
    unfolding in_completed_ids by blast
qed

lemma run_loop_step:
  assumes "run_loop q (p # ps) acc w = (Inr rs, w1)" and "\<forall>r \<in> set rs. r_status r \<noteq> FAILED"
  obtains r w' where "runSingleMigration q p w = (Inr r, w')" and "r_status r \<noteq> FAILED"
    and "run_loop q ps (acc @ [r]) w' = (Inr rs, w1)"
proof -
  obtain res w' where s: "runSingleMigration q p w = (res, w')"
    by (cases "runSingleMigration q p w")
  show ?thesis
  proof (cases res)
    case (Inl e)
    with assms(1) s show ?thesis by simp
  next
    case (Inr r)
    show ?thesis
    proof (cases "r_status r = FAILED")
      case True
      with assms(1) s Inr have "rs = acc @ [r]" by auto
      with assms(2) True show ?thesis by simp
    next
      case False
      with assms(1) s Inr have "run_loop q ps (acc @ [r]) w' = (Inr rs, w1)" by simp
      with s Inr False that show ?thesis by blast
    qed
  qed
qed

lemma run_loop_records:
  assumes "run_loop (awaited (adapter_query mode run)) ps acc w = (Inr rs, w1)"
    and "\<forall>r \<in> set rs. r_status r \<noteq> FAILED"
    and "keeps_books (adapter_db w)"
  shows "i \<in> set (completed_ids (migrations (adapter_db w))) \<or> i \<in> m_id ` set ps
           \<Longrightarrow> i \<in> set (completed_ids (migrations (adapter_db w1)))"
  using assms
proof (induction ps arbitrary: acc w)
  case Nil
  then show ?case by simp
next
  case (Cons p ps)
  let ?q = "awaited (adapter_query mode run)"
  from run_loop_step [OF Cons.prems(2,3)] obtain r w' where
    s: "runSingleMigration ?q p w = (Inr r, w')" "r_status r \<noteq> FAILED"
    and l: "run_loop ?q ps (acc @ [r]) w' = (Inr rs, w1)" by blast
  from runSingleMigration_completed_rows [OF s Cons.prems(4)] obtain at d u where
    rows: "migrations (adapter_db w')
             = map (complete_row (m_id p) at d u) (base_rows p (migrations (adapter_db w)))"
    by blast
  from books_stay [OF Cons.prems(4), of mode run p] s(1) have kb: "keeps_books (adapter_db w')"
    by simp
  have "i \<in> set (completed_ids (migrations (adapter_db w'))) \<or> i \<in> m_id ` set ps"
  proof (cases "i \<in> m_id ` set ps")
    case True
    then show ?thesis ..
  next
    case False
    with Cons.prems(1) have "i \<in> set (completed_ids (migrations (adapter_db w))) \<or> i = m_id p"
      by auto
    then have "i \<in> set (completed_ids (migrations (adapter_db w')))"
    proof
      assume "i \<in> set (completed_ids (migrations (adapter_db w)))"
      then show ?thesis unfolding rows by (rule complete_row_keeps)
    next
      assume "i = m_id p"
      then show ?thesis unfolding rows by (simp add: complete_row_sets)
    qed
    then show ?thesis ..
  qed
  from Cons.IH [OF this l Cons.prems(3) kb] show ?case .
qed

lemma filter_pending_valid:
  "(\<forall>m \<in> set ms. validateMigration m = None) \<Longrightarrow>
     filter_pending ids ms = Inr (filter (\<lambda>m. m_id m \<notin> set ids) ms)"
  by (induction ms) auto

lemma filter_pending_Inr:
  "filter_pending ids ms = Inr ps \<Longrightarrow> (\<forall>m \<in> set ms. validateMigration m = None)"
  by (induction ms arbitrary: ps) (auto split: option.splits sum.splits)

lemma getPendingMigrations_eq:
  "keeps_books (adapter_db w) \<Longrightarrow>
   getPendingMigrations (awaited (adapter_query mode run)) ms w =
     (filter_pending (completed_ids (migrations (adapter_db w))) ms,
      w\<lparr>adapter_db := (adapter_db w)\<lparr>journal := journal (adapter_db w) @ [SelectCompletedIds]\<rparr>\<rparr>)"
  by (simp add: getPendingMigrations_def awaited_def adapter_query_def sql_exec_def refusal_def
        keeps_books_def ok_result_def rows_or_empty_def completed_ids_def)

text \<open>
  Over an adapter that throws, a run that returns results has had its first
  \<^verbatim>\<open>SELECT\<close> accepted, so the server has the table and reads the placeholders.
\<close>

lemma throwing_run_keeps_books:
  assumes "\<not> isLocked w"
    and "runMigrations (awaited (adapter_query Throwing run)) ms w = (Inr rs, w1)"
  shows "keeps_books (adapter_db w)"
proof (rule ccontr)
  assume "\<not> keeps_books (adapter_db w)"
  then have "fst (awaited (adapter_query Throwing run) SelectCompletedIds (w\<lparr>isLocked := True\<rparr>))
               = Inl (DataError ''Query execution failed'' INVALID_QUERY 400)"
    by (auto simp: awaited_def adapter_query_def sql_exec_def refusal_def keeps_books_def)
  with assms show False
    by (auto simp: runMigrations_def acquireLock_def getPendingMigrations_def split: prod.splits)
qed

lemma loop_books_stay:
  "keeps_books (adapter_db w)
     \<Longrightarrow> keeps_books (adapter_db (snd (run_loop (awaited (adapter_query mode run)) ms acc w)))"
proof -
  let ?R = "\<lambda>a b :: 'a backend manager. keeps_books (adapter_db a) \<longrightarrow> keeps_books (adapter_db b)"
  have dn: "\<And>w. ?R w (snd (Date_now w))"
    by (auto simp: Date_now_def split: list.splits)
  have qs: "\<And>st w. ?R w (snd (awaited (adapter_query mode run) st w))"
  proof -
    fix st and w :: "'a backend manager"
    obtain r w' where 1: "awaited (adapter_query mode run) st w = (r, w')"
      by (cases "awaited (adapter_query mode run) st w")
    from adapter_query_frame(2) [OF awaited_frame [OF 1, THEN conjunct1]] 1
    show "?R w (snd (awaited (adapter_query mode run) st w))" by simp
  qed
  from run_loop_keeps [where R = ?R and q = "awaited (adapter_query mode run)"
      and w = w and ms = ms and acc = acc, OF _ _ dn qs]
  show "keeps_books (adapter_db w)
     \<Longrightarrow> keeps_books (adapter_db (snd (run_loop (awaited (adapter_query mode run)) ms acc w)))"
    by blast
qed

text \<open>
  Claim C4, amended. Where the server executes the manager's own statements (it has the
  table \<^verbatim>\<open>migrations\<close> and reads \<^verbatim>\<open>?\<close> as a parameter; over an adapter that throws,
  a run that returns results shows as much), the pending migrations are the given ones
  whose id is not among the completed ids of the table, and after a run in which every
  migration completed, a second run of the same list has no pending migration: it
  returns no result, sends the server nothing but the \<^verbatim>\<open>SELECT\<close> of the completed ids,
  and leaves the table and the schema as they were.
\<close>

theorem rerun_after_success_is_noop:
  assumes unlocked: "\<not> isLocked w"
    and books: "mode = Throwing \<or> keeps_books (adapter_db w)"
    and first: "runMigrations (awaited (adapter_query mode run)) ms w = (Inr rs, w1)"
    and ok: "\<forall>r \<in> set rs. r_status r = COMPLETED"
  shows "fst (getPendingMigrations (awaited (adapter_query mode run)) ms w)
           = Inr (filter (\<lambda>m. m_id m \<notin> set (completed_ids (migrations (adapter_db w)))) ms)
       \<and> runMigrations (awaited (adapter_query mode run)) ms w1
           = (Inr [], w1\<lparr>adapter_db := (adapter_db w1)\<lparr>journal :=
                             journal (adapter_db w1) @ [SelectCompletedIds]\<rparr>\<rparr>)"
proof -
  let ?q = "awaited (adapter_query mode run)"
  let ?ids = "completed_ids (migrations (adapter_db w))"
  from books have kb: "keeps_books (adapter_db w)"
  proof
    assume "mode = Throwing"
    with throwing_run_keeps_books [OF unlocked, of run ms rs w1] first show ?thesis by simp
  qed
  define wa where "wa = (w\<lparr>isLocked := True\<rparr>)\<lparr>adapter_db := (adapter_db w)\<lparr>journal :=
                       journal (adapter_db w) @ [SelectCompletedIds]\<rparr>\<rparr>"
  have gp: "getPendingMigrations ?q ms (w\<lparr>isLocked := True\<rparr>) = (filter_pending ?ids ms, wa)"
    using kb by (simp add: getPendingMigrations_eq wa_def)
  have kba: "keeps_books (adapter_db wa)"
    using kb by (simp add: wa_def keeps_books_def)
  obtain pend where pend: "filter_pending ?ids ms = Inr pend"
    using first unlocked gp
    by (cases "filter_pending ?ids ms")
       (auto simp: runMigrations_def acquireLock_def split: prod.splits)
  from filter_pending_Inr [OF pend] have valid: "\<forall>m \<in> set ms. validateMigration m = None" .
  from filter_pending_valid [OF valid] pend
  have pend_eq: "pend = filter (\<lambda>m. m_id m \<notin> set ?ids) ms" by simp
  obtain w1' where loop: "run_loop ?q pend [] wa = (Inr rs, w1')" and w1: "w1 = releaseLock w1'"
    using first unlocked gp pend
    by (auto simp: runMigrations_def acquireLock_def split: prod.splits)
  from ok have nofail: "\<forall>r \<in> set rs. r_status r \<noteq> FAILED" by simp
  have rows_wa: "migrations (adapter_db wa) = migrations (adapter_db w)" by (simp add: wa_def)
  have all_done: "\<forall>m \<in> set ms. m_id m \<in> set (completed_ids (migrations (adapter_db w1)))"
  proof
    fix m assume m: "m \<in> set ms"
    have "m_id m \<in> set (completed_ids (migrations (adapter_db wa))) \<or> m_id m \<in> m_id ` set pend"
      using m pend_eq by (auto simp: rows_wa)
    from run_loop_records [OF loop nofail kba this]
    show "m_id m \<in> set (completed_ids (migrations (adapter_db w1)))"
      by (simp add: w1 releaseLock_def)
  qed
  from loop_books_stay [OF kba, of mode run pend "[]"] loop
  have kb1: "keeps_books (adapter_db (w1\<lparr>isLocked := True\<rparr>))"
    by (simp add: w1 releaseLock_def)
  have lk1: "\<not> isLocked w1" by (simp add: w1 releaseLock_def)
  have fp2: "filter_pending (completed_ids (migrations (adapter_db w1))) ms = Inr []"
    using filter_pending_valid [OF valid, of "completed_ids (migrations (adapter_db w1))"] all_done
    by (simp add: filter_empty_conv)
  have second: "runMigrations ?q ms w1
           = (Inr [], w1\<lparr>adapter_db := (adapter_db w1)\<lparr>journal :=
                             journal (adapter_db w1) @ [SelectCompletedIds]\<rparr>\<rparr>)"
    using lk1 fp2
    by (simp add: runMigrations_def acquireLock_def getPendingMigrations_eq [OF kb1] releaseLock_def)
  have "fst (getPendingMigrations ?q ms w) = Inr (filter (\<lambda>m. m_id m \<notin> set ?ids) ms)"
    using filter_pending_valid [OF valid] by (simp add: getPendingMigrations_eq [OF kb])
  with second show ?thesis by simp
qed


theorem rerun_after_success_is_noop_witness:
  "\<not> isLocked fresh_manager
   \<and> keeps_books (adapter_db fresh_manager)
   \<and> map_sum id (map r_status) (fst first_run) = Inr [COMPLETED, COMPLETED]
   \<and> map row_status (migrations (adapter_db (snd first_run))) = [COMPLETED, COMPLETED]
   \<and> fst (runMigrations throwing_adapter [M1, M3] (snd first_run)) = Inr []
   \<and> migrations (adapter_db (snd (runMigrations throwing_adapter [M1, M3] (snd first_run))))
        = migrations (adapter_db (snd first_run))
   \<and> schema (adapter_db (snd (runMigrations throwing_adapter [M1, M3] (snd first_run))))
        = schema (adapter_db (snd first_run))
   \<and> journal (adapter_db (snd (runMigrations throwing_adapter [M1, M3] (snd first_run))))
        = journal (adapter_db (snd first_run)) @ [SelectCompletedIds]"
proof -
  have h1: "\<not> isLocked fresh_manager" by (simp add: fresh_manager_def)
  have h2: "keeps_books (adapter_db fresh_manager)" by (simp add: fresh_manager_def keeps_books_def)
  have st: "map_sum id (map r_status) (fst first_run) = Inr [COMPLETED, COMPLETED]"
    and rows: "map row_status (migrations (adapter_db (snd first_run))) = [COMPLETED, COMPLETED]"
    by code_simp+
  from st obtain rs where rs: "fst first_run = Inr rs" and all: "map r_status rs = [COMPLETED, COMPLETED]"
    by (cases "fst first_run") auto
  from all have ok: "\<forall>r \<in> set rs. r_status r = COMPLETED"
    by (metis (no_types, lifting) empty_iff image_iff list.set(1) list.simps(15) insertE set_map)
  have h3: "runMigrations (awaited (adapter_query Throwing demo_run)) [M1, M3] fresh_manager
              = (Inr rs, snd first_run)"
    using rs by (metis throwing_adapter_def first_run_def prod.collapse)
  from rerun_after_success_is_noop [OF h1 disjI2 [OF h2] h3 ok]
  have "runMigrations throwing_adapter [M1, M3] (snd first_run)
           = (Inr [], (snd first_run)\<lparr>adapter_db := (adapter_db (snd first_run))\<lparr>journal :=
                             journal (adapter_db (snd first_run)) @ [SelectCompletedIds]\<rparr>\<rparr>)"
    by (simp add: throwing_adapter_def)
  with h1 h2 st rows show ?thesis by simp
qed

text \<open>
  The second run does change what is recorded after a run that stopped at a failure:
  the failed migration is pending again, its \<^verbatim>\<open>INSERT\<close> is refused, and
  \<^verbatim>\<open>recordMigrationFailure\<close> overwrites the duration and \<^verbatim>\<open>updated_at\<close> of its row. And
  it runs every script again after a run that recorded nothing: PostgreSQL refuses the
  manager's statements with \<^verbatim>\<open>?\<close>, \<^verbatim>\<open>PostgreSQLAdapter.query\<close> answers the errors,
  which the manager does not read, so the first run reports both migrations completed,
  the table stays empty, and the same list is pending again.
\<close>

theorem rerun_after_failure_counterexample:
  "\<not> isLocked fresh_manager
   \<and> map row_status (migrations (adapter_db (snd failed_run))) = [FAILED]
   \<and> map row_updated_at (migrations (adapter_db (snd failed_run))) = [Some 104]
   \<and> map row_duration_ms (migrations (adapter_db (snd failed_run))) = [Some 3]
   \<and> map row_updated_at (migrations (adapter_db (snd (runMigrations throwing_adapter [M2] (snd failed_run)))))
        = [Some 110]
   \<and> map row_duration_ms (migrations (adapter_db (snd (runMigrations throwing_adapter [M2] (snd failed_run)))))
        = [Some 1]
   \<and> migrations (adapter_db (snd (runMigrations throwing_adapter [M2] (snd failed_run))))
        \<noteq> migrations (adapter_db (snd failed_run))
   \<and> \<not> isLocked postgres_manager
   \<and> map_sum id (map r_status) (fst unrecorded_run) = Inr [COMPLETED, COMPLETED]
   \<and> migrations (adapter_db (snd unrecorded_run)) = []
   \<and> schema (adapter_db (snd unrecorded_run)) = [''create table a'', ''create table c'']
   \<and> map_sum id (map r_status) (fst (runMigrations returning_adapter [M1, M3] (snd unrecorded_run)))
        = Inr [COMPLETED, COMPLETED]
   \<and> schema (adapter_db (snd (runMigrations returning_adapter [M1, M3] (snd unrecorded_run))))
        = [''create table a'', ''create table c'', ''create table a'', ''create table c'']"
  by code_simp

text \<open>
  Claim C5 fails over \<^verbatim>\<open>PostgreSQLAdapter\<close> and \<^verbatim>\<open>MySQLAdapter\<close>. Their \<^verbatim>\<open>query\<close>
  answers a failed statement as \<^verbatim>\<open>{ data: null, error }\<close>, and \<^verbatim>\<open>runSingleMigration\<close>
  awaits the script without reading the answer: the script of the second migration
  fails, the migration is recorded and reported as completed, and the third migration
  is run. Over an adapter that throws, as \<^verbatim>\<open>SupabaseAdapter.query\<close> does, the same
  batch ends at the second migration, recorded as failed, and the third is never sent.
\<close>

theorem failed_script_recorded_completed:
  "demo_run (m_up M2) [''create table a''] = Inl ''syntax error at or near boom''
   \<and> map_sum id (map r_status) (fst (runMigrations returning_adapter [M1, M2, M3] fresh_manager))
        = Inr [COMPLETED, COMPLETED, COMPLETED]
   \<and> map (\<lambda>r. (row_id r, row_status r, row_error_message r))
          (migrations (adapter_db (snd (runMigrations returning_adapter [M1, M2, M3] fresh_manager))))
        = [(''001'', COMPLETED, None), (''002'', COMPLETED, None), (''003'', COMPLETED, None)]
   \<and> Script (m_up M3)
        \<in> set (journal (adapter_db (snd (runMigrations returning_adapter [M1, M2, M3] fresh_manager))))
   \<and> schema (adapter_db (snd (runMigrations returning_adapter [M1, M2, M3] fresh_manager)))
        = [''create table a'', ''create table c'']
   \<and> map_sum id (map r_status) (fst (runMigrations throwing_adapter [M1, M2, M3] fresh_manager))
        = Inr [COMPLETED, FAILED]
   \<and> map (\<lambda>r. (row_id r, row_status r, row_error_message r))
          (migrations (adapter_db (snd (runMigrations throwing_adapter [M1, M2, M3] fresh_manager))))
        = [(''001'', COMPLETED, None), (''002'', FAILED, Some ''Query execution failed'')]
   \<and> Script (m_up M3)
        \<notin> set (journal (adapter_db (snd (runMigrations throwing_adapter [M1, M2, M3] fresh_manager))))"
  by code_simp


section \<open>Verified properties of the storage adapters\<close>

lemma set_order_rows: "set (order_rows ord rows) = set rows"
  by (auto simp: order_rows_def split: option.splits)

lemma set_paginate: "set (paginate lim off rows) \<subseteq> set rows"
  by (auto simp: paginate_def Let_def dest: in_set_takeD in_set_dropD)

lemma pg_read_own_tenant_only:
  assumes "select_star (q_select options)"
    and "pg_read table options ctx s = (Inr res, s')" and "dr_data res = Val rs" and "r \<in> set rs"
  shows "\<exists>rows. map_of (tables s) table = Some rows \<and> r \<in> set rows
           \<and> map_of r ''tenant_id'' = Some (Str (tenant_id ctx))"
proof (cases "map_of (tables s) table")
  case None
  with assms show ?thesis by (auto simp: pg_read_def error_result_def)
next
  case (Some rows)
  let ?page = "paginate (q_limit options) (q_offset options)
                 (order_rows (q_order options) (filter (pg_where ctx options) rows))"
  from assms Some have "rs = ?page"
    by (auto simp: pg_read_def Let_def ok_result_def error_result_def split: if_splits)
  with assms(4) set_paginate have "r \<in> set (order_rows (q_order options) (filter (pg_where ctx options) rows))"
    by blast
  then have "r \<in> set rows" "pg_where ctx options r"
    by (simp_all add: set_order_rows)
  with Some show ?thesis by (auto simp: pg_where_def col_eq_def)
qed

lemma no_match_is_not_found:
  assumes "map_of (tables s) table = Some rows"
    and "filter (id_and_tenant ''id'' i ctx) rows = []"
  shows "fst (pg_delete table i ctx s) = Inl (DataError ''Record not found'' RESOURCE_NOT_FOUND 404)"
    and "fst (pg_update table i updates ctx s)
           = Inl (DataError ''Record not found or update failed'' RESOURCE_NOT_FOUND 404)"
proof -
  show "fst (pg_delete table i ctx s) = Inl (DataError ''Record not found'' RESOURCE_NOT_FOUND 404)"
    using assms by (simp add: pg_delete_def)
  obtain d s1 where d: "new_Date s = (d, s1)" by (cases "new_Date s")
  then have "tables s1 = tables s" by (auto simp: new_Date_def split: list.splits)
  with assms d show "fst (pg_update table i updates ctx s)
           = Inl (DataError ''Record not found or update failed'' RESOURCE_NOT_FOUND 404)"
    by (simp add: pg_update_def)
qed

lemma mongo_no_match_is_not_found:
  assumes "filter (id_and_tenant ''_id'' i ctx) (collection s table) = []"
  shows "fst (mongo_delete table i ctx s) = Inl (DataError ''Document not found'' RESOURCE_NOT_FOUND 404)"
    and "fst (mongo_update table i updates ctx s)
           = Inl (DataError ''Document not found or update failed'' RESOURCE_NOT_FOUND 404)"
proof -
  show "fst (mongo_delete table i ctx s) = Inl (DataError ''Document not found'' RESOURCE_NOT_FOUND 404)"
    using assms by (simp add: mongo_delete_def)
  obtain d s1 where d: "new_Date s = (d, s1)" by (cases "new_Date s")
  then have "collection s1 table = collection s table"
    by (auto simp: new_Date_def collection_def split: list.splits)
  with assms d show "fst (mongo_update table i updates ctx s)
           = Inl (DataError ''Document not found or update failed'' RESOURCE_NOT_FOUND 404)"
    by (simp add: mongo_update_def)
qed

text \<open>
  Claim C1 fails on the MongoDB adapter. A record is created under tenant \<^verbatim>\<open>B\<close>; a
  read under tenant \<^verbatim>\<open>A\<close>'s context with no filter answers nothing, but with the filter
  \<^verbatim>\<open>{ tenant_id: 'B' }\<close> the assignment \<^verbatim>\<open>query[key] = value\<close> replaces the injected
  tenant and the read answers \<^verbatim>\<open>B\<close>'s record. The PostgreSQL adapter, which adds the
  filter with \<^verbatim>\<open>AND\<close>, answers nothing to the same request.
\<close>

theorem mongo_read_filter_overrides_tenant:
  "tenant_id (ctx_of ''A'') \<noteq> ''B''
   \<and> fst (mongo_read ''projects'' no_options (ctx_of ''A'') mongo_store) = Inr (ok_result [])
   \<and> fst (mongo_read ''projects'' (tenant_filter ''B'') (ctx_of ''A'') mongo_store)
        = Inr (ok_result [acme_as_read])
   \<and> fst (pg_read ''projects'' (tenant_filter ''B'') (ctx_of ''A'') sql_store) = Inr (ok_result [])"
  by code_simp

text \<open>
  Claim C2 fails on the Supabase adapter. Under tenant \<^verbatim>\<open>A\<close>'s context, for an id that
  does not exist and for the id of tenant \<^verbatim>\<open>B\<close>'s record alike, \<^verbatim>\<open>delete\<close> answers
  success and \<^verbatim>\<open>update\<close> throws \<^verbatim>\<open>DATABASE_ERROR\<close> with status 500; the PostgreSQL
  adapter throws \<^verbatim>\<open>RESOURCE_NOT_FOUND\<close> in all four cases.
\<close>

theorem supabase_no_match_is_not_NotFound:
  "fst (supabase_delete ''projects'' ''nope'' (ctx_of ''A'') sql_store) = Inr deleted
   \<and> fst (supabase_delete ''projects'' ''id-1'' (ctx_of ''A'') sql_store) = Inr deleted
   \<and> fst (supabase_update ''projects'' ''nope'' acme (ctx_of ''A'') sql_store)
        = Inl (DataError ''Failed to update record'' ''DATABASE_ERROR'' 500)
   \<and> fst (supabase_update ''projects'' ''id-1'' acme (ctx_of ''A'') sql_store)
        = Inl (DataError ''Failed to update record'' ''DATABASE_ERROR'' 500)
   \<and> fst (pg_delete ''projects'' ''nope'' (ctx_of ''A'') sql_store)
        = Inl (DataError ''Record not found'' ''RESOURCE_NOT_FOUND'' 404)
   \<and> fst (pg_delete ''projects'' ''id-1'' (ctx_of ''A'') sql_store)
        = Inl (DataError ''Record not found'' ''RESOURCE_NOT_FOUND'' 404)
   \<and> fst (pg_update ''projects'' ''nope'' acme (ctx_of ''A'') sql_store)
        = Inl (DataError ''Record not found or update failed'' ''RESOURCE_NOT_FOUND'' 404)
   \<and> fst (pg_update ''projects'' ''id-1'' acme (ctx_of ''A'') sql_store)
        = Inl (DataError ''Record not found or update failed'' ''RESOURCE_NOT_FOUND'' 404)"
  by code_simp

section \<open>Verified properties of the data access facade\<close>

text \<open>
  Claim C8 fails on \<^verbatim>\<open>DataManagerV3.bulkCreate\<close>. Over the MongoDB adapter, two records
  with the same \<^verbatim>\<open>_id\<close> and the batch size 1 make two slices: the first is stored, the
  second comes back from the adapter with an error and no \<^verbatim>\<open>data\<close>, and the loop, which
  only looks at \<^verbatim>\<open>batchResult.data\<close>, passes it over. The facade answers a success
  holding the first record alone. \<^verbatim>\<open>DataManagerV2.bulkCreate\<close>, given the same records,
  answers the adapter's error result.
\<close>

theorem bulkCreate_partial_success:
  "length two_records = 2
   \<and> fst (v3_bulkCreate (bare_facade mongo_adapter) ''projects'' two_records (ctx_of ''A'')
            one_at_a_time (bare_world empty_store))
       = Inr (ok_result [first_stored])
   \<and> fst (v2_bulkCreate \<lparr>databaseAdapter2 = mongo_adapter, eventProvider2 = None\<rparr> ''projects''
            two_records (ctx_of ''A'') (bare_world empty_store))
       = Inr (error_result ''E11000 duplicate key error'')"
  by code_simp

text \<open>
  On a hit \<^verbatim>\<open>read\<close> answers \<^verbatim>\<open>{ data: cachedResult }\<close>: only the rows were cached, so
  the count is gone. Two projects are stored and the first page of one row is read; once
  the cache is warm the same read answers the row without a count, while the read with
  \<^verbatim>\<open>useCache: false\<close> from the same state still answers the count 2. And the calls of
  the cache stand in the \<^verbatim>\<open>try\<close> block of \<^verbatim>\<open>read\<close> with nothing around them: when the
  lookup throws, or the write after a miss, the read answers the error of the cache as
  \<^verbatim>\<open>{ data: null, error }\<close>, where the read with \<^verbatim>\<open>useCache: false\<close> answers the
  row and the count.
\<close>

theorem cache_changes_read_counterexample:
  "fst (v3_read cached_facade empty_json ''projects'' first_page (ctx_of ''A'') cache_on warm_world)
     = Inr \<lparr>dr_data = Val [project_one], dr_count = None, dr_error = None\<rparr>
   \<and> fst (v3_read cached_facade empty_json ''projects'' first_page (ctx_of ''A'') cache_off warm_world)
     = Inr \<lparr>dr_data = Val [project_one], dr_count = Some 2, dr_error = None\<rparr>
   \<and> fst (v3_read (cached_facade\<lparr>cacheProvider := Some cache_down\<rparr>) empty_json ''projects''
            first_page (ctx_of ''A'') cache_on cold_world)
     = Inr \<lparr>dr_data = Null, dr_count = None, dr_error = Some ''Failed to get cache value''\<rparr>
   \<and> fst (v3_read (cached_facade\<lparr>cacheProvider := Some cache_down\<rparr>) empty_json ''projects''
            first_page (ctx_of ''A'') cache_off cold_world)
     = Inr \<lparr>dr_data = Val [project_one], dr_count = Some 2, dr_error = None\<rparr>
   \<and> fst (v3_read (cached_facade\<lparr>cacheProvider := Some cache_read_only\<rparr>) empty_json ''projects''
            first_page (ctx_of ''A'') cache_on cold_world)
     = Inr \<lparr>dr_data = Null, dr_count = None, dr_error = Some ''Failed to set cache value''\<rparr>
   \<and> fst (v3_read (cached_facade\<lparr>cacheProvider := Some cache_read_only\<rparr>) empty_json ''projects''
            first_page (ctx_of ''A'') cache_off cold_world)
     = Inr \<lparr>dr_data = Val [project_one], dr_count = Some 2, dr_error = None\<rparr>"
  by code_simp

lemma simI:
  "(\<And>w1 w2. R w1 w2 \<Longrightarrow> fst (p w1) = fst (q w2) \<and> R (snd (p w1)) (snd (q w2))) \<Longrightarrow> sim R p q"
  by (simp add: sim_def)

lemma simD: "sim R p q \<Longrightarrow> R w1 w2 \<Longrightarrow> fst (p w1) = fst (q w2) \<and> R (snd (p w1)) (snd (q w2))"
  by (simp add: sim_def)

lemma sim_ret: "sim R (ret x) (ret x)"
  by (simp add: sim_def ret_def)

lemma sim_throw: "sim R (throw e) (throw e)"
  by (simp add: sim_def throw_def)

lemma sim_do_then:
  assumes "sim R p q" and "\<And>x. sim R (f x) (g x)"
  shows "sim R (do_then p f) (do_then q g)"
proof (rule simI)
  fix w1 w2 assume r: "R w1 w2"
  obtain a w1' where p: "p w1 = (a, w1')" by (cases "p w1")
  obtain b w2' where q: "q w2 = (b, w2')" by (cases "q w2")
  from simD [OF assms(1) r] p q have q': "q w2 = (a, w2')" and r': "R w1' w2'" by simp_all
  show "fst (do_then p f w1) = fst (do_then q g w2) \<and> R (snd (do_then p f w1)) (snd (do_then q g w2))"
  proof (cases a)
    case (Inl e)
    with r' show ?thesis by (simp add: do_then_def p q')
  next
    case (Inr x)
    with simD [OF assms(2) r', of x] show ?thesis by (simp add: do_then_def p q')
  qed
qed

lemma sim_try_catch:
  assumes "sim R p q" and "\<And>e. sim R (h e) (k e)"
  shows "sim R (try_catch p h) (try_catch q k)"
proof (rule simI)
  fix w1 w2 assume r: "R w1 w2"
  obtain a w1' where p: "p w1 = (a, w1')" by (cases "p w1")
  obtain b w2' where q: "q w2 = (b, w2')" by (cases "q w2")
  from simD [OF assms(1) r] p q have q': "q w2 = (a, w2')" and r': "R w1' w2'" by simp_all
  show "fst (try_catch p h w1) = fst (try_catch q k w2)
        \<and> R (snd (try_catch p h w1)) (snd (try_catch q k w2))"
  proof (cases a)
    case (Inl e)
    with simD [OF assms(2) r', of e] show ?thesis by (simp add: try_catch_def p q')
  next
    case (Inr x)
    with r' show ?thesis by (simp add: try_catch_def p q')
  qed
qed

lemma sim_if: "sim R p q \<Longrightarrow> sim R p' q' \<Longrightarrow> sim R (if b then p else p') (if b then q else q')"
  by simp

lemma sim_with_analytics_an: "sim same_analytics (with_analytics m b f) (with_analytics m b f)"
  by (auto simp: sim_def same_analytics_def with_analytics_def on_analytics_def ret_def
      split: option.splits prod.splits)

lemma sim_on_error_an: "sim same_analytics (on_error m b ev t ctx e) (on_error m b ev t ctx e)"
  unfolding on_error_def
  by (intro sim_do_then sim_with_analytics_an sim_if sim_throw sim_ret)

lemma try_catch_do_then_Inr:
  "p w = (Inr x, w') \<Longrightarrow> try_catch (do_then p f) h w = try_catch (f x) h w'"
  by (simp add: try_catch_def do_then_def)

lemma try_catch_do_then_Inl:
  "p w = (Inl e, w') \<Longrightarrow> try_catch (do_then p f) h w = h e w'"
  by (simp add: try_catch_def do_then_def)

lemma on_db_eq: "f (w_db w) = (r, d) \<Longrightarrow> on_db f w = (r, w\<lparr>w_db := d\<rparr>)"
  by (simp add: on_db_def)

lemma with_analytics_no_cache [simp]:
  "with_analytics (m\<lparr>cacheProvider := None\<rparr>) = with_analytics m"
  by (intro ext) (simp add: with_analytics_def)

lemma on_error_no_cache [simp]:
  "on_error (m\<lparr>cacheProvider := None\<rparr>) b ev t ctx = on_error m b ev t ctx"
  by (rule ext) (simp add: on_error_def)

lemma sim_read_tail:
  "sim same_analytics
     (try_catch (read_tail m table ctx result) (on_error m True ev table ctx))
     (try_catch (read_tail m table ctx result) (on_error m True ev table ctx))"
  unfolding read_tail_def
  by (intro sim_try_catch sim_do_then sim_with_analytics_an sim_ret sim_on_error_an)

lemma read_from_database_transparent:
  fixes m :: "('d, 'c, 'a, 'e) DataManagerV3"
  assumes db: "databaseAdapter m' = databaseAdapter m" and an: "with_analytics m' = with_analytics m"
    and cached: "\<And>rows w. w_cache w = cm \<Longrightarrow>
        \<exists>c2. with_cache m (o_useCache co) (\<lambda>cp. cache_set_list cp key rows ctx (or_default (o_cacheTTL co) 300)) w
               = (Inr (), w\<lparr>w_cache := c2\<rparr>)"
    and plain: "\<And>rows. with_cache m' (o_useCache co')
                  (\<lambda>cp. cache_set_list cp key rows ctx (or_default (o_cacheTTL co') 300)) = ret ()"
    and cm: "w_cache w1 = cm" and same: "w_db w1 = w_db w2" "w_analytics w1 = w_analytics w2"
  shows "fst (try_catch (read_from_database m key table options ctx co)
                (on_error m True ev table ctx) w1)
       = fst (try_catch (read_from_database m' key table options ctx co')
                (on_error m True ev table ctx) w2)"
proof -
  let ?h = "on_error m True ev table ctx
              :: exn \<Rightarrow> ('d, 'c, 'a, 'e) world \<Rightarrow> (exn + row list DataResult) \<times> ('d, 'c, 'a, 'e) world"
  obtain res d where rd: "db_read (databaseAdapter m) table options ctx (w_db w1) = (res, d)"
    by (cases "db_read (databaseAdapter m) table options ctx (w_db w1)")
  note r1 = on_db_eq [where w = w1 and f = "db_read (databaseAdapter m) table options ctx", OF rd]
  from rd same(1) db have "db_read (databaseAdapter m') table options ctx (w_db w2) = (res, d)" by simp
  note r2 = on_db_eq [where w = w2 and f = "db_read (databaseAdapter m') table options ctx", OF this]
  have sa: "same_analytics (w1\<lparr>w_db := d\<rparr>) (w2\<lparr>w_db := d\<rparr>)"
    using same(2) by (simp add: same_analytics_def)
  show ?thesis
  proof (cases res)
    case (Inl e)
    have "try_catch (read_from_database m key table options ctx co) ?h w1 = ?h e (w1\<lparr>w_db := d\<rparr>)"
      unfolding read_from_database_def using r1 Inl by (simp add: try_catch_do_then_Inl)
    moreover have "try_catch (read_from_database m' key table options ctx co') ?h w2 = ?h e (w2\<lparr>w_db := d\<rparr>)"
      unfolding read_from_database_def using r2 Inl by (simp add: try_catch_do_then_Inl)
    moreover have se: "sim same_analytics (?h e) (?h e)" by (rule sim_on_error_an)
    ultimately show ?thesis using simD [OF se sa] by simp
  next
    case (Inr result)
    have "\<exists>wA. try_catch (read_from_database m key table options ctx co) ?h w1
              = try_catch (read_tail m table ctx result) ?h wA \<and> same_analytics wA (w2\<lparr>w_db := d\<rparr>)"
    proof (cases "dr_data result")
      case (Val rows)
      have "w_cache (w1\<lparr>w_db := d\<rparr>) = cm" using cm by simp
      from cached [OF this, of rows] obtain c2 where
        st: "with_cache m (o_useCache co)
               (\<lambda>cp. cache_set_list cp key rows ctx (or_default (o_cacheTTL co) 300)) (w1\<lparr>w_db := d\<rparr>)
             = (Inr (), w1\<lparr>w_db := d, w_cache := c2\<rparr>)" by auto
      have "try_catch (read_from_database m key table options ctx co) ?h w1
              = try_catch (read_tail m table ctx result) ?h (w1\<lparr>w_db := d, w_cache := c2\<rparr>)"
        unfolding read_from_database_def read_tail_def using r1 Inr Val st
        by (simp add: try_catch_do_then_Inr)
      moreover have "same_analytics (w1\<lparr>w_db := d, w_cache := c2\<rparr>) (w2\<lparr>w_db := d\<rparr>)"
        using same(2) by (simp add: same_analytics_def)
      ultimately show ?thesis by blast
    next
      case Undefined
      have "try_catch (read_from_database m key table options ctx co) ?h w1
              = try_catch (read_tail m table ctx result) ?h (w1\<lparr>w_db := d\<rparr>)"
        unfolding read_from_database_def read_tail_def using r1 Inr Undefined
        by (simp add: try_catch_do_then_Inr ret_def)
      with sa show ?thesis by blast
    next
      case Null
      have "try_catch (read_from_database m key table options ctx co) ?h w1
              = try_catch (read_tail m table ctx result) ?h (w1\<lparr>w_db := d\<rparr>)"
        unfolding read_from_database_def read_tail_def using r1 Inr Null
        by (simp add: try_catch_do_then_Inr ret_def)
      with sa show ?thesis by blast
    qed
    then obtain wA where
      a: "try_catch (read_from_database m key table options ctx co) ?h w1
              = try_catch (read_tail m table ctx result) ?h wA"
      and sa': "same_analytics wA (w2\<lparr>w_db := d\<rparr>)" by blast
    have b: "try_catch (read_from_database m' key table options ctx co') ?h w2
              = try_catch (read_tail m table ctx result) ?h (w2\<lparr>w_db := d\<rparr>)"
      unfolding read_from_database_def read_tail_def using r2 Inr plain an
      by (cases "dr_data result") (simp_all add: try_catch_do_then_Inr ret_def)
    from simD [OF sim_read_tail [where m = m and table = table and ctx = ctx and result = result and ev = ev] sa'] a b
    show ?thesis by simp
  qed
qed

text \<open>
  Claim C7, amended. When the lookup returns without an entry and the write of the rows
  returns, neither throwing, \<^verbatim>\<open>read\<close> with the cache enabled answers what it answers
  with \<^verbatim>\<open>useCache: false\<close> and what the facade without a cache provider answers: the
  whole result of the adapter, count included, or the same error. This holds for every
  adapter, analytics engine, table, query and context.
\<close>

theorem cache_miss_is_transparent:
  fixes m :: "('d, 'c, 'a, 'e) DataManagerV3"
  assumes cp: "cacheProvider m = Some cp"
    and miss: "cache_get_list cp (read_cache_key stringify table options ctx cacheOptions) ctx (w_cache w)
                 = (Inr None, c1)"
    and stored: "\<forall>rows. fst (cache_set_list cp (read_cache_key stringify table options ctx cacheOptions)
                              rows ctx (or_default (o_cacheTTL cacheOptions) 300) c1) = Inr ()"
  shows "fst (v3_read m stringify table options ctx (cacheOptions\<lparr>o_useCache := True\<rparr>) w)
           = fst (v3_read m stringify table options ctx (cacheOptions\<lparr>o_useCache := False\<rparr>) w)
       \<and> fst (v3_read m stringify table options ctx (cacheOptions\<lparr>o_useCache := True\<rparr>) w)
           = fst (v3_read (m\<lparr>cacheProvider := None\<rparr>) stringify table options ctx cacheOptions w)"
proof -
  let ?key = "read_cache_key stringify table options ctx cacheOptions"
  let ?T = "cacheOptions\<lparr>o_useCache := True\<rparr>"
  let ?F = "cacheOptions\<lparr>o_useCache := False\<rparr>"
  let ?m' = "m\<lparr>cacheProvider := None\<rparr>"
  let ?h = "on_error m True ''record_read_error'' table ctx
              :: exn \<Rightarrow> ('d, 'c, 'a, 'e) world \<Rightarrow> (exn + row list DataResult) \<times> ('d, 'c, 'a, 'e) world"
  let ?w1 = "w\<lparr>w_cache := c1\<rparr>"
  have key: "read_cache_key stringify table options ctx ?T = ?key"
    "read_cache_key stringify table options ctx ?F = ?key"
    by (simp_all add: read_cache_key_def)
  have get: "on_cache (cache_get_list cp ?key ctx) w = (Inr None, ?w1)"
    using miss by (simp add: on_cache_def)
  have A: "v3_read m stringify table options ctx ?T w
             = try_catch (read_from_database m ?key table options ctx ?T) ?h ?w1"
    unfolding v3_read_def key Let_def using cp get
    by (simp add: try_catch_do_then_Inr)
  have B: "v3_read m stringify table options ctx ?F w
             = try_catch (read_from_database m ?key table options ctx ?F) ?h w"
    unfolding v3_read_def key Let_def using cp by simp
  have C: "v3_read ?m' stringify table options ctx cacheOptions w
             = try_catch (read_from_database ?m' ?key table options ctx cacheOptions) ?h w"
    unfolding v3_read_def Let_def by simp
  have cached: "\<exists>c2. with_cache m (o_useCache ?T)
                  (\<lambda>cp. cache_set_list cp ?key rows ctx (or_default (o_cacheTTL ?T) 300)) w'
               = (Inr (), w'\<lparr>w_cache := c2\<rparr>)" if "w_cache w' = c1" for rows w'
  proof -
    obtain x c2 where s: "cache_set_list cp ?key rows ctx (or_default (o_cacheTTL cacheOptions) 300) c1 = (x, c2)"
      by (cases "cache_set_list cp ?key rows ctx (or_default (o_cacheTTL cacheOptions) 300) c1")
    with stored have "x = Inr ()" by (metis fst_conv)
    with s that cp show ?thesis by (auto simp: with_cache_def on_cache_def)
  qed
  have AB: "fst (try_catch (read_from_database m ?key table options ctx ?T) ?h ?w1)
          = fst (try_catch (read_from_database m ?key table options ctx ?F) ?h w)"
    by (rule read_from_database_transparent [where cm = c1])
       (use cached cp in \<open>simp_all add: with_cache_def\<close>)
  have AC: "fst (try_catch (read_from_database m ?key table options ctx ?T) ?h ?w1)
          = fst (try_catch (read_from_database ?m' ?key table options ctx cacheOptions) ?h w)"
    by (rule read_from_database_transparent [where cm = c1])
       (use cached cp in \<open>simp_all add: with_cache_def\<close>)
  from A B C AB AC show ?thesis by simp
qed

lemma same_but_db_refl: "same_but_db w w"
  by (simp add: same_but_db_def)

lemma sim_sim0: "sim same_but_db p q \<Longrightarrow> sim0 same_but_db p q"
  using same_but_db_refl by (fastforce simp: sim_def sim0_def)

lemma sim0_same_prefix:
  assumes "\<And>x. sim0 same_but_db (f x) (g x)"
  shows "sim0 same_but_db (do_then p f) (do_then p g)"
  unfolding sim0_def
proof
  fix w
  obtain a w' where p: "p w = (a, w')" by (cases "p w")
  show "fst (do_then p f w) = fst (do_then p g w) \<and> same_but_db (snd (do_then p f w)) (snd (do_then p g w))"
  proof (cases a)
    case (Inl e)
    then show ?thesis by (simp add: do_then_def p same_but_db_refl)
  next
    case (Inr x)
    with assms [of x] show ?thesis by (simp add: do_then_def p sim0_def)
  qed
qed

lemma sim0_try_catch:
  assumes "sim0 R p q" and "\<And>e. sim R (h e) (k e)"
  shows "sim0 R (try_catch p h) (try_catch q k)"
  unfolding sim0_def
proof
  fix w
  obtain a w1 where p: "p w = (a, w1)" by (cases "p w")
  obtain b w2 where q: "q w = (b, w2)" by (cases "q w")
  from assms(1) p q have q': "q w = (a, w2)" and r: "R w1 w2"
    by (auto simp: sim0_def dest: spec [of _ w])
  show "fst (try_catch p h w) = fst (try_catch q k w) \<and> R (snd (try_catch p h w)) (snd (try_catch q k w))"
  proof (cases a)
    case (Inl e)
    with simD [OF assms(2) r, of e] show ?thesis by (simp add: try_catch_def p q')
  next
    case (Inr x)
    with r show ?thesis by (simp add: try_catch_def p q')
  qed
qed

lemma sim_on_cache: "sim same_but_db (on_cache f) (on_cache f)"
  by (auto simp: sim_def same_but_db_def on_cache_def split: prod.splits)

lemma sim_on_analytics: "sim same_but_db (on_analytics f) (on_analytics f)"
  by (auto simp: sim_def same_but_db_def on_analytics_def split: prod.splits)

lemma sim_on_events: "sim same_but_db (on_events f) (on_events f)"
  by (auto simp: sim_def same_but_db_def on_events_def split: prod.splits)

lemma sim_with_cache: "sim same_but_db (with_cache m b f) (with_cache m b f)"
  unfolding with_cache_def by (auto split: option.splits intro: sim_on_cache sim_ret)

lemma sim_with_analytics: "sim same_but_db (with_analytics m b f) (with_analytics m b f)"
  unfolding with_analytics_def by (auto split: option.splits intro: sim_on_analytics sim_ret)

lemma sim_emit_event: "sim same_but_db (emit_event ep ty ctx payload) (emit_event ep ty ctx payload)"
  unfolding emit_event_def by (auto split: option.splits intro: sim_on_events sim_ret)

lemma sim_on_error: "sim same_but_db (on_error m b ev t ctx e) (on_error m b ev t ctx e)"
  unfolding on_error_def
  by (intro sim_do_then sim_with_analytics sim_if sim_throw sim_ret)

lemma sim_rethrow: "sim R (rethrow_or_result e) (rethrow_or_result e)"
  unfolding rethrow_or_result_def by (intro sim_if sim_throw sim_ret)

lemma sim_invalidate: "sim same_but_db (invalidateRelatedCache m t ctx) (invalidateRelatedCache m t ctx)"
  unfolding invalidateRelatedCache_def
  by (auto split: option.splits intro!: sim_try_catch sim_on_cache sim_ret)

lemma sim_track_two: "sim same_but_db (track_two m b ev c t i ctx) (track_two m b ev c t i ctx)"
  unfolding track_two_def by (intro sim_do_then sim_with_analytics)

lemma createAuditLog_returns: "fst (createAuditLog ad logData w) = Inr ()"
  by (auto simp: createAuditLog_def try_catch_def do_then_def next_date_def next_uuid_def
        on_db_def ret_def split: list.splits prod.splits sum.splits)

lemma createAuditLog_frame:
  "same_but_db (snd (createAuditLog ad logData w))
     (w\<lparr>w_clock := tl (w_clock w), w_uuids := tl (w_uuids w)\<rparr>)"
  by (auto simp: createAuditLog_def try_catch_def do_then_def next_date_def next_uuid_def
        on_db_def ret_def same_but_db_def split: list.splits prod.splits sum.splits)

lemma sim_createAuditLog: "sim same_but_db (createAuditLog ad logData) (createAuditLog ad' logData)"
proof (rule simI)
  fix w1 w2 :: "('a, 'b, 'c, 'd) world"
  assume r: "same_but_db w1 w2"
  from createAuditLog_frame [of ad logData w1] createAuditLog_frame [of ad' logData w2] r
  have "same_but_db (snd (createAuditLog ad logData w1)) (snd (createAuditLog ad' logData w2))"
    by (simp add: same_but_db_def)
  then show "fst (createAuditLog ad logData w1) = fst (createAuditLog ad' logData w2)
     \<and> same_but_db (snd (createAuditLog ad logData w1)) (snd (createAuditLog ad' logData w2))"
    by (simp add: createAuditLog_returns)
qed

lemma sim_audit_all:
  "sim same_but_db (audit_all ad ctx action table rows) (audit_all ad' ctx action table rows)"
proof (induction rows)
  case Nil
  have "audit_all ad ctx action table [] = ret ()" "audit_all ad' ctx action table [] = ret ()"
    by (rule ext, simp)+
  then show ?case by (simp add: sim_ret)
next
  case (Cons r rows)
  have "audit_all ad ctx action table (r # rows)
          = do_then (createAuditLog ad (audit_data ctx action table (map_of r ''id'') None (Some r)))
              (\<lambda>_. audit_all ad ctx action table rows)"
    and "audit_all ad' ctx action table (r # rows)
          = do_then (createAuditLog ad' (audit_data ctx action table (map_of r ''id'') None (Some r)))
              (\<lambda>_. audit_all ad' ctx action table rows)"
    by (rule ext, simp)+
  then show ?case using Cons.IH by (simp add: sim_do_then sim_createAuditLog)
qed

lemma failing_audit_differs: "audit_only_differs ad (failing_audit ad e)"
  by (simp add: audit_only_differs_def failing_audit_def)

lemma with_cache_adapter [simp]: "with_cache (m\<lparr>databaseAdapter := x\<rparr>) = with_cache m"
  by (rule ext)+ (simp add: with_cache_def)

lemma with_analytics_adapter [simp]: "with_analytics (m\<lparr>databaseAdapter := x\<rparr>) = with_analytics m"
  by (rule ext)+ (simp add: with_analytics_def)

lemma track_two_adapter [simp]: "track_two (m\<lparr>databaseAdapter := x\<rparr>) = track_two m"
  by (rule ext)+ (simp add: track_two_def)

lemma invalidate_adapter [simp]:
  "invalidateRelatedCache (m\<lparr>databaseAdapter := x\<rparr>) = invalidateRelatedCache m"
  by (rule ext)+ (simp add: invalidateRelatedCache_def)

lemma on_error_adapter [simp]: "on_error (m\<lparr>databaseAdapter := x\<rparr>) = on_error m"
  by (rule ext)+ (simp add: on_error_def)

lemma adapter_of_update: "databaseAdapter (m\<lparr>databaseAdapter := x\<rparr>) = x"
  by simp

lemma events_of_update: "eventProvider (m\<lparr>databaseAdapter := x\<rparr>) = eventProvider m"
  by simp

lemmas same_collaborators =
  adapter_of_update events_of_update with_cache_adapter with_analytics_adapter track_two_adapter
  invalidate_adapter on_error_adapter

lemmas sim_steps =
  sim_do_then sim_with_cache sim_with_analytics sim_track_two sim_invalidate sim_emit_event
  sim_createAuditLog sim_audit_all sim_ret sim_if

lemma v3_create_sim0:
  fixes m :: "('d, 'c, 'a, 'e) DataManagerV3"
  assumes "audit_only_differs (databaseAdapter m) ad'" and "table \<noteq> ''audit_logs''"
  shows "sim0 same_but_db (v3_create (m\<lparr>databaseAdapter := ad'\<rparr>) table rec ctx options)
           (v3_create m table rec ctx options)"
proof -
  from assms have c: "db_create ad' table = db_create (databaseAdapter m) table"
    by (simp add: audit_only_differs_def)
  show ?thesis
    unfolding v3_create_def same_collaborators c
    apply (rule sim0_try_catch)
     apply (rule sim0_same_prefix)
    subgoal for result
      by (cases "dr_data result") (auto intro!: sim_sim0 sim_steps)
    apply (rule sim_on_error)
    done
qed

lemma v3_update_sim0:
  fixes m :: "('d, 'c, 'a, 'e) DataManagerV3"
  assumes "audit_only_differs (databaseAdapter m) ad'"
  shows "sim0 same_but_db (v3_update (m\<lparr>databaseAdapter := ad'\<rparr>) table i updates ctx options)
           (v3_update m table i updates ctx options)"
proof -
  from assms have c: "db_read ad' = db_read (databaseAdapter m)" "db_update ad' = db_update (databaseAdapter m)"
    by (simp_all add: audit_only_differs_def)
  show ?thesis
    unfolding v3_update_def same_collaborators c
    apply (rule sim0_try_catch)
     apply (rule sim0_same_prefix)
     apply (rule sim0_same_prefix)
    subgoal for existing result
      by (cases "dr_data result") (auto intro!: sim_sim0 sim_steps)
    apply (rule sim_on_error)
    done
qed

lemma v3_delete_sim0:
  fixes m :: "('d, 'c, 'a, 'e) DataManagerV3"
  assumes "audit_only_differs (databaseAdapter m) ad'"
  shows "sim0 same_but_db (v3_delete (m\<lparr>databaseAdapter := ad'\<rparr>) table i ctx options)
           (v3_delete m table i ctx options)"
proof -
  from assms have c: "db_read ad' = db_read (databaseAdapter m)" "db_delete ad' = db_delete (databaseAdapter m)"
    by (simp_all add: audit_only_differs_def)
  show ?thesis
    unfolding v3_delete_def same_collaborators c
    apply (rule sim0_try_catch)
     apply (rule sim0_same_prefix)
     apply (rule sim0_same_prefix)
    subgoal for existing result
      by (auto intro!: sim_sim0 sim_steps)
    apply (rule sim_on_error)
    done
qed

lemma bulk_batches_adapter:
  fixes m :: "('d, 'c, 'a, 'e) DataManagerV3"
  assumes "db_bulkCreate ad' = db_bulkCreate (databaseAdapter m)"
  shows "bulk_batches (m\<lparr>databaseAdapter := ad'\<rparr>) table records ctx options batchSize i results w
           = bulk_batches m table records ctx options batchSize i results w"
  using assms
proof (induction m table records ctx options batchSize i results w rule: bulk_batches.induct)
  case (1 m table records ctx options batchSize i results w)
  have l: "bulk_batches (m\<lparr>databaseAdapter := ad'\<rparr>) table records ctx options batchSize i results w
      = (if i < length records \<and> 0 < batchSize
      then (case on_db (db_bulkCreate (databaseAdapter m) table (take batchSize (drop i records)) ctx) w of
              (Inl e, w1) \<Rightarrow> (Inl e, w1)
            | (Inr batchResult, w1) \<Rightarrow>
                (case dr_data batchResult of
                   Val rows \<Rightarrow>
                     (case with_cache m (\<not> o_skipCache options)
                             (\<lambda>cp. set_all (\<lambda>r. cache_set_one cp
                                                  (record_key table (template_text (map_of r ''id'')))
                                                  r ctx 3600) rows) w1 of
                        (Inl e, w2) \<Rightarrow> (Inl e, w2)
                      | (Inr _, w2) \<Rightarrow>
                          bulk_batches (m\<lparr>databaseAdapter := ad'\<rparr>) table records ctx options batchSize (i + batchSize)
                            (results @ rows) w2)
                 | _ \<Rightarrow>
                     bulk_batches (m\<lparr>databaseAdapter := ad'\<rparr>) table records ctx options batchSize (i + batchSize) results w1))
      else (Inr results, w))"
    by (subst bulk_batches.simps) (simp only: same_collaborators "1.prems")
  have r: "bulk_batches m table records ctx options batchSize i results w
      = (if i < length records \<and> 0 < batchSize
      then (case on_db (db_bulkCreate (databaseAdapter m) table (take batchSize (drop i records)) ctx) w of
              (Inl e, w1) \<Rightarrow> (Inl e, w1)
            | (Inr batchResult, w1) \<Rightarrow>
                (case dr_data batchResult of
                   Val rows \<Rightarrow>
                     (case with_cache m (\<not> o_skipCache options)
                             (\<lambda>cp. set_all (\<lambda>r. cache_set_one cp
                                                  (record_key table (template_text (map_of r ''id'')))
                                                  r ctx 3600) rows) w1 of
                        (Inl e, w2) \<Rightarrow> (Inl e, w2)
                      | (Inr _, w2) \<Rightarrow>
                          bulk_batches m table records ctx options batchSize (i + batchSize)
                            (results @ rows) w2)
                 | _ \<Rightarrow>
                     bulk_batches m table records ctx options batchSize (i + batchSize) results w1))
      else (Inr results, w))"
    by (rule bulk_batches.simps)
  note bulk_batches.simps [simp del]
  show ?case
  proof (cases "i < length records \<and> 0 < batchSize")
    case False
    then show ?thesis by (simp only: l r if_False)
  next
    case True
    obtain a w1 where step: "on_db (db_bulkCreate (databaseAdapter m) table (take batchSize (drop i records)) ctx) w = (a, w1)"
      by (cases "on_db (db_bulkCreate (databaseAdapter m) table (take batchSize (drop i records)) ctx) w")
    show ?thesis
    proof (cases a)
      case (Inl e)
      with True step show ?thesis by (simp add: l r)
    next
      case (Inr batchResult)
      show ?thesis
      proof (cases "dr_data batchResult")
        case (Val rows)
        obtain b w2 where cached: "with_cache m (\<not> o_skipCache options)
                             (\<lambda>cp. set_all (\<lambda>r. cache_set_one cp
                                                  (record_key table (template_text (map_of r ''id'')))
                                                  r ctx 3600) rows) w1 = (b, w2)"
          by (cases "with_cache m (\<not> o_skipCache options)
                             (\<lambda>cp. set_all (\<lambda>r. cache_set_one cp
                                                  (record_key table (template_text (map_of r ''id'')))
                                                  r ctx 3600) rows) w1")
        show ?thesis
        proof (cases b)
          case (Inl e)
          with True step Inr Val cached show ?thesis by (simp add: l r)
        next
          case (Inr u)
          from "1.IH"(3) [OF True step [symmetric, unfolded \<open>a = Inr batchResult\<close>] refl Val cached [symmetric, unfolded Inr] refl "1.prems"]
          have "bulk_batches (m\<lparr>databaseAdapter := ad'\<rparr>) table records ctx options batchSize (i + batchSize) (results @ rows) w2
              = bulk_batches m table records ctx options batchSize (i + batchSize) (results @ rows) w2"
            by simp
          with True step \<open>a = Inr batchResult\<close> Val cached Inr show ?thesis by (simp add: l r)
        qed
      next
        case Undefined
        from "1.IH"(1) [OF True step [symmetric, unfolded \<open>a = Inr batchResult\<close>] refl Undefined "1.prems"]
        have "bulk_batches (m\<lparr>databaseAdapter := ad'\<rparr>) table records ctx options batchSize (i + batchSize) results w1
            = bulk_batches m table records ctx options batchSize (i + batchSize) results w1"
          by simp
        with True step Inr Undefined show ?thesis by (simp add: l r)
      next
        case Null
        from "1.IH"(2) [OF True step [symmetric, unfolded \<open>a = Inr batchResult\<close>] refl Null "1.prems"]
        have "bulk_batches (m\<lparr>databaseAdapter := ad'\<rparr>) table records ctx options batchSize (i + batchSize) results w1
            = bulk_batches m table records ctx options batchSize (i + batchSize) results w1"
          by simp
        with True step Inr Null show ?thesis by (simp add: l r)
      qed
    qed
  qed
qed

lemma v3_bulkCreate_sim0:
  fixes m :: "('d, 'c, 'a, 'e) DataManagerV3"
  assumes "audit_only_differs (databaseAdapter m) ad'"
  shows "sim0 same_but_db (v3_bulkCreate (m\<lparr>databaseAdapter := ad'\<rparr>) table records ctx options)
           (v3_bulkCreate m table records ctx options)"
proof -
  from assms have c: "db_bulkCreate ad' = db_bulkCreate (databaseAdapter m)"
    by (simp add: audit_only_differs_def)
  have b: "bulk_batches (m\<lparr>databaseAdapter := ad'\<rparr>) table records ctx options
             (or_default (o_batchSize options) 100) 0 []
           = bulk_batches m table records ctx options (or_default (o_batchSize options) 100) 0 []"
    by (rule ext) (rule bulk_batches_adapter [OF c])
  show ?thesis
    unfolding v3_bulkCreate_def same_collaborators b
    apply (rule sim0_try_catch)
     apply (rule sim0_same_prefix)
     apply (intro sim_sim0 sim_steps)
    apply (rule sim_on_error)
    done
qed

lemma adapter2_of_update: "databaseAdapter2 (m\<lparr>databaseAdapter2 := x\<rparr>) = x"
  by simp

lemma events2_of_update: "eventProvider2 (m\<lparr>databaseAdapter2 := x\<rparr>) = eventProvider2 m"
  by simp

lemma v2_create_sim0:
  fixes m :: "('d, 'e) DataManagerV2"
  assumes "audit_only_differs (databaseAdapter2 m) ad'" and "table \<noteq> ''audit_logs''"
  shows "sim0 same_but_db (v2_create (m\<lparr>databaseAdapter2 := ad'\<rparr>) table rec ctx)
           (v2_create m table rec ctx :: ('d, 'c, 'a, 'e) world \<Rightarrow> (exn + row DataResult) \<times> ('d, 'c, 'a, 'e) world)"
proof -
  from assms have c: "db_create ad' table = db_create (databaseAdapter2 m) table"
    by (simp add: audit_only_differs_def)
  show ?thesis
    unfolding v2_create_def adapter2_of_update events2_of_update c
    apply (rule sim0_try_catch)
     apply (rule sim0_same_prefix)
    subgoal for result
      by (cases "dr_data result") (auto intro!: sim_sim0 sim_steps)
    apply (rule sim_rethrow)
    done
qed

lemma v2_update_sim0:
  fixes m :: "('d, 'e) DataManagerV2"
  assumes "audit_only_differs (databaseAdapter2 m) ad'"
  shows "sim0 same_but_db (v2_update (m\<lparr>databaseAdapter2 := ad'\<rparr>) table i updates ctx)
           (v2_update m table i updates ctx :: ('d, 'c, 'a, 'e) world \<Rightarrow> (exn + row DataResult) \<times> ('d, 'c, 'a, 'e) world)"
proof -
  from assms have c: "db_read ad' = db_read (databaseAdapter2 m)" "db_update ad' = db_update (databaseAdapter2 m)"
    by (simp_all add: audit_only_differs_def)
  show ?thesis
    unfolding v2_update_def adapter2_of_update events2_of_update c
    apply (rule sim0_try_catch)
     apply (rule sim0_same_prefix)
     apply (rule sim0_same_prefix)
    subgoal for existing result
      by (cases "dr_data result") (auto intro!: sim_sim0 sim_steps)
    apply (rule sim_rethrow)
    done
qed

lemma v2_delete_sim0:
  fixes m :: "('d, 'e) DataManagerV2"
  assumes "audit_only_differs (databaseAdapter2 m) ad'"
  shows "sim0 same_but_db (v2_delete (m\<lparr>databaseAdapter2 := ad'\<rparr>) table i ctx)
           (v2_delete m table i ctx :: ('d, 'c, 'a, 'e) world \<Rightarrow> (exn + unit DataResult) \<times> ('d, 'c, 'a, 'e) world)"
proof -
  from assms have c: "db_read ad' = db_read (databaseAdapter2 m)" "db_delete ad' = db_delete (databaseAdapter2 m)"
    by (simp_all add: audit_only_differs_def)
  show ?thesis
    unfolding v2_delete_def adapter2_of_update events2_of_update c
    apply (rule sim0_try_catch)
     apply (rule sim0_same_prefix)
     apply (rule sim0_same_prefix)
    subgoal for existing result
      by (auto intro!: sim_sim0 sim_steps)
    apply (rule sim_rethrow)
    done
qed

lemma v2_bulkCreate_sim0:
  fixes m :: "('d, 'e) DataManagerV2"
  assumes "audit_only_differs (databaseAdapter2 m) ad'"
  shows "sim0 same_but_db (v2_bulkCreate (m\<lparr>databaseAdapter2 := ad'\<rparr>) table records ctx)
           (v2_bulkCreate m table records ctx :: ('d, 'c, 'a, 'e) world \<Rightarrow> (exn + row list DataResult) \<times> ('d, 'c, 'a, 'e) world)"
proof -
  from assms have c: "db_bulkCreate ad' = db_bulkCreate (databaseAdapter2 m)"
    by (simp add: audit_only_differs_def)
  show ?thesis
    unfolding v2_bulkCreate_def adapter2_of_update events2_of_update c
    apply (rule sim0_try_catch)
     apply (rule sim0_same_prefix)
    subgoal for result
      by (cases "dr_data result") (auto intro!: sim_sim0 sim_steps)
    apply (rule sim_rethrow)
    done
qed

lemma sim0_fst: "sim0 R p q \<Longrightarrow> fst (p w) = fst (q w)"
  by (simp add: sim0_def)

text \<open>
  Claim C9. \<^verbatim>\<open>createAuditLog\<close> returns normally even when the adapter's write of the
  entry throws. For every table other than \<^verbatim>\<open>audit_logs\<close> itself, let the adapter's
  \<^verbatim>\<open>create\<close> on \<^verbatim>\<open>audit_logs\<close> throw an error \<open>e\<close> and leave the adapter otherwise as
  it is: from every state \<^verbatim>\<open>create\<close>, \<^verbatim>\<open>update\<close>, \<^verbatim>\<open>delete\<close> and \<^verbatim>\<open>bulkCreate\<close> of
  \<^verbatim>\<open>DataManagerV3\<close> and of \<^verbatim>\<open>DataManagerV2\<close> answer exactly what they answer when the
  audit write goes through.
\<close>

theorem audit_failure_never_propagates:
  fixes m :: "('d, 'c, 'a, 'e) DataManagerV3" and m2 :: "('d, 'e) DataManagerV2"
    and w :: "('d, 'c, 'a, 'e) world"
  assumes "table \<noteq> ''audit_logs''"
  shows "fst (createAuditLog (failing_audit (databaseAdapter m) e) logData w) = Inr ()
    \<and> fst (v3_create (m\<lparr>databaseAdapter := failing_audit (databaseAdapter m) e\<rparr>) table rec ctx options w)
        = fst (v3_create m table rec ctx options w)
    \<and> fst (v3_update (m\<lparr>databaseAdapter := failing_audit (databaseAdapter m) e\<rparr>) table i updates ctx options w)
        = fst (v3_update m table i updates ctx options w)
    \<and> fst (v3_delete (m\<lparr>databaseAdapter := failing_audit (databaseAdapter m) e\<rparr>) table i ctx options w)
        = fst (v3_delete m table i ctx options w)
    \<and> fst (v3_bulkCreate (m\<lparr>databaseAdapter := failing_audit (databaseAdapter m) e\<rparr>) table records ctx options w)
        = fst (v3_bulkCreate m table records ctx options w)
    \<and> fst (v2_create (m2\<lparr>databaseAdapter2 := failing_audit (databaseAdapter2 m2) e\<rparr>) table rec ctx w)
        = fst (v2_create m2 table rec ctx w)
    \<and> fst (v2_update (m2\<lparr>databaseAdapter2 := failing_audit (databaseAdapter2 m2) e\<rparr>) table i updates ctx w)
        = fst (v2_update m2 table i updates ctx w)
    \<and> fst (v2_delete (m2\<lparr>databaseAdapter2 := failing_audit (databaseAdapter2 m2) e\<rparr>) table i ctx w)
        = fst (v2_delete m2 table i ctx w)
    \<and> fst (v2_bulkCreate (m2\<lparr>databaseAdapter2 := failing_audit (databaseAdapter2 m2) e\<rparr>) table records ctx w)
        = fst (v2_bulkCreate m2 table records ctx w)"
proof (intro conjI)
  show "fst (createAuditLog (failing_audit (databaseAdapter m) e) logData w) = Inr ()"
    by (rule createAuditLog_returns)
  show "fst (v3_create (m\<lparr>databaseAdapter := failing_audit (databaseAdapter m) e\<rparr>) table rec ctx options w)
        = fst (v3_create m table rec ctx options w)"
    by (rule sim0_fst [OF v3_create_sim0 [OF failing_audit_differs assms]])
  show "fst (v3_update (m\<lparr>databaseAdapter := failing_audit (databaseAdapter m) e\<rparr>) table i updates ctx options w)
        = fst (v3_update m table i updates ctx options w)"
    by (rule sim0_fst [OF v3_update_sim0 [OF failing_audit_differs]])
  show "fst (v3_delete (m\<lparr>databaseAdapter := failing_audit (databaseAdapter m) e\<rparr>) table i ctx options w)
        = fst (v3_delete m table i ctx options w)"
    by (rule sim0_fst [OF v3_delete_sim0 [OF failing_audit_differs]])
  show "fst (v3_bulkCreate (m\<lparr>databaseAdapter := failing_audit (databaseAdapter m) e\<rparr>) table records ctx options w)
        = fst (v3_bulkCreate m table records ctx options w)"
    by (rule sim0_fst [OF v3_bulkCreate_sim0 [OF failing_audit_differs]])
  show "fst (v2_create (m2\<lparr>databaseAdapter2 := failing_audit (databaseAdapter2 m2) e\<rparr>) table rec ctx w)
        = fst (v2_create m2 table rec ctx w)"
    by (rule sim0_fst [OF v2_create_sim0 [OF failing_audit_differs assms]])
  show "fst (v2_update (m2\<lparr>databaseAdapter2 := failing_audit (databaseAdapter2 m2) e\<rparr>) table i updates ctx w)
        = fst (v2_update m2 table i updates ctx w)"
    by (rule sim0_fst [OF v2_update_sim0 [OF failing_audit_differs]])
  show "fst (v2_delete (m2\<lparr>databaseAdapter2 := failing_audit (databaseAdapter2 m2) e\<rparr>) table i ctx w)
        = fst (v2_delete m2 table i ctx w)"
    by (rule sim0_fst [OF v2_delete_sim0 [OF failing_audit_differs]])
  show "fst (v2_bulkCreate (m2\<lparr>databaseAdapter2 := failing_audit (databaseAdapter2 m2) e\<rparr>) table records ctx w)
        = fst (v2_bulkCreate m2 table records ctx w)"
    by (rule sim0_fst [OF v2_bulkCreate_sim0 [OF failing_audit_differs]])
qed

text \<open>
  An adapter whose audit table is unavailable: the project is created and answered as
  the PostgreSQL adapter stored it.
\<close>

theorem audit_failure_never_propagates_witness:
  "''projects'' \<noteq> ''audit_logs''
   \<and> fst (db_create (failing_audit pg_adapter audit_down) ''audit_logs'' [] (ctx_of ''A'') empty_tables)
       = Inl audit_down
   \<and> fst (v3_create ((bare_facade pg_adapter)
                        \<lparr>databaseAdapter := failing_audit (databaseAdapter (bare_facade pg_adapter)) audit_down\<rparr>)
            ''projects'' [(''name'', Str ''one'')] (ctx_of ''A'') default_options (bare_world empty_tables))
       = Inr (ok_result project_one)"
proof -
  have h: "''projects'' \<noteq> ''audit_logs''"
    by simp
  have thrown: "fst (db_create (failing_audit pg_adapter audit_down) ''audit_logs'' [] (ctx_of ''A'') empty_tables)
       = Inl audit_down"
    by (simp add: failing_audit_def)
  have plain: "fst (v3_create (bare_facade pg_adapter) ''projects'' [(''name'', Str ''one'')] (ctx_of ''A'')
                      default_options (bare_world empty_tables))
       = Inr (ok_result project_one)"
    by code_simp
  have "fst (v3_create ((bare_facade pg_adapter)
                        \<lparr>databaseAdapter := failing_audit (databaseAdapter (bare_facade pg_adapter)) audit_down\<rparr>)
            ''projects'' [(''name'', Str ''one'')] (ctx_of ''A'') default_options (bare_world empty_tables))
       = fst (v3_create (bare_facade pg_adapter) ''projects'' [(''name'', Str ''one'')] (ctx_of ''A'')
                      default_options (bare_world empty_tables))"
    using audit_failure_never_propagates [OF h, where m = "bare_facade pg_adapter" and e = audit_down]
    by blast
  with h thrown plain show ?thesis
    by simp
qed

text \<open>
  The first read of a cold in-memory cache answers the row and the count 2, as do the
  read with the cache disabled and the read of the facade without a cache.
\<close>

theorem cache_miss_is_transparent_witness:
  "cacheProvider cached_facade = Some memory_cache
   \<and> fst (v3_read cached_facade empty_json ''projects'' first_page (ctx_of ''A'')
            (cache_on\<lparr>o_useCache := True\<rparr>) cold_world)
       = Inr \<lparr>dr_data = Val [project_one], dr_count = Some 2, dr_error = None\<rparr>
   \<and> fst (v3_read cached_facade empty_json ''projects'' first_page (ctx_of ''A'')
            (cache_on\<lparr>o_useCache := False\<rparr>) cold_world)
       = Inr \<lparr>dr_data = Val [project_one], dr_count = Some 2, dr_error = None\<rparr>
   \<and> fst (v3_read (cached_facade\<lparr>cacheProvider := None\<rparr>) empty_json ''projects'' first_page (ctx_of ''A'')
            cache_on cold_world)
       = Inr \<lparr>dr_data = Val [project_one], dr_count = Some 2, dr_error = None\<rparr>"
proof -
  have cp: "cacheProvider cached_facade = Some memory_cache"
    by (simp add: cached_facade_def)
  have miss: "cache_get_list memory_cache
                (read_cache_key empty_json ''projects'' first_page (ctx_of ''A'') cache_on)
                (ctx_of ''A'') (w_cache cold_world) = (Inr None, [])"
    by (simp add: memory_cache_def cold_world_def)
  have stored: "\<forall>rows. fst (cache_set_list memory_cache
                (read_cache_key empty_json ''projects'' first_page (ctx_of ''A'') cache_on)
                rows (ctx_of ''A'') (or_default (o_cacheTTL cache_on) 300) []) = Inr ()"
    by (simp add: memory_cache_def)
  have off: "fst (v3_read cached_facade empty_json ''projects'' first_page (ctx_of ''A'')
            (cache_on\<lparr>o_useCache := False\<rparr>) cold_world)
       = Inr \<lparr>dr_data = Val [project_one], dr_count = Some 2, dr_error = None\<rparr>"
    by code_simp
  note agree = cache_miss_is_transparent [OF cp miss stored]
  from agree [THEN conjunct1] off
  have on: "fst (v3_read cached_facade empty_json ''projects'' first_page (ctx_of ''A'')
            (cache_on\<lparr>o_useCache := True\<rparr>) cold_world)
       = Inr \<lparr>dr_data = Val [project_one], dr_count = Some 2, dr_error = None\<rparr>"
    by (rule trans)
  from agree [THEN conjunct2, symmetric] on
  have absent: "fst (v3_read (cached_facade\<lparr>cacheProvider := None\<rparr>) empty_json ''projects'' first_page
            (ctx_of ''A'') cache_on cold_world)
       = Inr \<lparr>dr_data = Val [project_one], dr_count = Some 2, dr_error = None\<rparr>"
    by (rule trans)
  from cp on off absent show ?thesis
    by (intro conjI)
qed

end
